(* ===== verification/Prelude.thy ===== *)
theory Prelude
  imports Main "HOL-Library.Multiset" "HOL-Library.Sublist"
begin

text \<open>
  Shared vocabulary of the SFU model: the names of the identifiers the JavaScript code
  passes around as strings, the collection of rewrite rules that unfold the effect
  projections, and list lemmas used by several components.
\<close>

type_synonym candidate = string
type_synonym media_id = string
type_synonym sdp = string
type_synonym conn_id = string
type_synonym session_key = string

text \<open>
  JavaScript tests an identifier with \<open>if (x)\<close>: \<open>null\<close> and the empty string are
  both false.  \<open>truthy_id\<close> returns the identifier only when such a test passes.
\<close>

fun truthy_id :: "string option \<Rightarrow> string option" where
  "truthy_id None = None"
| "truthy_id (Some x) = (if x = [] then None else Some x)"

lemma truthy_id_Some [simp]: "truthy_id m = Some x \<longleftrightarrow> m = Some x \<and> x \<noteq> []"
  by (cases m) auto

lemma truthy_id_None_if: "m = None \<Longrightarrow> truthy_id m = None"
  by simp

named_theorems effect_simps "projections of effect logs onto one kind of effect"
named_theorems step_simps "unfolding of the per-component step functions"

text \<open>Appending to a list known to be a prefix keeps the prefix relation.\<close>

lemma prefix_append_right [intro]:
  "prefix xs ys \<Longrightarrow> prefix xs (ys @ zs)"
  by (auto simp: prefix_def)

end
