(* ===== verification/Sfu_Interface.thy ===== *)
theory Sfu_Interface
  imports Prelude
begin

text \<open>
  The interfaces the components of the SFU share: the error catalogue
  (\<open>src/lib/base/errors.js\<close>, not under \<open>src/\<close> of this snapshot, so modelled from
  the spec, section 7), the calls the components make on the Media Control Server
  gateway (spec section 6), the frames sent to a client connection, the calls made
  on a softswitch bridge, and the events a provider emits to its owner.  Every
  component returns the list of these effects, in the order the code performs them.
\<close>

datatype sfu_error =
    MEDIA_SERVER_OFFLINE
  | SFU_INVALID_REQUEST
  | PERMISSION_DENIED nat
  | NEGOTIATION_FAILED
  | MEDIA_TIMEOUT
  | RawError string

text \<open>
  \<open>_handleError\<close> (base provider and base manager) maps every error to a catalogued
  one: catalogued errors are kept, anything raw (an exception of the MCS client) becomes
  \<open>NEGOTIATION_FAILED\<close>, as spec section 7 says for RPC failures during start.
\<close>

fun normalize_error :: "sfu_error \<Rightarrow> sfu_error" where
  "normalize_error (RawError _) = NEGOTIATION_FAILED"
| "normalize_error e = e"

fun catalogued :: "sfu_error \<Rightarrow> bool" where
  "catalogued (RawError _) = False"
| "catalogued _ = True"

datatype mcs_event_kind = MEDIA_STATE | MEDIA_STATE_ICE

datatype mcs_call =
    WaitForConnection
  | Join string string
  | Publish "string option" string sdp
  | Consume "media_id option" "media_id option"
  | Connect "media_id option" "media_id option"
  | AddIceCandidate "media_id option" candidate
  | Unpublish string media_id
  | RestartIce "media_id option"
  | OnEvent mcs_event_kind media_id
  | Subscribe string sdp

datatype frame =
    IceCandidateFrame candidate
  | WebRTCAudioSuccess
  | WebRTCAudioError nat
  | CloseFrame
  | StartResponse string string sdp
  | ErrorFrame sfu_error

datatype bridge_call =
    BridgeStart media_id
  | BridgeStop
  | BridgeDetach
  | BridgeDtmf string
  | ConsumerBridgeStart string

datatype up_event = UpMediaServerOffline

datatype video_call =
    VideoStart sdp "nat option"
  | VideoIce candidate
  | VideoAnswer sdp
  | VideoStop
  | PermissionQuery string

datatype effect =
    Mcs mcs_call
  | Client conn_id frame
  | Bridge bridge_call
  | Emit up_event
  | Video string video_call

text \<open>Projections of an effect log.\<close>

fun ice_sent :: "effect list \<Rightarrow> candidate list" where
  "ice_sent [] = []"
| "ice_sent (Mcs (AddIceCandidate _ c) # es) = c # ice_sent es"
| "ice_sent (_ # es) = ice_sent es"

fun frames_to :: "conn_id \<Rightarrow> effect list \<Rightarrow> frame list" where
  "frames_to k [] = []"
| "frames_to k (Client k' f # es) = (if k' = k then f # frames_to k es else frames_to k es)"
| "frames_to k (_ # es) = frames_to k es"

fun mcs_calls :: "effect list \<Rightarrow> mcs_call list" where
  "mcs_calls [] = []"
| "mcs_calls (Mcs c # es) = c # mcs_calls es"
| "mcs_calls (_ # es) = mcs_calls es"

lemma ice_sent_append [simp, effect_simps]: "ice_sent (xs @ ys) = ice_sent xs @ ice_sent ys"
  by (induction xs rule: ice_sent.induct) simp_all

lemma frames_to_append [simp, effect_simps]:
  "frames_to k (xs @ ys) = frames_to k xs @ frames_to k ys"
  by (induction k xs rule: frames_to.induct) simp_all

lemma mcs_calls_append [simp, effect_simps]: "mcs_calls (xs @ ys) = mcs_calls xs @ mcs_calls ys"
  by (induction xs rule: mcs_calls.induct) simp_all

lemma ice_sent_map_add [simp, effect_simps]:
  "ice_sent (map (\<lambda>c. Mcs (AddIceCandidate m c)) cs) = cs"
  by (induction cs) simp_all

lemma normalize_error_catalogued [simp]: "catalogued (normalize_error e)"
  by (cases e) simp_all

lemma normalize_error_idem [simp]: "normalize_error (normalize_error e) = normalize_error e"
  by (cases e) simp_all

end
