(* ===== verification/Transceiver.thy ===== *)
theory Transceiver
  imports Sfu_Interface
begin

text \<open>
  The full-audio endpoint \<open>ClientAudioStTransceiver\<close>
  (\<open>src/lib/audio/client-static-transceiver.js\<close>, lines 16--444).  Its fields become
  the record \<open>transceiver\<close>; each method becomes a function from the record to the new
  record and the effects the method performs.  The asynchronous \<open>start\<close> is split at
  each \<open>await\<close>: \<open>tr_phase\<close> records which reply the suspended call waits for, and each
  reply is a step of its own, so that ICE candidates, media events and \<open>stop\<close> can
  interleave with it as they do on the event loop.
\<close>

datatype timer = Unarmed | Armed | Expired

text \<open>
  A watchdog field holds the handle of \<open>setTimeout\<close>.  \<open>Expired\<close> is a handle whose
  callback has run: the code never resets the field to \<open>null\<close> in the callback.
\<close>

datatype tbridge = TBridge "media_id option"

datatype start_phase =
    Idle
  | AwaitConnection sdp
  | AwaitJoin sdp
  | AwaitPublish
  | AwaitBridge media_id
  | AwaitConsume media_id
  | StartDone "sfu_error + sdp"

record transceiver =
  tr_meeting_id :: string
  tr_voice_bridge :: string
  tr_user_id :: string
  tr_connection_id :: conn_id
  tr_mcs_user_id :: "string option"
  tr_media_id :: "media_id option"
  tr_flow_timeout :: timer
  tr_state_timeout :: timer
  tr_candidates :: "candidate list"
  tr_bridge :: "tbridge option"
  tr_mcs_listener :: bool
  tr_media_handlers :: "media_id option"
  tr_phase :: start_phase
  tr_stops_waiting :: nat

definition new_transceiver :: "string \<Rightarrow> string \<Rightarrow> string \<Rightarrow> conn_id \<Rightarrow> transceiver" where
  "new_transceiver meeting vb uid conn =
     \<lparr>tr_meeting_id = meeting, tr_voice_bridge = vb, tr_user_id = uid,
      tr_connection_id = conn, tr_mcs_user_id = None, tr_media_id = None,
      tr_flow_timeout = Unarmed, tr_state_timeout = Unarmed, tr_candidates = [],
      tr_bridge = Some (TBridge None), tr_mcs_listener = True,
      tr_media_handlers = None, tr_phase = Idle, tr_stops_waiting = 0\<rparr>"

type_synonym tr_result = "transceiver \<times> effect list"

definition to_client :: "transceiver \<Rightarrow> frame \<Rightarrow> effect" where
  "to_client s f = Client (tr_connection_id s) f"

subsection \<open>ICE handlers\<close>

definition flush_candidates_queue :: "transceiver \<Rightarrow> tr_result" where
  "flush_candidates_queue s =
     (case truthy_id (tr_media_id s) of
        None \<Rightarrow> (s, [])
      | Some m \<Rightarrow> (s\<lparr>tr_candidates := []\<rparr>,
                   map (\<lambda>c. Mcs (AddIceCandidate (Some m) c)) (tr_candidates s)))"

definition on_ice_candidate :: "candidate \<Rightarrow> transceiver \<Rightarrow> tr_result" where
  "on_ice_candidate c s =
     (case truthy_id (tr_media_id s) of
        None \<Rightarrow> (s\<lparr>tr_candidates := tr_candidates s @ [c]\<rparr>, [])
      | Some m \<Rightarrow>
          (let (s', es) = flush_candidates_queue s
           in (s', es @ [Mcs (AddIceCandidate (Some m) c)])))"

subsection \<open>Media watchdogs\<close>

fun set_timeout :: "timer \<Rightarrow> timer" where
  "set_timeout Unarmed = Armed"
| "set_timeout t = t"

text \<open>
  \<open>clearMediaFlowingTimeout\<close> and \<open>clearMediaStateTimeout\<close>: a set handle, armed or
  already fired, is cleared and reset to \<open>null\<close>.
\<close>

definition clear_media_flowing_timeout :: "transceiver \<Rightarrow> transceiver" where
  "clear_media_flowing_timeout s = s\<lparr>tr_flow_timeout := Unarmed\<rparr>"

definition clear_media_state_timeout :: "transceiver \<Rightarrow> transceiver" where
  "clear_media_state_timeout s = s\<lparr>tr_state_timeout := Unarmed\<rparr>"

definition on_media_flowing :: "transceiver \<Rightarrow> tr_result" where
  "on_media_flowing s =
     (clear_media_flowing_timeout s, [to_client s WebRTCAudioSuccess])"

definition on_media_not_flowing :: "transceiver \<Rightarrow> tr_result" where
  "on_media_not_flowing s = (s\<lparr>tr_flow_timeout := set_timeout (tr_flow_timeout s)\<rparr>, [])"

definition on_media_connected :: "transceiver \<Rightarrow> tr_result" where
  "on_media_connected s = (clear_media_state_timeout s, [])"

definition on_media_disconnected :: "transceiver \<Rightarrow> tr_result" where
  "on_media_disconnected s = (s\<lparr>tr_state_timeout := set_timeout (tr_state_timeout s)\<rparr>, [])"

text \<open>
  The callbacks of the two \<open>setTimeout\<close>s.  A cleared timer never calls back, so the
  callback only runs on an armed handle; it sends error 2211 and leaves the handle set.
\<close>

definition flow_timeout_expired :: "transceiver \<Rightarrow> tr_result" where
  "flow_timeout_expired s =
     (if tr_flow_timeout s = Armed
      then (s\<lparr>tr_flow_timeout := Expired\<rparr>, [to_client s (WebRTCAudioError 2211)])
      else (s, []))"

definition state_timeout_expired :: "transceiver \<Rightarrow> tr_result" where
  "state_timeout_expired s =
     (if tr_state_timeout s = Armed
      then (s\<lparr>tr_state_timeout := Expired\<rparr>, [to_client s (WebRTCAudioError 2211)])
      else (s, []))"

subsection \<open>Media state handlers\<close>

datatype media_state_name =
    MediaStateChanged
  | MediaFlowOutStateChange
  | MediaFlowInStateChange
  | MediaServerOfflineState
  | OtherState string

definition handle_media_state_changed :: "string \<Rightarrow> transceiver \<Rightarrow> tr_result" where
  "handle_media_state_changed details s =
     (if details = ''CONNECTED'' then on_media_connected s
      else if details = ''DISCONNECTED'' then on_media_disconnected s
      else (s, []))"

definition media_state_webrtc ::
  "media_id \<Rightarrow> media_state_name \<Rightarrow> string \<Rightarrow> media_id \<Rightarrow> transceiver \<Rightarrow> tr_result" where
  "media_state_webrtc mid name details target s =
     (if mid \<noteq> target then (s, [])
      else (case name of
              MediaStateChanged \<Rightarrow> handle_media_state_changed details s
            | MediaFlowOutStateChange \<Rightarrow>
                (if details = ''FLOWING'' then on_media_flowing s else on_media_not_flowing s)
            | MediaFlowInStateChange \<Rightarrow>
                (if details = ''FLOWING'' then on_media_flowing s else on_media_not_flowing s)
            | MediaServerOfflineState \<Rightarrow> (s, [Emit UpMediaServerOffline])
            | OtherState _ \<Rightarrow> (s, [])))"

definition mcs_ice_candidate :: "media_id \<Rightarrow> candidate \<Rightarrow> media_id \<Rightarrow> transceiver \<Rightarrow> tr_result" where
  "mcs_ice_candidate mid c target s =
     (if mid \<noteq> target then (s, []) else (s, [to_client s (IceCandidateFrame c)]))"

subsection \<open>Start: the negotiation, one step per awaited reply\<close>

text \<open>
  \<open>start\<close> and \<open>_negotiateTransceiver\<close>: every throw ends the call with the
  normalized error (\<open>_handleError\<close>), which the caller receives.  The session calls
  \<open>start\<close> once on the endpoint it has just built, so \<open>tr_start\<close> runs from \<open>Idle\<close>.
\<close>

definition start_failed :: "sfu_error \<Rightarrow> transceiver \<Rightarrow> tr_result" where
  "start_failed e s = (s\<lparr>tr_phase := StartDone (Inl (normalize_error e))\<rparr>, [])"

definition tr_start :: "sdp \<Rightarrow> transceiver \<Rightarrow> tr_result" where
  "tr_start offer s =
     (if tr_phase s = Idle then (s\<lparr>tr_phase := AwaitConnection offer\<rparr>, [Mcs WaitForConnection])
      else (s, []))"

definition on_wait_connection :: "bool \<Rightarrow> transceiver \<Rightarrow> tr_result" where
  "on_wait_connection ok s =
     (case tr_phase s of
        AwaitConnection offer \<Rightarrow>
          (if \<not> ok then start_failed MEDIA_SERVER_OFFLINE s
           else (s\<lparr>tr_phase := AwaitJoin offer\<rparr>,
                 [Mcs (Join (tr_voice_bridge s) (tr_user_id s))]))
      | _ \<Rightarrow> (s, []))"

definition on_join :: "sfu_error + string \<Rightarrow> transceiver \<Rightarrow> tr_result" where
  "on_join r s =
     (case tr_phase s of
        AwaitJoin offer \<Rightarrow>
          (case r of
             Inl e \<Rightarrow> start_failed e s
           | Inr u \<Rightarrow> (s\<lparr>tr_mcs_user_id := Some u, tr_phase := AwaitPublish\<rparr>,
                       [Mcs (Publish (Some u) (tr_voice_bridge s) offer)]))
      | _ \<Rightarrow> (s, []))"

definition on_publish :: "sfu_error + media_id \<Rightarrow> transceiver \<Rightarrow> tr_result" where
  "on_publish r s =
     (case tr_phase s of
        AwaitPublish \<Rightarrow>
          (case r of
             Inl e \<Rightarrow> start_failed e s
           | Inr m \<Rightarrow>
               (case tr_bridge s of
                  None \<Rightarrow> start_failed (RawError ''TypeError'') (s\<lparr>tr_media_id := Some m\<rparr>)
                | Some _ \<Rightarrow> (s\<lparr>tr_media_id := Some m, tr_phase := AwaitBridge m\<rparr>,
                             [Bridge (BridgeStart m)])))
      | _ \<Rightarrow> (s, []))"

definition on_bridge_started :: "sfu_error + media_id \<Rightarrow> transceiver \<Rightarrow> tr_result" where
  "on_bridge_started r s =
     (case tr_phase s of
        AwaitBridge m \<Rightarrow>
          (case r of
             Inl e \<Rightarrow> start_failed e s
           | Inr b \<Rightarrow>
               (case tr_bridge s of
                  None \<Rightarrow> start_failed (RawError ''TypeError'') s
                | Some _ \<Rightarrow> (s\<lparr>tr_bridge := Some (TBridge (Some b)), tr_phase := AwaitConsume m\<rparr>,
                             [Mcs (Consume (Some b) (tr_media_id s))])))
      | _ \<Rightarrow> (s, []))"

definition on_consume :: "sfu_error + sdp \<Rightarrow> transceiver \<Rightarrow> tr_result" where
  "on_consume r s =
     (case tr_phase s of
        AwaitConsume m \<Rightarrow>
          (case r of
             Inl e \<Rightarrow> start_failed e s
           | Inr answer \<Rightarrow>
               (case tr_bridge s of
                  None \<Rightarrow> start_failed (RawError ''TypeError'') s
                | Some (TBridge b) \<Rightarrow>
                    (let s1 = s\<lparr>tr_media_handlers := Some m\<rparr>;
                         (s2, es) = flush_candidates_queue s1
                     in (s2\<lparr>tr_phase := StartDone (Inr answer)\<rparr>,
                         [Mcs (Connect (tr_media_id s) b), Mcs (Connect b (tr_media_id s)),
                          Mcs (OnEvent MEDIA_STATE m), Mcs (OnEvent MEDIA_STATE_ICE m)] @ es))))
      | _ \<Rightarrow> (s, []))"

subsection \<open>Renegotiation, DTMF, ICE restart, stop\<close>

definition process_answer :: "sdp \<Rightarrow> transceiver \<Rightarrow> tr_result" where
  "process_answer answer s =
     (case truthy_id (tr_media_id s) of
        None \<Rightarrow> (s, [])
      | Some _ \<Rightarrow> (s, [Mcs (Publish (tr_mcs_user_id s) (tr_voice_bridge s) answer)]))"

definition tr_dtmf :: "string \<Rightarrow> transceiver \<Rightarrow> string \<times> effect list" where
  "tr_dtmf tones s =
     (case tr_bridge s of None \<Rightarrow> ([], []) | Some _ \<Rightarrow> (tones, [Bridge (BridgeDtmf tones)]))"

definition tr_restart_ice :: "transceiver \<Rightarrow> tr_result" where
  "tr_restart_ice s = (s, [Mcs (RestartIce (tr_media_id s))])"

text \<open>\<open>_untrackMCSEvents\<close>: the \<open>MCS_DISCONNECTED\<close> listener is removed.\<close>

definition untrack_mcs_events :: "transceiver \<Rightarrow> transceiver" where
  "untrack_mcs_events s = s\<lparr>tr_mcs_listener := False\<rparr>"

text \<open>
  \<open>finalDetachEventListeners\<close>: \<open>_untrackMCSEvents\<close>, then
  \<open>removeAllListeners\<close> of the endpoint's own emitter, whose listeners belong to the
  session (modelled there).
\<close>

definition tr_final_detach :: "transceiver \<Rightarrow> transceiver" where
  "tr_final_detach s = untrack_mcs_events s"

text \<open>
  The setter \<open>transceiverBridge\<close>: setting it to \<open>null\<close> while a bridge is held
  detaches the bridge's listeners first.
\<close>

definition set_transceiver_bridge :: "tbridge option \<Rightarrow> transceiver \<Rightarrow> tr_result" where
  "set_transceiver_bridge b s =
     (s\<lparr>tr_bridge := b\<rparr>, if b = None \<and> tr_bridge s \<noteq> None then [Bridge BridgeDetach] else [])"

text \<open>
  \<open>stop\<close>: the queue and both watchdogs are reset and the \<open>MCS_DISCONNECTED\<close>
  listener is removed; the \<open>MEDIA_STATE\<close> and \<open>MEDIA_STATE_ICE\<close> handlers registered
  by \<open>_negotiateTransceiver\<close> are not, and \<open>mediaId\<close> is kept.  When the endpoint has
  a media id and an MCS user id, \<open>stop\<close> awaits \<open>mcs.unpublish\<close>: it is split at that
  await, \<open>tr_stops_waiting\<close> counts the calls of \<open>stop\<close> suspended there, and the
  bridge is only released when the reply comes (\<open>on_unpublished\<close>).  A failed
  \<open>unpublish\<close> is logged and swallowed, so the reply's outcome does not change the
  result.
\<close>

definition stop_suspends :: "transceiver \<Rightarrow> bool" where
  "stop_suspends s \<longleftrightarrow> truthy_id (tr_media_id s) \<noteq> None \<and> truthy_id (tr_mcs_user_id s) \<noteq> None"

text \<open>The tail of \<open>stop\<close>: \<open>transceiverBridge.stop()\<close>, then the setter with \<open>null\<close>.\<close>

definition tr_release_bridge :: "transceiver \<Rightarrow> tr_result" where
  "tr_release_bridge s =
     (case tr_bridge s of
        None \<Rightarrow> (s, [])
      | Some _ \<Rightarrow> (let (s2, es) = set_transceiver_bridge None s in (s2, Bridge BridgeStop # es)))"

definition tr_stop :: "transceiver \<Rightarrow> tr_result" where
  "tr_stop s =
     (let s1 = untrack_mcs_events (clear_media_state_timeout (clear_media_flowing_timeout
                 (s\<lparr>tr_candidates := []\<rparr>)))
      in (case (truthy_id (tr_media_id s), truthy_id (tr_mcs_user_id s)) of
            (Some m, Some u) \<Rightarrow> (s1\<lparr>tr_stops_waiting := Suc (tr_stops_waiting s1)\<rparr>, [Mcs (Unpublish u m)])
          | _ \<Rightarrow> tr_release_bridge s1))"

text \<open>The reply of \<open>mcs.unpublish\<close>, success or failure, resumes one suspended \<open>stop\<close>.\<close>

definition on_unpublished :: "sfu_error option \<Rightarrow> transceiver \<Rightarrow> tr_result" where
  "on_unpublished r s =
     (case tr_stops_waiting s of
        0 \<Rightarrow> (s, [])
      | Suc n \<Rightarrow> tr_release_bridge (s\<lparr>tr_stops_waiting := n\<rparr>))"

definition mcs_disconnected :: "transceiver \<Rightarrow> tr_result" where
  "mcs_disconnected s = (if tr_mcs_listener s then (s, [Emit UpMediaServerOffline]) else (s, []))"

subsection \<open>The endpoint as a step function\<close>

datatype tr_event =
    TrStart sdp
  | TrConnection bool
  | TrJoin "sfu_error + string"
  | TrPublish "sfu_error + media_id"
  | TrBridgeStart "sfu_error + media_id"
  | TrConsume "sfu_error + sdp"
  | TrIce candidate
  | TrMediaState media_id media_state_name string
  | TrMcsIce media_id candidate
  | TrFlowTimeout
  | TrStateTimeout
  | TrProcessAnswer sdp
  | TrDtmf string
  | TrRestartIce
  | TrStop
  | TrUnpublished "sfu_error option"
  | TrMcsDisconnected

fun tr_step :: "transceiver \<Rightarrow> tr_event \<Rightarrow> tr_result" where
  "tr_step s (TrStart offer) = tr_start offer s"
| "tr_step s (TrConnection ok) = on_wait_connection ok s"
| "tr_step s (TrJoin r) = on_join r s"
| "tr_step s (TrPublish r) = on_publish r s"
| "tr_step s (TrBridgeStart r) = on_bridge_started r s"
| "tr_step s (TrConsume r) = on_consume r s"
| "tr_step s (TrIce c) = on_ice_candidate c s"
| "tr_step s (TrMediaState mid name details) =
     (case tr_media_handlers s of
        None \<Rightarrow> (s, [])
      | Some target \<Rightarrow> media_state_webrtc mid name details target s)"
| "tr_step s (TrMcsIce mid c) =
     (case tr_media_handlers s of
        None \<Rightarrow> (s, [])
      | Some target \<Rightarrow> mcs_ice_candidate mid c target s)"
| "tr_step s TrFlowTimeout = flow_timeout_expired s"
| "tr_step s TrStateTimeout = state_timeout_expired s"
| "tr_step s (TrProcessAnswer a) = process_answer a s"
| "tr_step s (TrDtmf tones) = (s, snd (tr_dtmf tones s))"
| "tr_step s TrRestartIce = tr_restart_ice s"
| "tr_step s TrStop = tr_stop s"
| "tr_step s (TrUnpublished r) = on_unpublished r s"
| "tr_step s TrMcsDisconnected = mcs_disconnected s"

fun tr_run :: "transceiver \<Rightarrow> tr_event list \<Rightarrow> tr_result" where
  "tr_run s [] = (s, [])"
| "tr_run s (e # es) =
     (let (s1, out1) = tr_step s e; (s2, out2) = tr_run s1 es in (s2, out1 @ out2))"

fun ice_arrivals :: "tr_event list \<Rightarrow> candidate list" where
  "ice_arrivals [] = []"
| "ice_arrivals (TrIce c # es) = c # ice_arrivals es"
| "ice_arrivals (_ # es) = ice_arrivals es"

subsection \<open>Invariant of the endpoint\<close>

text \<open>
  What the fields of an endpoint keep true between them: a media id is only obtained
  after the MCS user id; the media handlers are those of the endpoint's media id; once
  they are registered the candidate queue has been drained (when the media id is a
  non-empty string); the watchdogs are only armed by those handlers; and each suspended
  step of \<open>start\<close> sees the fields its code reads.
\<close>

definition phase_ok :: "transceiver \<Rightarrow> bool" where
  "phase_ok s =
     (case tr_phase s of
        Idle \<Rightarrow> tr_media_id s = None \<and> tr_mcs_user_id s = None \<and> tr_media_handlers s = None
      | AwaitConnection _ \<Rightarrow> tr_media_id s = None \<and> tr_mcs_user_id s = None \<and> tr_media_handlers s = None
      | AwaitJoin _ \<Rightarrow> tr_media_id s = None \<and> tr_mcs_user_id s = None \<and> tr_media_handlers s = None
      | AwaitPublish \<Rightarrow> tr_media_id s = None \<and> tr_mcs_user_id s \<noteq> None \<and> tr_media_handlers s = None
      | AwaitBridge m \<Rightarrow> tr_media_id s = Some m \<and> tr_media_handlers s = None
      | AwaitConsume m \<Rightarrow> tr_media_id s = Some m \<and> tr_media_handlers s = None
      | StartDone r \<Rightarrow> (\<forall>a. r = Inr a \<longrightarrow> tr_media_handlers s \<noteq> None))"

definition tr_inv :: "transceiver \<Rightarrow> bool" where
  "tr_inv s \<longleftrightarrow>
     (tr_media_id s \<noteq> None \<longrightarrow> tr_mcs_user_id s \<noteq> None) \<and>
     (\<forall>m. tr_media_handlers s = Some m \<longrightarrow> tr_media_id s = Some m) \<and>
     (tr_media_handlers s \<noteq> None \<and> truthy_id (tr_media_id s) \<noteq> None \<longrightarrow> tr_candidates s = []) \<and>
     (tr_flow_timeout s \<noteq> Unarmed \<longrightarrow> tr_media_handlers s \<noteq> None) \<and>
     (tr_state_timeout s \<noteq> Unarmed \<longrightarrow> tr_media_handlers s \<noteq> None) \<and>
     phase_ok s"

definition start_events :: "sdp \<Rightarrow> string \<Rightarrow> media_id \<Rightarrow> media_id \<Rightarrow> sdp \<Rightarrow> tr_event list" where
  "start_events offer u m b answer =
     [TrStart offer, TrConnection True, TrJoin (Inr u), TrPublish (Inr m), TrBridgeStart (Inr b),
      TrConsume (Inr answer)]"

abbreviation flow_ev :: "media_id \<Rightarrow> string \<Rightarrow> tr_event" where
  "flow_ev t d \<equiv> TrMediaState t MediaFlowInStateChange d"

abbreviation state_ev :: "media_id \<Rightarrow> string \<Rightarrow> tr_event" where
  "state_ev t d \<equiv> TrMediaState t MediaStateChanged d"

definition witness_tr :: transceiver where
  "witness_tr = new_transceiver ''meeting'' ''vb'' ''user'' ''conn''"

definition witness_started :: transceiver where
  "witness_started = fst (tr_run witness_tr (start_events ''offer'' ''mcsU'' ''med'' ''br'' ''answer''))"

subsection \<open>Lemmas\<close>

text \<open>\<open>stop\<close> and its resumption in one piece each.\<close>

lemma tr_release_bridge_eq:
  "tr_release_bridge s =
     (case tr_bridge s of None \<Rightarrow> (s, []) | Some _ \<Rightarrow> (s\<lparr>tr_bridge := None\<rparr>, [Bridge BridgeStop, Bridge BridgeDetach]))"
  by (simp add: tr_release_bridge_def set_transceiver_bridge_def split: option.split)

lemma tr_stop_eq:
  "tr_stop s =
     (let s1 = s\<lparr>tr_candidates := [], tr_flow_timeout := Unarmed, tr_state_timeout := Unarmed,
                 tr_mcs_listener := False\<rparr>
      in (case (truthy_id (tr_media_id s), truthy_id (tr_mcs_user_id s)) of
            (Some m, Some u) \<Rightarrow> (s1\<lparr>tr_stops_waiting := Suc (tr_stops_waiting s)\<rparr>, [Mcs (Unpublish u m)])
          | _ \<Rightarrow> (case tr_bridge s of
                  None \<Rightarrow> (s1, [])
                | Some _ \<Rightarrow> (s1\<lparr>tr_bridge := None\<rparr>, [Bridge BridgeStop, Bridge BridgeDetach]))))"
  by (simp add: tr_stop_def untrack_mcs_events_def clear_media_state_timeout_def clear_media_flowing_timeout_def
      tr_release_bridge_eq Let_def split: option.split)

lemma on_unpublished_eq:
  "on_unpublished r s =
     (case tr_stops_waiting s of
        0 \<Rightarrow> (s, [])
      | Suc n \<Rightarrow> (case tr_bridge s of
                  None \<Rightarrow> (s\<lparr>tr_stops_waiting := n\<rparr>, [])
                | Some _ \<Rightarrow> (s\<lparr>tr_stops_waiting := n, tr_bridge := None\<rparr>, [Bridge BridgeStop, Bridge BridgeDetach])))"
  by (simp add: on_unpublished_def tr_release_bridge_eq split: nat.split option.split)

lemmas tr_handler_defs = on_ice_candidate_def flush_candidates_queue_def media_state_webrtc_def
  mcs_ice_candidate_def flow_timeout_expired_def state_timeout_expired_def process_answer_def
  tr_dtmf_def tr_restart_ice_def mcs_disconnected_def handle_media_state_changed_def
  on_media_flowing_def on_media_not_flowing_def on_media_connected_def on_media_disconnected_def
  clear_media_flowing_timeout_def clear_media_state_timeout_def
  to_client_def tr_stop_eq on_unpublished_eq

lemmas tr_start_defs = tr_start_def on_wait_connection_def on_join_def on_publish_def
  on_bridge_started_def on_consume_def start_failed_def

lemmas tr_watchdog_defs = media_state_webrtc_def handle_media_state_changed_def
  on_media_flowing_def on_media_not_flowing_def on_media_connected_def on_media_disconnected_def
  clear_media_flowing_timeout_def clear_media_state_timeout_def
  flow_timeout_expired_def state_timeout_expired_def to_client_def

lemma set_timeout_Unarmed [simp]: "set_timeout t = Unarmed \<longleftrightarrow> False"
  by (cases t) simp_all

lemma new_transceiver_inv: "tr_inv (new_transceiver meeting vb uid conn)"
  by (simp add: tr_inv_def phase_ok_def new_transceiver_def)

lemma start_failed_inv: "tr_inv s \<Longrightarrow> tr_inv (fst (start_failed e s))"
  by (simp add: tr_inv_def phase_ok_def start_failed_def)

lemma tr_start_inv: "tr_inv s \<Longrightarrow> tr_inv (fst (tr_start x s))"
  by (auto simp: tr_inv_def phase_ok_def tr_start_def split: start_phase.splits)

lemma on_wait_connection_inv: "tr_inv s \<Longrightarrow> tr_inv (fst (on_wait_connection b s))"
  by (auto simp: tr_inv_def phase_ok_def on_wait_connection_def start_failed_def split: start_phase.splits)

lemma on_join_inv: "tr_inv s \<Longrightarrow> tr_inv (fst (on_join r s))"
  by (auto simp: tr_inv_def phase_ok_def on_join_def start_failed_def split: start_phase.splits sum.splits)

lemma on_publish_inv: "tr_inv s \<Longrightarrow> tr_inv (fst (on_publish r s))"
  by (auto simp: tr_inv_def phase_ok_def on_publish_def start_failed_def split: start_phase.splits sum.splits option.splits)

lemma on_bridge_started_inv: "tr_inv s \<Longrightarrow> tr_inv (fst (on_bridge_started r s))"
  by (auto simp: tr_inv_def phase_ok_def on_bridge_started_def start_failed_def split: start_phase.splits sum.splits option.splits)

lemma on_consume_inv: "tr_inv s \<Longrightarrow> tr_inv (fst (on_consume r s))"
  by (auto simp: tr_inv_def phase_ok_def on_consume_def start_failed_def flush_candidates_queue_def Let_def
      split: start_phase.splits sum.splits option.splits tbridge.splits)

lemma flush_candidates_queue_inv: "tr_inv s \<Longrightarrow> tr_inv (fst (flush_candidates_queue s))"
  by (auto simp: tr_inv_def phase_ok_def flush_candidates_queue_def split: option.splits start_phase.splits)

lemma on_ice_candidate_inv: "tr_inv s \<Longrightarrow> tr_inv (fst (on_ice_candidate c s))"
  by (auto simp: tr_inv_def phase_ok_def on_ice_candidate_def flush_candidates_queue_def
      split: option.splits start_phase.splits if_splits)

lemma media_state_webrtc_inv:
  "tr_inv s \<Longrightarrow> tr_media_handlers s = Some t \<Longrightarrow> tr_inv (fst (media_state_webrtc mid n d t s))"
  by (auto simp: tr_inv_def phase_ok_def media_state_webrtc_def handle_media_state_changed_def
      on_media_flowing_def on_media_not_flowing_def on_media_connected_def on_media_disconnected_def
  clear_media_flowing_timeout_def clear_media_state_timeout_def
      split: media_state_name.splits start_phase.splits)

lemma timeouts_inv:
  "tr_inv s \<Longrightarrow> tr_inv (fst (flow_timeout_expired s))"
  "tr_inv s \<Longrightarrow> tr_inv (fst (state_timeout_expired s))"
  by (auto simp: tr_inv_def phase_ok_def flow_timeout_expired_def state_timeout_expired_def
      split: start_phase.splits)

lemma tr_stop_inv: "tr_inv s \<Longrightarrow> tr_inv (fst (tr_stop s))"
  by (auto simp: tr_inv_def phase_ok_def tr_stop_eq Let_def split: option.splits start_phase.splits)

lemma on_unpublished_inv: "tr_inv s \<Longrightarrow> tr_inv (fst (on_unpublished r s))"
  by (auto simp: tr_inv_def phase_ok_def on_unpublished_eq split: nat.splits option.splits start_phase.splits)

lemma tr_step_inv:
  assumes inv: "tr_inv s"
  shows "tr_inv (fst (tr_step s e))"
proof (cases e)
  case (TrMediaState mid n d)
  then show ?thesis using inv media_state_webrtc_inv
    by (auto split: option.splits)
next
  case (TrMcsIce mid c)
  then show ?thesis using inv
    by (auto simp: mcs_ice_candidate_def split: option.splits)
qed (use inv in \<open>auto simp: tr_start_inv on_wait_connection_inv on_join_inv on_publish_inv
       on_bridge_started_inv on_consume_inv on_ice_candidate_inv timeouts_inv tr_stop_inv on_unpublished_inv
       process_answer_def tr_restart_ice_def mcs_disconnected_def split: option.splits\<close>)

lemma tr_run_inv: "tr_inv s \<Longrightarrow> tr_inv (fst (tr_run s evs))"
proof (induction evs arbitrary: s)
  case Nil
  then show ?case by simp
next
  case (Cons e evs)
  from Cons.prems have "tr_inv (fst (tr_step s e))" by (rule tr_step_inv)
  then have "tr_inv (fst (tr_run (fst (tr_step s e)) evs))" by (rule Cons.IH)
  then show ?case by (simp add: split_def Let_def)
qed

lemma tr_step_ice:
  assumes "e \<noteq> TrStop" "tr_step s e = (s', out)"
  shows "ice_sent out @ tr_candidates s' = tr_candidates s @ ice_arrivals [e]"
  using assms
  by (cases e) (auto simp: tr_start_defs tr_handler_defs Let_def
     split: option.splits start_phase.splits sum.splits tbridge.splits media_state_name.splits if_splits prod.splits
       nat.splits)

lemma tr_step_ice_subseq:
  "tr_step s e = (s', out) \<Longrightarrow> subseq (ice_sent out @ tr_candidates s') (tr_candidates s @ ice_arrivals [e])"
proof (cases "e = TrStop")
  case True
  moreover assume "tr_step s e = (s', out)"
  ultimately show ?thesis by (auto simp: tr_stop_eq Let_def split: option.splits prod.splits)
next
  case False
  moreover assume "tr_step s e = (s', out)"
  ultimately show ?thesis by (simp add: tr_step_ice)
qed

lemma ice_arrivals_Cons: "ice_arrivals (e # es) = ice_arrivals [e] @ ice_arrivals es"
  by (cases e) simp_all

text \<open>C1: On any run of the endpoint without stop, the candidates forwarded to the MCS followed by those still queued are exactly the queued candidates followed by the candidates the client sent, in arrival order: the endpoint refines a FIFO channel.\<close>

theorem tr_run_ice_order:
  "tr_run s evs = (s', out) \<Longrightarrow> TrStop \<notin> set evs \<Longrightarrow>
   ice_sent out @ tr_candidates s' = tr_candidates s @ ice_arrivals evs"
proof (induction evs arbitrary: s s' out)
  case Nil
  then show ?case by simp
next
  case (Cons e evs)
  obtain s1 o1 where st: "tr_step s e = (s1, o1)" by fastforce
  obtain s2 o2 where rn: "tr_run s1 evs = (s2, o2)" by fastforce
  from Cons.prems st rn have out: "out = o1 @ o2" and s': "s' = s2" by auto
  from Cons.prems st have one: "ice_sent o1 @ tr_candidates s1 = tr_candidates s @ ice_arrivals [e]"
    by (intro tr_step_ice) auto
  from Cons.prems rn have "ice_sent o2 @ tr_candidates s2 = tr_candidates s1 @ ice_arrivals evs"
    by (intro Cons.IH) auto
  with one out s' show ?case
    by (metis append.assoc ice_arrivals_Cons ice_sent_append)
qed

text \<open>C8: On every run, stop included, the forwarded candidates are a subsequence of the candidates received: none is invented, duplicated or reordered; stop may only drop the queue.\<close>

theorem tr_run_ice_subseq:
  "tr_run s evs = (s', out) \<Longrightarrow> subseq (ice_sent out @ tr_candidates s') (tr_candidates s @ ice_arrivals evs)"
proof (induction evs arbitrary: s s' out)
  case Nil
  then show ?case by simp
next
  case (Cons e evs)
  obtain s1 o1 where st: "tr_step s e = (s1, o1)" by fastforce
  obtain s2 o2 where rn: "tr_run s1 evs = (s2, o2)" by fastforce
  from Cons.prems st rn have out: "out = o1 @ o2" and s': "s' = s2" by auto
  from st have one: "subseq (ice_sent o1 @ tr_candidates s1) (tr_candidates s @ ice_arrivals [e])"
    by (rule tr_step_ice_subseq)
  from rn have two: "subseq (ice_sent o2 @ tr_candidates s2) (tr_candidates s1 @ ice_arrivals evs)"
    by (rule Cons.IH)
  have "subseq (ice_sent o1 @ ice_sent o2 @ tr_candidates s2) (ice_sent o1 @ tr_candidates s1 @ ice_arrivals evs)"
    using two by (simp add: subseq_append')
  also have "subseq \<dots> (tr_candidates s @ ice_arrivals [e] @ ice_arrivals evs)"
    using one by (metis append.assoc list_emb_append_mono subseq_order.order_refl)
  finally show ?case
    using out s' by (metis append.assoc ice_arrivals_Cons ice_sent_append)
qed


text \<open>C4: Every state an endpoint reaches from its construction satisfies the invariant: a media id only with an MCS user id, the media handlers are those of its media id, the queue is empty once they are registered, the watchdogs are only armed with handlers registered, and every suspended start step sees the fields it reads.\<close>

lemma tr_reachable_inv: "tr_inv (fst (tr_run (new_transceiver meeting vb uid conn) evs))"
  using new_transceiver_inv by (rule tr_run_inv)

subsection \<open>Start, watchdogs and stop\<close>

theorem tr_start_state:
  "fst (tr_run (new_transceiver meeting vb uid conn) (start_events offer u m b answer)) =
   (new_transceiver meeting vb uid conn)\<lparr>tr_mcs_user_id := Some u, tr_media_id := Some m,
      tr_bridge := Some (TBridge (Some b)), tr_media_handlers := Some m,
      tr_phase := StartDone (Inr answer)\<rparr>"
  by (simp add: start_events_def new_transceiver_def tr_start_defs flush_candidates_queue_def Let_def)

text \<open>C7: Candidates that arrive before start are forwarded after the media id is known, once each and in arrival order, after the media-state subscriptions (spec scenario 3).\<close>

theorem tr_ice_before_start:
  assumes "m \<noteq> []"
  shows "ice_sent (snd (tr_run (new_transceiver meeting vb uid conn)
            (TrIce c1 # TrIce c2 # start_events offer u m b answer))) = [c1, c2]
       \<and> mcs_calls (snd (tr_run (new_transceiver meeting vb uid conn)
            (TrIce c1 # TrIce c2 # start_events offer u m b answer))) =
         [WaitForConnection, Join vb uid, Publish (Some u) vb offer, Consume (Some b) (Some m),
          Connect (Some m) (Some b), Connect (Some b) (Some m),
          OnEvent MEDIA_STATE m, OnEvent MEDIA_STATE_ICE m,
          AddIceCandidate (Some m) c1, AddIceCandidate (Some m) c2]"
  using assms
  by (simp add: start_events_def new_transceiver_def tr_start_defs on_ice_candidate_def
      flush_candidates_queue_def Let_def)



text \<open>Arming the media-flow watchdog twice arms it once: two NOT_FLOWING events and two timer callbacks produce exactly one error 2211 frame.\<close>

theorem flow_watchdog_once:
  assumes "tr_media_handlers s = Some t" "tr_flow_timeout s = Unarmed"
  shows "frames_to (tr_connection_id s)
           (snd (tr_run s [flow_ev t ''NOT_FLOWING'', flow_ev t ''NOT_FLOWING'', TrFlowTimeout, TrFlowTimeout]))
         = [WebRTCAudioError 2211]"
  using assms
  by (simp add: tr_watchdog_defs)

text \<open>FLOWING clears the media-flow watchdog and sends MEDIA_FLOWING: a later timer callback sends no error.\<close>

theorem flow_watchdog_cleared:
  assumes "tr_media_handlers s = Some t"
  shows "frames_to (tr_connection_id s)
           (snd (tr_run s [flow_ev t ''NOT_FLOWING'', flow_ev t ''FLOWING'', TrFlowTimeout]))
         = [WebRTCAudioSuccess]"
  using assms
  by (simp add: tr_watchdog_defs)

text \<open>A DISCONNECTED media state followed by the timer callback sends one error 2211 frame, and a CONNECTED state in between clears the watchdog so that nothing is sent.\<close>

theorem state_watchdog:
  assumes "tr_media_handlers s = Some t" "tr_state_timeout s = Unarmed"
  shows "frames_to (tr_connection_id s) (snd (tr_run s [state_ev t ''DISCONNECTED'', TrStateTimeout]))
           = [WebRTCAudioError 2211]
       \<and> frames_to (tr_connection_id s)
           (snd (tr_run s [state_ev t ''DISCONNECTED'', state_ev t ''CONNECTED'', TrStateTimeout])) = []"
  using assms
  by (simp add: tr_watchdog_defs)



text \<open>C30: Stop on the endpoint is not idempotent toward the MCS: a second stop issues unpublish again for the same media.\<close>

theorem stop_twice_unpublishes_twice:
  assumes "tr_media_id s = Some m" "m \<noteq> []" "tr_mcs_user_id s = Some u" "u \<noteq> []"
  shows "mcs_calls (snd (tr_run s [TrStop, TrStop])) = [Unpublish u m, Unpublish u m]"
  using assms
  by (simp add: tr_stop_eq Let_def split: option.splits)

text \<open>Stop empties the candidate queue, clears both watchdogs, removes the MCS_DISCONNECTED listener and sends no frame to the client.\<close>

theorem tr_stop_resets:
  "tr_candidates (fst (tr_stop s)) = [] \<and> tr_flow_timeout (fst (tr_stop s)) = Unarmed
   \<and> tr_state_timeout (fst (tr_stop s)) = Unarmed \<and> \<not> tr_mcs_listener (fst (tr_stop s))
   \<and> frames_to k (snd (tr_stop s)) = []"
  by (simp add: tr_stop_eq Let_def split: option.splits)

text \<open>C24: A stop of an endpoint that has published its media only unpublishes it and keeps the bridge; the bridge is stopped and released when the unpublish reply comes, whether it reports success or failure.\<close>

theorem stop_releases_bridge_after_unpublish:
  assumes "tr_media_id s = Some m" "m \<noteq> []" "tr_mcs_user_id s = Some u" "u \<noteq> []"
    and "tr_bridge s = Some b" "tr_stops_waiting s = 0"
  shows "tr_bridge (fst (tr_run s [TrStop])) = Some b \<and> snd (tr_run s [TrStop]) = [Mcs (Unpublish u m)]
     \<and> tr_bridge (fst (tr_run s [TrStop, TrUnpublished r])) = None
     \<and> snd (tr_run s [TrStop, TrUnpublished r]) = [Mcs (Unpublish u m), Bridge BridgeStop, Bridge BridgeDetach]"
  using assms by (simp add: tr_stop_eq on_unpublished_eq)

text \<open>Two stops that both suspend on unpublish release the bridge once: the second resumption finds it released.\<close>

theorem stop_twice_releases_once:
  assumes "tr_media_id s = Some m" "m \<noteq> []" "tr_mcs_user_id s = Some u" "u \<noteq> []"
    and "tr_bridge s = Some b" "tr_stops_waiting s = 0"
  shows "snd (tr_run s [TrStop, TrStop, TrUnpublished r1, TrUnpublished r2])
     = [Mcs (Unpublish u m), Mcs (Unpublish u m), Bridge BridgeStop, Bridge BridgeDetach]"
  using assms by (simp add: tr_stop_eq on_unpublished_eq)

text \<open>processAnswer on an endpoint with a media id issues one publish with the new descriptor for the same MCS user and room, and changes no field.\<close>

theorem process_answer_republishes:
  assumes "truthy_id (tr_media_id s) \<noteq> None"
  shows "process_answer a s = (s, [Mcs (Publish (tr_mcs_user_id s) (tr_voice_bridge s) a)])"
  using assms by (auto simp: process_answer_def split: option.splits)

text \<open>restartIce on an endpoint that has no media id yet asks the MCS to restart ICE for a null media id instead of resolving.\<close>

theorem restart_ice_before_start:
  "tr_restart_ice (new_transceiver meeting vb uid conn) =
     (new_transceiver meeting vb uid conn, [Mcs (RestartIce None)])"
  by (simp add: tr_restart_ice_def new_transceiver_def)

subsection \<open>Witnesses\<close>

lemma witness_started_fields:
  "tr_media_handlers witness_started = Some ''med''" "tr_media_id witness_started = Some ''med''"
  "tr_mcs_user_id witness_started = Some ''mcsU''" "tr_flow_timeout witness_started = Unarmed"
  "tr_state_timeout witness_started = Unarmed" "tr_connection_id witness_started = ''conn''"
  "tr_voice_bridge witness_started = ''vb''" "tr_bridge witness_started = Some (TBridge (Some ''br''))"
  "tr_stops_waiting witness_started = 0"
  unfolding witness_started_def witness_tr_def tr_start_state by (simp_all add: new_transceiver_def)

theorem tr_run_ice_order_witness:
  "ice_sent (snd (tr_run witness_tr [TrIce ''c1'', TrStart ''o'', TrIce ''c2''])) @
     tr_candidates (fst (tr_run witness_tr [TrIce ''c1'', TrStart ''o'', TrIce ''c2''])) =
   tr_candidates witness_tr @ [''c1'', ''c2'']"
proof -
  have "TrStop \<notin> set [TrIce ''c1'', TrStart ''o'', TrIce ''c2'']" by simp
  from tr_run_ice_order [OF surjective_pairing this] show ?thesis by simp
qed

theorem tr_reachable_inv_witness:
  "tr_inv (fst (tr_run witness_tr (start_events ''offer'' ''mcsU'' ''med'' ''br'' ''answer'')))"
  unfolding witness_tr_def by (rule tr_reachable_inv)

theorem tr_ice_before_start_witness:
  "ice_sent (snd (tr_run (new_transceiver ''m'' ''vb'' ''u'' ''k'')
     (TrIce ''c1'' # TrIce ''c2'' # start_events ''o'' ''mu'' ''med'' ''b'' ''a''))) = [''c1'', ''c2'']"
proof -
  have "''med'' \<noteq> []" by simp
  from tr_ice_before_start [OF this] show ?thesis by blast
qed

theorem tr_run_ice_subseq_witness:
  "subseq (ice_sent (snd (tr_run witness_tr [TrIce ''c1'', TrStop, TrIce ''c2''])) @
             tr_candidates (fst (tr_run witness_tr [TrIce ''c1'', TrStop, TrIce ''c2''])))
          (tr_candidates witness_tr @ [''c1'', ''c2''])"
  using tr_run_ice_subseq [OF surjective_pairing, of witness_tr "[TrIce ''c1'', TrStop, TrIce ''c2'']"]
  by simp


theorem flow_watchdog_once_witness:
  "frames_to ''conn'' (snd (tr_run witness_started
     [flow_ev ''med'' ''NOT_FLOWING'', flow_ev ''med'' ''NOT_FLOWING'', TrFlowTimeout, TrFlowTimeout]))
   = [WebRTCAudioError 2211]"
  using flow_watchdog_once [OF witness_started_fields(1,4)] by (simp only: witness_started_fields(6))

theorem state_watchdog_witness:
  "frames_to ''conn'' (snd (tr_run witness_started [state_ev ''med'' ''DISCONNECTED'', TrStateTimeout]))
   = [WebRTCAudioError 2211]"
  using state_watchdog [OF witness_started_fields(1,5)] by (simp only: witness_started_fields(6))

theorem flow_watchdog_cleared_witness:
  "frames_to ''conn'' (snd (tr_run witness_started
     [flow_ev ''med'' ''NOT_FLOWING'', flow_ev ''med'' ''FLOWING'', TrFlowTimeout])) = [WebRTCAudioSuccess]"
  using flow_watchdog_cleared [OF witness_started_fields(1)] by (simp only: witness_started_fields(6))



theorem stop_twice_unpublishes_twice_witness:
  "mcs_calls (snd (tr_run witness_started [TrStop, TrStop])) = [Unpublish ''mcsU'' ''med'', Unpublish ''mcsU'' ''med'']"
  using stop_twice_unpublishes_twice [OF witness_started_fields(2) _ witness_started_fields(3)] by simp

theorem process_answer_republishes_witness:
  "process_answer ''offer2'' witness_started =
     (witness_started, [Mcs (Publish (Some ''mcsU'') ''vb'' ''offer2'')])"
proof -
  have "truthy_id (tr_media_id witness_started) \<noteq> None" by (simp add: witness_started_fields)
  from process_answer_republishes [OF this] show ?thesis
    by (simp only: witness_started_fields(3,7))
qed

theorem stop_releases_bridge_after_unpublish_witness:
  "snd (tr_run witness_started [TrStop, TrUnpublished None])
     = [Mcs (Unpublish ''mcsU'' ''med''), Bridge BridgeStop, Bridge BridgeDetach]"
  using stop_releases_bridge_after_unpublish [OF witness_started_fields(2) _ witness_started_fields(3) _
      witness_started_fields(8,9)] by simp

end
