(* ===== verification/Consumer_Bridge.thy ===== *)
theory Consumer_Bridge
  imports Sfu_Interface
begin

text \<open>
  The per-meeting consumer bridges of listen-only audio.  The store
  (\<open>consumer-bridge-storage.js\<close>, not in the snapshot) is a map from meeting id to
  bridge, read by \<open>getConsumerBridge\<close> and written by \<open>storeConsumerBridge\<close>; a
  bridge (\<open>FSConsumerBridge\<close>, not in the snapshot either) is idle, starting or
  running, and \<open>isRunning\<close> holds of a running one.  What is translated from the
  source is \<open>AudioSession._startConsumerBridge\<close>
  (\<open>client-static-transceiver.js\<close>, lines 596--615), split at its \<open>await\<close>: the
  first part decides and issues \<open>bridge.start()\<close>, the completion of that call is a
  separate step, so that two sessions of one meeting can interleave.
\<close>

datatype cb_state = CbIdle | CbStarting | CbRunning

record cbridge =
  cb_voice_bridge :: string
  cb_media_server :: string
  cb_state :: cb_state

type_synonym cb_store = "string \<rightharpoonup> cbridge"

datatype cb_outcome = CbReady | CbPending

definition get_consumer_bridge :: "cb_store \<Rightarrow> string \<Rightarrow> cbridge option" where
  "get_consumer_bridge st meeting = st meeting"

definition store_consumer_bridge :: "cbridge \<Rightarrow> string \<Rightarrow> cb_store \<Rightarrow> cb_store" where
  "store_consumer_bridge b meeting st = st(meeting \<mapsto> b)"

definition is_running :: "cbridge \<Rightarrow> bool" where
  "is_running b \<longleftrightarrow> cb_state b = CbRunning"

text \<open>\<open>bridge.start()\<close>: the call is issued and the bridge is starting until it resolves.\<close>

definition cbridge_start :: "string \<Rightarrow> cbridge \<Rightarrow> cbridge \<times> effect list" where
  "cbridge_start meeting b = (b\<lparr>cb_state := CbStarting\<rparr>, [Bridge (ConsumerBridgeStart meeting)])"

definition new_cbridge :: "string \<Rightarrow> string \<Rightarrow> cbridge" where
  "new_cbridge vb media_server = \<lparr>cb_voice_bridge = vb, cb_media_server = media_server, cb_state = CbIdle\<rparr>"

text \<open>The synchronous part of \<open>_startConsumerBridge\<close>, up to its \<open>await\<close>.\<close>

definition start_consumer_bridge ::
  "string \<Rightarrow> string \<Rightarrow> string \<Rightarrow> cb_store \<Rightarrow> (cb_store \<times> effect list) \<times> cb_outcome" where
  "start_consumer_bridge meeting vb media_server st =
     (case get_consumer_bridge st meeting of
        Some b \<Rightarrow>
          (if is_running b then ((st, []), CbReady)
           else (let (b', es) = cbridge_start meeting b
                 in ((store_consumer_bridge b' meeting st, es), CbPending)))
      | None \<Rightarrow>
          (let b = new_cbridge vb media_server;
               st1 = store_consumer_bridge b meeting st;
               (b', es) = cbridge_start meeting b
           in ((st1(meeting \<mapsto> b'), es), CbPending)))"

text \<open>The awaited \<open>bridge.start()\<close> resolves: the stored bridge is running.\<close>

definition consumer_bridge_started :: "string \<Rightarrow> cb_store \<Rightarrow> cb_store" where
  "consumer_bridge_started meeting st =
     (case st meeting of None \<Rightarrow> st | Some b \<Rightarrow> st(meeting \<mapsto> b\<lparr>cb_state := CbRunning\<rparr>))"

text \<open>Bridge starts issued by a sequence of acquisitions and completions.\<close>

datatype cb_event = CbAcquire string string string | CbStarted string

fun cb_step :: "cb_store \<Rightarrow> cb_event \<Rightarrow> cb_store \<times> effect list" where
  "cb_step st (CbAcquire meeting vb ms) = fst (start_consumer_bridge meeting vb ms st)"
| "cb_step st (CbStarted meeting) = (consumer_bridge_started meeting st, [])"

fun cb_run :: "cb_store \<Rightarrow> cb_event list \<Rightarrow> cb_store \<times> effect list" where
  "cb_run st [] = (st, [])"
| "cb_run st (e # es) = (let (st1, o1) = cb_step st e; (st2, o2) = cb_run st1 es in (st2, o1 @ o2))"

fun bridge_starts :: "string \<Rightarrow> effect list \<Rightarrow> nat" where
  "bridge_starts m [] = 0"
| "bridge_starts m (Bridge (ConsumerBridgeStart m') # es) =
     (if m' = m then Suc (bridge_starts m es) else bridge_starts m es)"
| "bridge_starts m (_ # es) = bridge_starts m es"

subsection \<open>Properties of the store\<close>


lemma cb_step_keeps:
  "st m = Some b \<Longrightarrow> \<exists>b'. fst (cb_step st e) m = Some b' \<and> cb_voice_bridge b' = cb_voice_bridge b
     \<and> cb_media_server b' = cb_media_server b"
  by (cases e) (auto simp: start_consumer_bridge_def get_consumer_bridge_def store_consumer_bridge_def
      cbridge_start_def consumer_bridge_started_def is_running_def Let_def split: option.splits)

text \<open>C18: No sequence of acquisitions and start completions removes a meeting's consumer bridge or replaces it: the stored bridge keeps the voice bridge and media server of the first acquisition. There is no reference count and no release.\<close>

theorem cb_run_keeps_bridges:
  "st m = Some b \<Longrightarrow> \<exists>b'. fst (cb_run st evs) m = Some b' \<and> cb_voice_bridge b' = cb_voice_bridge b
     \<and> cb_media_server b' = cb_media_server b"
proof (induction evs arbitrary: st b)
  case Nil
  then show ?case by simp
next
  case (Cons e evs)
  from cb_step_keeps [of st m b e, OF Cons.prems] obtain b1 where
    b1: "fst (cb_step st e) m = Some b1" "cb_voice_bridge b1 = cb_voice_bridge b"
        "cb_media_server b1 = cb_media_server b" by blast
  from Cons.IH [of "fst (cb_step st e)" b1, OF b1(1)] b1(2,3) show ?case by (auto simp: split_def Let_def)
qed

text \<open>C17: Two listen-only sessions of a meeting whose acquisitions interleave before the first bridge start resolves issue two bridge starts: _startConsumerBridge is not single-flight.\<close>

theorem concurrent_acquire_starts_twice:
  "st m = None \<Longrightarrow> bridge_starts m (snd (cb_run st [CbAcquire m vb ms, CbAcquire m vb' ms'])) = 2"
  by (simp add: start_consumer_bridge_def get_consumer_bridge_def store_consumer_bridge_def
      cbridge_start_def new_cbridge_def is_running_def)

text \<open>Acquiring a meeting bridge that is already running returns it at once, with no effect and no change of the store.\<close>

theorem acquire_running_bridge:
  "st m = Some b \<Longrightarrow> is_running b \<Longrightarrow> start_consumer_bridge m vb ms st = ((st, []), CbReady)"
  by (simp add: start_consumer_bridge_def get_consumer_bridge_def)

text \<open>The first acquisition of a meeting stores a bridge and starts it; after the start resolves the bridge is running and a later acquisition issues no second start.\<close>

theorem acquire_then_started_runs:
  "st m = None \<Longrightarrow> (\<exists>b. fst (cb_run st [CbAcquire m vb ms, CbStarted m]) m = Some b \<and> is_running b)
   \<and> bridge_starts m (snd (cb_run st [CbAcquire m vb ms, CbStarted m, CbAcquire m vb ms])) = 1"
  by (auto simp: start_consumer_bridge_def get_consumer_bridge_def store_consumer_bridge_def
      cbridge_start_def new_cbridge_def is_running_def consumer_bridge_started_def Let_def
      split: option.splits)

subsection \<open>Witnesses\<close>

theorem cb_run_keeps_bridges_witness:
  "\<exists>b'. fst (cb_run [''m'' \<mapsto> new_cbridge ''vb'' ''fs''] [CbAcquire ''m'' ''vb2'' ''fs2'', CbStarted ''m''])
         ''m'' = Some b' \<and> cb_voice_bridge b' = ''vb'' \<and> cb_media_server b' = ''fs''"
proof -
  have "[''m'' \<mapsto> new_cbridge ''vb'' ''fs''] ''m'' = Some (new_cbridge ''vb'' ''fs'')" by simp
  from cb_run_keeps_bridges [of "[''m'' \<mapsto> new_cbridge ''vb'' ''fs'']" "''m''" _
      "[CbAcquire ''m'' ''vb2'' ''fs2'', CbStarted ''m'']", OF this]
  show ?thesis by (simp add: new_cbridge_def)
qed

theorem concurrent_acquire_starts_twice_witness:
  "bridge_starts ''m'' (snd (cb_run Map.empty [CbAcquire ''m'' ''vb'' ''fs'', CbAcquire ''m'' ''vb'' ''fs''])) = 2"
  by (rule concurrent_acquire_starts_twice) simp

theorem acquire_running_bridge_witness:
  "start_consumer_bridge ''m'' ''vb'' ''fs'' [''m'' \<mapsto> (new_cbridge ''vb'' ''fs'')\<lparr>cb_state := CbRunning\<rparr>] =
     (([''m'' \<mapsto> (new_cbridge ''vb'' ''fs'')\<lparr>cb_state := CbRunning\<rparr>], []), CbReady)"
proof -
  let ?b = "(new_cbridge ''vb'' ''fs'')\<lparr>cb_state := CbRunning\<rparr>"
  have h1: "[''m'' \<mapsto> ?b] ''m'' = Some ?b" by simp
  have h2: "is_running ?b" by (simp add: is_running_def)
  from acquire_running_bridge [of "[''m'' \<mapsto> ?b]" "''m''" ?b, OF h1 h2] show ?thesis .
qed

theorem acquire_then_started_runs_witness:
  "bridge_starts ''m'' (snd (cb_run Map.empty [CbAcquire ''m'' ''vb'' ''fs'', CbStarted ''m'', CbAcquire ''m'' ''vb'' ''fs''])) = 1"
  using acquire_then_started_runs [of "Map.empty" "''m''" "''vb''" "''fs''"] by simp

end
