(* ===== verification/Audio_Session.thy ===== *)
theory Audio_Session
  imports Transceiver Consumer_Bridge
begin

text \<open>
  The per-client audio session \<open>AudioSession\<close>
  (\<open>src/lib/audio/client-static-transceiver.js\<close>, lines 465--724).  It owns one
  endpoint: a full-audio transceiver for role \<open>sendrecv\<close> (theory
  \<open>Transceiver\<close>) or a listen-only consumer attached to the meeting's consumer bridge
  (theory \<open>Consumer_Bridge\<close>).  The record keeps the endpoint object apart from the
  \<open>clientEndpoint\<close> slot (\<open>as_slot\<close>): after \<open>stop\<close> the slot is cleared, but a
  \<open>start\<close> still suspended on the endpoint keeps running on the object.
  \<open>ClientAudioConsumer\<close> is not in the snapshot; \<open>consumer\<close> models it from the spec
  (section 4.3, consumer variant): \<open>mcs.subscribe\<close> instead of publish and consume,
  the same ICE queue, and no \<open>dtmf\<close>, \<open>processAnswer\<close> or \<open>restartIce\<close>.
\<close>

datatype co_phase = CoIdle | CoAwaitSubscribe | CoDone "sfu_error + sdp"

record consumer =
  co_voice_bridge :: string
  co_candidates :: "candidate list"
  co_media_id :: "media_id option"
  co_phase :: co_phase

definition new_consumer :: "string \<Rightarrow> consumer" where
  "new_consumer vb = \<lparr>co_voice_bridge = vb, co_candidates = [], co_media_id = None, co_phase = CoIdle\<rparr>"

definition consumer_start :: "sdp \<Rightarrow> consumer \<Rightarrow> consumer \<times> effect list" where
  "consumer_start offer c =
     (c\<lparr>co_phase := CoAwaitSubscribe\<rparr>, [Mcs (Subscribe (co_voice_bridge c) offer)])"

definition consumer_subscribed :: "sfu_error + (media_id \<times> sdp) \<Rightarrow> consumer \<Rightarrow> consumer \<times> effect list" where
  "consumer_subscribed r c =
     (case co_phase c of
        CoAwaitSubscribe \<Rightarrow>
          (case r of
             Inl e \<Rightarrow> (c\<lparr>co_phase := CoDone (Inl (normalize_error e))\<rparr>, [])
           | Inr (m, answer) \<Rightarrow>
               (c\<lparr>co_media_id := Some m, co_candidates := [], co_phase := CoDone (Inr answer)\<rparr>,
                map (\<lambda>x. Mcs (AddIceCandidate (Some m) x)) (co_candidates c)))
      | _ \<Rightarrow> (c, []))"

definition consumer_on_ice :: "candidate \<Rightarrow> consumer \<Rightarrow> consumer \<times> effect list" where
  "consumer_on_ice x c =
     (case co_media_id c of
        None \<Rightarrow> (c\<lparr>co_candidates := co_candidates c @ [x]\<rparr>, [])
      | Some m \<Rightarrow> (c, [Mcs (AddIceCandidate (Some m) x)]))"

definition consumer_flush :: "consumer \<Rightarrow> consumer \<times> effect list" where
  "consumer_flush c =
     (case co_media_id c of
        None \<Rightarrow> (c, [])
      | Some m \<Rightarrow> (c\<lparr>co_candidates := []\<rparr>, map (\<lambda>x. Mcs (AddIceCandidate (Some m) x)) (co_candidates c)))"

definition consumer_stop :: "consumer \<Rightarrow> consumer \<times> effect list" where
  "consumer_stop c = (c\<lparr>co_candidates := []\<rparr>, [])"

datatype endpoint = EpTransceiver transceiver | EpConsumer consumer

fun ep_final_detach :: "endpoint \<Rightarrow> endpoint" where
  "ep_final_detach (EpTransceiver t) = EpTransceiver (tr_final_detach t)"
| "ep_final_detach (EpConsumer c) = EpConsumer c"

datatype session_phase = SIdle | SAwaitBridge sdp | SAwaitEndpoint | SStartDone "sfu_error + sdp"

record audio_config =
  eject_on_user_left :: bool
  fullaudio_enabled :: bool

record audio_session =
  as_id :: string
  as_meeting_id :: string
  as_voice_bridge :: string
  as_user_id :: string
  as_connection_id :: conn_id
  as_role :: string
  as_media_server :: string
  as_endpoint :: "endpoint option"
  as_slot :: bool
  as_meeting_listener :: bool
  as_mcs_listener :: bool
  as_offline_listener :: bool
  as_phase :: session_phase
  as_stop_conts :: "bool list"

definition new_audio_session ::
  "audio_config \<Rightarrow> string \<Rightarrow> string \<Rightarrow> string \<Rightarrow> string \<Rightarrow> conn_id \<Rightarrow> string \<Rightarrow> string \<Rightarrow> audio_session" where
  "new_audio_session cfg sid meeting vb uid conn role ms =
     \<lparr>as_id = sid, as_meeting_id = meeting, as_voice_bridge = vb, as_user_id = uid,
      as_connection_id = conn, as_role = role, as_media_server = ms, as_endpoint = None,
      as_slot = False, as_meeting_listener = eject_on_user_left cfg, as_mcs_listener = True,
      as_offline_listener = False, as_phase = SIdle, as_stop_conts = []\<rparr>"

type_synonym as_state = "cb_store \<times> audio_session"

subsection \<open>Endpoint slot and listeners\<close>

definition clear_client_endpoint_events :: "audio_session \<Rightarrow> audio_session" where
  "clear_client_endpoint_events s =
     (if as_slot s \<and> as_endpoint s \<noteq> None
      then s\<lparr>as_endpoint := map_option ep_final_detach (as_endpoint s), as_offline_listener := False\<rparr>
      else s)"

definition set_client_endpoint_null :: "audio_session \<Rightarrow> audio_session" where
  "set_client_endpoint_null s = (clear_client_endpoint_events s)\<lparr>as_slot := False\<rparr>"

definition track_client_endpoint_events :: "audio_session \<Rightarrow> audio_session" where
  "track_client_endpoint_events s = (if as_slot s then s\<lparr>as_offline_listener := True\<rparr> else s)"

text \<open>
  The session listens \<open>once\<close> for \<open>MEDIA_SERVER_OFFLINE\<close> on its endpoint and
  re-emits it; without the listener the endpoint's event reaches nobody.
\<close>

fun route_endpoint_effects :: "bool \<Rightarrow> effect list \<Rightarrow> bool \<times> effect list" where
  "route_endpoint_effects l [] = (l, [])"
| "route_endpoint_effects l (Emit UpMediaServerOffline # es) =
     (if l then (let (l', es') = route_endpoint_effects False es in (l', Emit UpMediaServerOffline # es'))
      else route_endpoint_effects l es)"
| "route_endpoint_effects l (e # es) = (let (l', es') = route_endpoint_effects l es in (l', e # es'))"

definition with_endpoint :: "audio_session \<Rightarrow> endpoint \<Rightarrow> effect list \<Rightarrow> audio_session \<times> effect list" where
  "with_endpoint s ep es =
     (let (l, es') = route_endpoint_effects (as_offline_listener s) es
      in (s\<lparr>as_endpoint := Some ep, as_offline_listener := l\<rparr>, es'))"

subsection \<open>Delegating operations\<close>

definition as_on_ice_candidate :: "candidate \<Rightarrow> audio_session \<Rightarrow> audio_session \<times> effect list" where
  "as_on_ice_candidate x s =
     (if \<not> as_slot s then (s, [])
      else (case as_endpoint s of
              None \<Rightarrow> (s, [])
            | Some (EpTransceiver t) \<Rightarrow> (let (t', es) = on_ice_candidate x t in with_endpoint s (EpTransceiver t') es)
            | Some (EpConsumer c) \<Rightarrow> (let (c', es) = consumer_on_ice x c in with_endpoint s (EpConsumer c') es)))"

definition as_flush_candidates_queue :: "audio_session \<Rightarrow> audio_session \<times> effect list" where
  "as_flush_candidates_queue s =
     (if \<not> as_slot s then (s, [])
      else (case as_endpoint s of
              None \<Rightarrow> (s, [])
            | Some (EpTransceiver t) \<Rightarrow> (let (t', es) = flush_candidates_queue t in with_endpoint s (EpTransceiver t') es)
            | Some (EpConsumer c) \<Rightarrow> (let (c', es) = consumer_flush c in with_endpoint s (EpConsumer c') es)))"

definition as_process_answer :: "sdp \<Rightarrow> audio_session \<Rightarrow> audio_session \<times> effect list" where
  "as_process_answer a s =
     (case (as_slot s, as_endpoint s) of
        (True, Some (EpTransceiver t)) \<Rightarrow> (let (t', es) = process_answer a t in with_endpoint s (EpTransceiver t') es)
      | _ \<Rightarrow> (s, []))"

definition as_dtmf :: "string \<Rightarrow> audio_session \<Rightarrow> string \<times> effect list" where
  "as_dtmf tones s =
     (case (as_slot s, as_endpoint s) of
        (True, Some (EpTransceiver t)) \<Rightarrow> tr_dtmf tones t
      | _ \<Rightarrow> ([], []))"

definition as_restart_ice :: "audio_session \<Rightarrow> audio_session \<times> effect list" where
  "as_restart_ice s =
     (case (as_slot s, as_endpoint s) of
        (True, Some (EpTransceiver t)) \<Rightarrow> (let (t', es) = tr_restart_ice t in with_endpoint s (EpTransceiver t') es)
      | _ \<Rightarrow> (s, []))"

subsection \<open>Start: \<open>transceive\<close> or \<open>listen\<close>, then the endpoint's own start\<close>

definition start_done :: "sfu_error + sdp \<Rightarrow> audio_session \<Rightarrow> audio_session" where
  "start_done r s =
     (case r of
        Inl e \<Rightarrow> s\<lparr>as_phase := SStartDone (Inl (normalize_error e))\<rparr>
      | Inr a \<Rightarrow> (track_client_endpoint_events s)\<lparr>as_phase := SStartDone (Inr a)\<rparr>)"

definition listen_endpoint :: "sdp \<Rightarrow> audio_session \<Rightarrow> audio_session \<times> effect list" where
  "listen_endpoint offer s =
     (let (c, es) = consumer_start offer (new_consumer (as_voice_bridge s))
      in (s\<lparr>as_endpoint := Some (EpConsumer c), as_slot := True, as_phase := SAwaitEndpoint\<rparr>, es))"

definition as_start :: "audio_config \<Rightarrow> sdp \<Rightarrow> as_state \<Rightarrow> as_state \<times> effect list" where
  "as_start cfg offer stt =
     (let (st, s) = stt in
      if as_phase s \<noteq> SIdle then (stt, [])
      else if as_role s = ''sendrecv'' then
        (if \<not> fullaudio_enabled cfg
         then ((st, start_done (Inl SFU_INVALID_REQUEST) s), [])
         else (let t = new_transceiver (as_meeting_id s) (as_voice_bridge s) (as_user_id s) (as_connection_id s);
                   (t', es) = tr_start offer t
               in ((st, s\<lparr>as_endpoint := Some (EpTransceiver t'), as_slot := True,
                          as_phase := SAwaitEndpoint\<rparr>), es)))
      else
        (let ((st', es), outcome) =
               start_consumer_bridge (as_meeting_id s) (as_voice_bridge s) (as_media_server s) st
         in (case outcome of
               CbReady \<Rightarrow> (let (s', es2) = listen_endpoint offer s in ((st', s'), es @ es2))
             | CbPending \<Rightarrow> ((st', s\<lparr>as_phase := SAwaitBridge offer\<rparr>), es))))"

definition as_bridge_started :: "sfu_error option \<Rightarrow> as_state \<Rightarrow> as_state \<times> effect list" where
  "as_bridge_started r stt =
     (let (st, s) = stt in
      case as_phase s of
        SAwaitBridge offer \<Rightarrow>
          (case r of
             Some e \<Rightarrow> ((st, start_done (Inl e) s), [])
           | None \<Rightarrow>
               (let st' = consumer_bridge_started (as_meeting_id s) st;
                    (s', es) = listen_endpoint offer s
                in ((st', s'), es)))
      | _ \<Rightarrow> (stt, []))"

text \<open>
  A reply to a call of the endpoint (or a media event for it) runs on the endpoint
  object whether or not the slot still holds it; when it ends the endpoint's start, the
  session's start resumes.
\<close>

definition as_endpoint_reply :: "tr_event \<Rightarrow> audio_session \<Rightarrow> audio_session \<times> effect list" where
  "as_endpoint_reply ev s =
     (case as_endpoint s of
        Some (EpTransceiver t) \<Rightarrow>
          (let (t', es) = tr_step t ev; (s', es') = with_endpoint s (EpTransceiver t') es
           in (case (as_phase s', tr_phase t') of
                 (SAwaitEndpoint, StartDone r) \<Rightarrow> (start_done r s', es')
               | _ \<Rightarrow> (s', es')))
      | _ \<Rightarrow> (s, []))"

definition as_consumer_reply :: "sfu_error + (media_id \<times> sdp) \<Rightarrow> audio_session \<Rightarrow> audio_session \<times> effect list" where
  "as_consumer_reply r s =
     (case as_endpoint s of
        Some (EpConsumer c) \<Rightarrow>
          (let (c', es) = consumer_subscribed r c; (s', es') = with_endpoint s (EpConsumer c') es
           in (case (as_phase s', co_phase c') of
                 (SAwaitEndpoint, CoDone r') \<Rightarrow> (start_done r' s', es')
               | _ \<Rightarrow> (s', es')))
      | _ \<Rightarrow> (s, []))"

subsection \<open>Stop and disconnection\<close>

text \<open>
  \<open>finalDetachEventListeners\<close>: the endpoint's listeners, the \<open>USER_LEFT_MEETING\<close>
  listener and the \<open>MCS_DISCONNECTED\<close> listener are removed (the session's own
  emitter listeners belong to its owner, not modelled).
\<close>

definition as_final_detach :: "audio_session \<Rightarrow> audio_session" where
  "as_final_detach s = (clear_client_endpoint_events s)\<lparr>as_meeting_listener := False, as_mcs_listener := False\<rparr>"

text \<open>
  \<open>stop\<close> awaits \<open>clientEndpoint.stop()\<close> and only then empties the slot.  When the
  endpoint's own \<open>stop\<close> suspends on \<open>unpublish\<close> (\<open>stop_suspends\<close>), the session's
  \<open>stop\<close> is suspended with it: the slot keeps the endpoint, and \<open>as_stop_conts\<close> records
  the suspended call, \<open>True\<close> when its caller is \<open>disconnectUser\<close>, whose
  \<open>finally\<close> sends the close frame once the stop has returned.  Otherwise the stop
  completes at once (an \<open>await\<close> of a settled promise resumes before any other event).
\<close>

definition finish_stop :: "bool \<Rightarrow> audio_session \<Rightarrow> audio_session \<times> effect list" where
  "finish_stop close s =
     (set_client_endpoint_null s, if close then [Client (as_connection_id s) CloseFrame] else [])"

definition stop_then :: "bool \<Rightarrow> audio_session \<Rightarrow> audio_session \<times> effect list" where
  "stop_then close s =
     (let s1 = (clear_client_endpoint_events s)\<lparr>as_meeting_listener := False, as_mcs_listener := False\<rparr>
      in (case (as_slot s1, as_endpoint s1) of
            (True, Some (EpTransceiver t)) \<Rightarrow>
              (let (t', es) = tr_stop t
               in if stop_suspends t
                  then (s1\<lparr>as_endpoint := Some (EpTransceiver t'), as_stop_conts := as_stop_conts s1 @ [close]\<rparr>, es)
                  else (let (s2, es2) = finish_stop close (s1\<lparr>as_endpoint := Some (EpTransceiver t')\<rparr>) in (s2, es @ es2)))
          | (True, Some (EpConsumer c)) \<Rightarrow>
              (let (c', es) = consumer_stop c; (s2, es2) = finish_stop close (s1\<lparr>as_endpoint := Some (EpConsumer c')\<rparr>)
               in (s2, es @ es2))
          | _ \<Rightarrow> finish_stop close s1))"

definition as_stop :: "audio_session \<Rightarrow> audio_session \<times> effect list" where
  "as_stop s = stop_then False s"

definition disconnect_user :: "audio_session \<Rightarrow> audio_session \<times> effect list" where
  "disconnect_user s = stop_then True s"

definition as_user_left :: "audio_session \<Rightarrow> audio_session \<times> effect list" where
  "as_user_left s =
     (if as_meeting_listener s then disconnect_user (s\<lparr>as_meeting_listener := False\<rparr>) else (s, []))"

text \<open>
  The reply of the endpoint's \<open>unpublish\<close> resumes the endpoint's \<open>stop\<close> and with it
  the oldest suspended \<open>stop\<close> of the session.
\<close>

definition as_unpublished :: "sfu_error option \<Rightarrow> audio_session \<Rightarrow> audio_session \<times> effect list" where
  "as_unpublished r s =
     (case as_endpoint s of
        Some (EpTransceiver t) \<Rightarrow>
          (let (t', es) = on_unpublished r t; (s1, es1) = with_endpoint s (EpTransceiver t') es
           in (case as_stop_conts s1 of
                 [] \<Rightarrow> (s1, es1)
               | close # ks \<Rightarrow> (let (s2, es2) = finish_stop close (s1\<lparr>as_stop_conts := ks\<rparr>) in (s2, es1 @ es2))))
      | _ \<Rightarrow> (s, []))"

text \<open>An input for the endpoint: the unpublish reply resumes a stop, any other a start.\<close>

definition as_endpoint_event :: "tr_event \<Rightarrow> audio_session \<Rightarrow> audio_session \<times> effect list" where
  "as_endpoint_event ev s = (case ev of TrUnpublished r \<Rightarrow> as_unpublished r s | _ \<Rightarrow> as_endpoint_reply ev s)"

subsection \<open>The session as a step function\<close>

datatype as_event =
    AsStart sdp
  | AsBridgeStarted "sfu_error option"
  | AsEndpointEvent tr_event
  | AsConsumerReply "sfu_error + (media_id \<times> sdp)"
  | AsIce candidate
  | AsProcessAnswer sdp
  | AsDtmf string
  | AsRestartIce
  | AsFlush
  | AsStop
  | AsFinalDetach
  | AsUserLeft

definition on_session :: "(audio_session \<Rightarrow> audio_session \<times> effect list) \<Rightarrow> as_state \<Rightarrow> as_state \<times> effect list" where
  "on_session f stt = (let (s', es) = f (snd stt) in ((fst stt, s'), es))"

fun as_step :: "audio_config \<Rightarrow> as_state \<Rightarrow> as_event \<Rightarrow> as_state \<times> effect list" where
  "as_step cfg stt (AsStart offer) = as_start cfg offer stt"
| "as_step cfg stt (AsBridgeStarted r) = as_bridge_started r stt"
| "as_step cfg stt (AsEndpointEvent ev) = on_session (as_endpoint_event ev) stt"
| "as_step cfg stt (AsConsumerReply r) = on_session (as_consumer_reply r) stt"
| "as_step cfg stt (AsIce x) = on_session (as_on_ice_candidate x) stt"
| "as_step cfg stt (AsProcessAnswer a) = on_session (as_process_answer a) stt"
| "as_step cfg stt (AsDtmf tones) = (stt, snd (as_dtmf tones (snd stt)))"
| "as_step cfg stt AsRestartIce = on_session as_restart_ice stt"
| "as_step cfg stt AsFlush = on_session as_flush_candidates_queue stt"
| "as_step cfg stt AsStop = on_session as_stop stt"
| "as_step cfg stt AsFinalDetach = ((fst stt, as_final_detach (snd stt)), [])"
| "as_step cfg stt AsUserLeft = on_session as_user_left stt"

fun as_run :: "audio_config \<Rightarrow> as_state \<Rightarrow> as_event list \<Rightarrow> as_state \<times> effect list" where
  "as_run cfg stt [] = (stt, [])"
| "as_run cfg stt (e # es) =
     (let (stt1, o1) = as_step cfg stt e; (stt2, o2) = as_run cfg stt1 es in (stt2, o1 @ o2))"

subsection \<open>Session invariant and scenarios\<close>

definition as_inv :: "audio_session \<Rightarrow> bool" where
  "as_inv s \<longleftrightarrow>
     (as_slot s \<longrightarrow> as_endpoint s \<noteq> None) \<and>
     (as_offline_listener s \<longrightarrow> as_slot s) \<and>
     (\<forall>t. as_endpoint s = Some (EpTransceiver t) \<longrightarrow> tr_inv t) \<and>
     (as_phase s = SIdle \<longrightarrow> as_endpoint s = None)"

definition sendrecv_start :: "sdp \<Rightarrow> string \<Rightarrow> media_id \<Rightarrow> media_id \<Rightarrow> sdp \<Rightarrow> as_event list" where
  "sendrecv_start offer u m b answer =
     [AsStart offer, AsEndpointEvent (TrConnection True), AsEndpointEvent (TrJoin (Inr u)),
      AsEndpointEvent (TrPublish (Inr m)), AsEndpointEvent (TrBridgeStart (Inr b)),
      AsEndpointEvent (TrConsume (Inr answer))]"

definition cfg_full :: audio_config where
  "cfg_full = \<lparr>eject_on_user_left = True, fullaudio_enabled = True\<rparr>"

definition cfg_listen_only :: audio_config where
  "cfg_listen_only = \<lparr>eject_on_user_left = True, fullaudio_enabled = False\<rparr>"

subsection \<open>Lemmas\<close>


lemma ep_final_detach_EpTransceiver [simp]:
  "ep_final_detach y = EpTransceiver t \<longleftrightarrow> (\<exists>t0. y = EpTransceiver t0 \<and> t = tr_final_detach t0)"
  by (cases y) auto

lemma finish_stop_fields [simp]:
  "\<not> as_slot (fst (finish_stop k s))"
  "as_meeting_listener (fst (finish_stop k s)) = as_meeting_listener s"
  "as_mcs_listener (fst (finish_stop k s)) = as_mcs_listener s"
  "as_connection_id (fst (finish_stop k s)) = as_connection_id s"
  "frames_to (as_connection_id s) (snd (finish_stop k s)) = (if k then [CloseFrame] else [])"
  by (simp_all add: finish_stop_def set_client_endpoint_null_def clear_client_endpoint_events_def)

lemma new_audio_session_fields [simp]:
  "as_meeting_listener (new_audio_session cfg sid meeting vb uid conn role ms) = eject_on_user_left cfg"
  "as_connection_id (new_audio_session cfg sid meeting vb uid conn role ms) = conn"
  "as_stop_conts (new_audio_session cfg sid meeting vb uid conn role ms) = []"
  by (simp_all add: new_audio_session_def)

lemma stop_suspends_final_detach [simp]: "stop_suspends (tr_final_detach t) = stop_suspends t"
  by (simp add: stop_suspends_def tr_final_detach_def untrack_mcs_events_def)

lemma as_stop_unslotted:
  "\<not> as_slot s \<Longrightarrow> as_stop s = (s\<lparr>as_meeting_listener := False, as_mcs_listener := False\<rparr>, [])"
  by (simp add: as_stop_def stop_then_def finish_stop_def clear_client_endpoint_events_def set_client_endpoint_null_def)

lemma set_client_endpoint_null_fields [simp]:
  "\<not> as_slot (set_client_endpoint_null s)"
  "as_meeting_listener (set_client_endpoint_null s) = as_meeting_listener s"
  "as_mcs_listener (set_client_endpoint_null s) = as_mcs_listener s"
  "as_connection_id (set_client_endpoint_null s) = as_connection_id s"
  by (simp_all add: set_client_endpoint_null_def clear_client_endpoint_events_def)

lemma clear_client_endpoint_events_fields [simp]:
  "as_slot (clear_client_endpoint_events s) = as_slot s"
  "as_meeting_listener (clear_client_endpoint_events s) = as_meeting_listener s"
  "as_mcs_listener (clear_client_endpoint_events s) = as_mcs_listener s"
  "as_connection_id (clear_client_endpoint_events s) = as_connection_id s"
  by (simp_all add: clear_client_endpoint_events_def)

text \<open>Whether a stop of the session suspends: its slot holds a transceiver that must unpublish.\<close>

lemma stop_then_suspends:
  "as_slot (fst (stop_then k s)) \<longleftrightarrow>
     as_slot s \<and> (\<exists>t. as_endpoint s = Some (EpTransceiver t) \<and> stop_suspends t)"
  by (auto simp: stop_then_def clear_client_endpoint_events_def split_def Let_def
      split: option.splits endpoint.splits bool.splits)

lemma stop_then_fields:
  "\<not> as_meeting_listener (fst (stop_then k s)) \<and> \<not> as_mcs_listener (fst (stop_then k s))
   \<and> as_connection_id (fst (stop_then k s)) = as_connection_id s"
  by (simp add: stop_then_def finish_stop_def split_def Let_def split: option.split endpoint.split bool.split)

text \<open>C29: Stop on a session is idempotent once it has completed: a second stop after the slot has been emptied changes nothing and has no effect.\<close>

theorem as_stop_idempotent:
  "\<not> as_slot (fst (as_stop s)) \<Longrightarrow> as_stop (fst (as_stop s)) = (fst (as_stop s), [])"
proof -
  let ?s = "fst (as_stop s)"
  assume "\<not> as_slot ?s"
  moreover have "\<not> as_meeting_listener ?s" "\<not> as_mcs_listener ?s"
    using stop_then_fields [of False s] by (simp_all add: as_stop_def)
  ultimately show ?thesis by (simp add: as_stop_unslotted)
qed

lemma tr_stop_frames: "frames_to k (snd (tr_stop t)) = []"
  by (simp add: tr_stop_eq Let_def split: option.split)

text \<open>Stop on a session sends no frame to any client connection.\<close>

theorem as_stop_no_frames: "frames_to k (snd (as_stop s)) = []"
  by (simp add: as_stop_def stop_then_def finish_stop_def split_def Let_def tr_stop_frames consumer_stop_def
      split: option.split endpoint.split bool.split)

text \<open>disconnectUser sends exactly one close frame to the session's connection when the stop completes at once, and none yet when the stop is suspended on the endpoint's unpublish.\<close>

theorem disconnect_user_close:
  "frames_to (as_connection_id s) (snd (disconnect_user s)) =
     (if as_slot s \<and> (\<exists>t. as_endpoint s = Some (EpTransceiver t) \<and> stop_suspends t) then [] else [CloseFrame])"
  by (auto simp: disconnect_user_def stop_then_def finish_stop_def clear_client_endpoint_events_def split_def Let_def
      tr_stop_frames consumer_stop_def split: option.splits endpoint.splits bool.splits)

text \<open>dtmf on a session without an endpoint in its slot, or with a listen-only consumer, returns the empty string and has no effect.\<close>

theorem as_dtmf_default:
  "\<not> as_slot s \<or> as_endpoint s = None \<or> (\<exists>c. as_endpoint s = Some (EpConsumer c)) \<Longrightarrow> as_dtmf tones s = ([], [])"
  by (auto simp: as_dtmf_def split: option.splits endpoint.splits bool.splits)

text \<open>With full audio disabled, starting a sendrecv session fails with SFU_INVALID_REQUEST before any endpoint is built or any call is made.\<close>

theorem fullaudio_gate:
  "\<not> fullaudio_enabled cfg \<Longrightarrow>
   as_start cfg offer (st, new_audio_session cfg sid meeting vb uid conn ''sendrecv'' ms) =
     ((st, (new_audio_session cfg sid meeting vb uid conn ''sendrecv'' ms)\<lparr>as_phase := SStartDone (Inl SFU_INVALID_REQUEST)\<rparr>), [])"
  by (simp add: as_start_def new_audio_session_def start_done_def)


lemma route_no_offline [simp]:
  "Emit UpMediaServerOffline \<notin> set es \<Longrightarrow> route_endpoint_effects l es = (l, es)"
  by (induction l es rule: route_endpoint_effects.induct) auto

lemma as_endpoint_event_reply:
  "\<forall>r. ev \<noteq> TrUnpublished r \<Longrightarrow> as_endpoint_event ev s = as_endpoint_reply ev s"
  by (cases ev) (auto simp: as_endpoint_event_def)

lemma as_endpoint_event_tr:
  assumes "as_endpoint s = Some (EpTransceiver t)" "Emit UpMediaServerOffline \<notin> set (snd (tr_step t ev))"
  shows "as_endpoint_reply ev s =
     (let s' = s\<lparr>as_endpoint := Some (EpTransceiver (fst (tr_step t ev)))\<rparr>
      in (case (as_phase s, tr_phase (fst (tr_step t ev))) of
            (SAwaitEndpoint, StartDone r) \<Rightarrow> start_done r s'
          | _ \<Rightarrow> s', snd (tr_step t ev)))"
  using assms
  by (simp add: as_endpoint_reply_def with_endpoint_def split_def Let_def split: session_phase.split start_phase.split)



text \<open>A sendrecv session whose endpoint start succeeds ends its start with the endpoint's answer.\<close>

theorem session_transceive_success:
  assumes "fullaudio_enabled cfg"
  shows "as_phase (snd (fst (as_run cfg (st, new_audio_session cfg sid meeting vb uid conn ''sendrecv'' ms)
            (sendrecv_start offer u m b answer)))) = SStartDone (Inr answer)"
  using assms
  by (simp add: sendrecv_start_def as_start_def new_audio_session_def new_transceiver_def on_session_def
      as_endpoint_event_reply as_endpoint_event_tr tr_start_defs flush_candidates_queue_def start_done_def track_client_endpoint_events_def)


lemma start_consumer_bridge_absent:
  "st meeting = None \<Longrightarrow> start_consumer_bridge meeting vb ms st =
     ((st(meeting \<mapsto> \<lparr>cb_voice_bridge = vb, cb_media_server = ms, cb_state = CbStarting\<rparr>),
       [Bridge (ConsumerBridgeStart meeting)]), CbPending)"
  by (simp add: start_consumer_bridge_def get_consumer_bridge_def store_consumer_bridge_def
      cbridge_start_def new_cbridge_def)

text \<open>C32: An ICE candidate sent to a listen-only session while its consumer bridge is still starting is dropped, whereas one sent after the consumer exists is forwarded once the subscription is made.\<close>

theorem listen_drops_early_ice:
  assumes "st meeting = None" "role \<noteq> ''sendrecv''"
  shows "ice_sent (snd (as_run cfg (st, new_audio_session cfg sid meeting vb uid conn role ms)
            [AsStart offer, AsIce c, AsBridgeStarted None, AsConsumerReply (Inr (m, answer))])) = []
       \<and> ice_sent (snd (as_run cfg (st, new_audio_session cfg sid meeting vb uid conn role ms)
            [AsStart offer, AsBridgeStarted None, AsIce c, AsConsumerReply (Inr (m, answer))])) = [c]"
  using assms
  by (simp add: as_start_def new_audio_session_def start_consumer_bridge_absent on_session_def
      as_bridge_started_def listen_endpoint_def consumer_start_def new_consumer_def as_on_ice_candidate_def
      consumer_on_ice_def with_endpoint_def as_consumer_reply_def consumer_subscribed_def start_done_def
      track_client_endpoint_events_def consumer_bridge_started_def)

text \<open>C31: A stop while a sendrecv start is suspended on the bridge start unpublishes the media, and the resumed start then fails with a catalogued error instead of answering.\<close>

theorem stop_during_start:
  assumes "fullaudio_enabled cfg" "u \<noteq> []" "m \<noteq> []"
  shows "as_phase (snd (fst (as_run cfg (st, new_audio_session cfg sid meeting vb uid conn ''sendrecv'' ms)
            [AsStart offer, AsEndpointEvent (TrConnection True), AsEndpointEvent (TrJoin (Inr u)),
             AsEndpointEvent (TrPublish (Inr m)), AsStop, AsEndpointEvent (TrUnpublished r),
             AsEndpointEvent (TrBridgeStart (Inr b))])))
           = SStartDone (Inl NEGOTIATION_FAILED)
       \<and> mcs_calls (snd (as_run cfg (st, new_audio_session cfg sid meeting vb uid conn ''sendrecv'' ms)
            [AsStart offer, AsEndpointEvent (TrConnection True), AsEndpointEvent (TrJoin (Inr u)),
             AsEndpointEvent (TrPublish (Inr m)), AsStop, AsEndpointEvent (TrUnpublished r),
             AsEndpointEvent (TrBridgeStart (Inr b))]))
           = [WaitForConnection, Join vb uid, Publish (Some u) vb offer, Unpublish u m]
       \<and> as_phase (snd (fst (as_run cfg (st, new_audio_session cfg sid meeting vb uid conn ''sendrecv'' ms)
            [AsStart offer, AsEndpointEvent (TrConnection True), AsEndpointEvent (TrJoin (Inr u)),
             AsEndpointEvent (TrPublish (Inr m)), AsStop, AsEndpointEvent (TrBridgeStart (Inr b))])))
           = SAwaitEndpoint
       \<and> mcs_calls (snd (as_run cfg (st, new_audio_session cfg sid meeting vb uid conn ''sendrecv'' ms)
            [AsStart offer, AsEndpointEvent (TrConnection True), AsEndpointEvent (TrJoin (Inr u)),
             AsEndpointEvent (TrPublish (Inr m)), AsStop, AsEndpointEvent (TrBridgeStart (Inr b))]))
           = [WaitForConnection, Join vb uid, Publish (Some u) vb offer, Unpublish u m, Consume (Some b) (Some m)]"
  using assms
  by (simp add: as_start_def new_audio_session_def new_transceiver_def on_session_def
      as_endpoint_event_reply as_endpoint_event_tr tr_start_defs start_done_def as_stop_def stop_then_def
      finish_stop_def stop_suspends_def clear_client_endpoint_events_def as_endpoint_event_def as_unpublished_def
      with_endpoint_def on_unpublished_eq
      set_client_endpoint_null_def tr_final_detach_def untrack_mcs_events_def tr_stop_eq Let_def)




lemma route_listener_mono: "fst (route_endpoint_effects l es) \<Longrightarrow> l"
  by (induction l es rule: route_endpoint_effects.induct) (auto simp: split_def Let_def split: if_splits)

lemma tr_final_detach_inv: "tr_inv (tr_final_detach t) = tr_inv t"
  by (simp add: tr_inv_def phase_ok_def tr_final_detach_def untrack_mcs_events_def split: start_phase.split)

lemma with_endpoint_inv:
  "as_inv s \<Longrightarrow> as_slot s \<or> as_phase s \<noteq> SIdle \<Longrightarrow> (\<And>t. ep = EpTransceiver t \<Longrightarrow> tr_inv t) \<Longrightarrow>
   as_inv (fst (with_endpoint s ep es))"
  by (auto simp: as_inv_def with_endpoint_def split_def Let_def dest: route_listener_mono)

lemma start_done_inv: "as_inv s \<Longrightarrow> as_phase s \<noteq> SIdle \<Longrightarrow> as_inv (start_done r s)"
  by (auto simp: as_inv_def start_done_def track_client_endpoint_events_def split: sum.split)

lemma new_audio_session_inv: "as_inv (new_audio_session cfg sid meeting vb uid conn role ms)"
  by (simp add: as_inv_def new_audio_session_def)

lemma as_start_inv: "as_inv (snd stt) \<Longrightarrow> as_inv (snd (fst (as_start cfg offer stt)))"
  by (auto simp: as_start_def as_inv_def start_done_def track_client_endpoint_events_def listen_endpoint_def
      consumer_start_def new_transceiver_inv tr_start_inv split_def Let_def split: cb_outcome.split prod.split)


lemma as_bridge_started_inv: "as_inv (snd stt) \<Longrightarrow> as_inv (snd (fst (as_bridge_started r stt)))"
  by (auto simp: as_bridge_started_def as_inv_def start_done_def track_client_endpoint_events_def
      listen_endpoint_def consumer_start_def split_def Let_def split: session_phase.split option.split sum.split)

lemma as_endpoint_reply_inv: "as_inv s \<Longrightarrow> as_inv (fst (as_endpoint_reply ev s))"
proof (cases "as_endpoint s")
  case (Some ep)
  assume inv: "as_inv s"
  show ?thesis
  proof (cases ep)
    case (EpTransceiver t)
    with Some inv have "tr_inv t" "as_phase s \<noteq> SIdle" by (auto simp: as_inv_def)
    then have "tr_inv (fst (tr_step t ev))" by (simp add: tr_step_inv)
    with inv \<open>as_phase s \<noteq> SIdle\<close> have w: "as_inv (fst (with_endpoint s (EpTransceiver (fst (tr_step t ev))) es))" for es
      by (auto intro: with_endpoint_inv)
    have ph: "as_phase (fst (with_endpoint s ep' es)) = as_phase s" for ep' es
      by (simp add: with_endpoint_def split_def Let_def)
    from w ph Some EpTransceiver \<open>as_phase s \<noteq> SIdle\<close> show ?thesis
      by (auto simp: as_endpoint_reply_def split_def Let_def intro: start_done_inv
          split: session_phase.split start_phase.split)
  next
    case (EpConsumer c)
    with Some show ?thesis using inv by (simp add: as_endpoint_reply_def)
  qed
qed (simp add: as_endpoint_reply_def)


lemma with_endpoint_phase [simp]: "as_phase (fst (with_endpoint s ep es)) = as_phase s"
  by (simp add: with_endpoint_def split_def Let_def)

lemma as_consumer_reply_inv: "as_inv s \<Longrightarrow> as_inv (fst (as_consumer_reply r s))"
proof (cases "as_endpoint s")
  case (Some ep)
  assume inv: "as_inv s"
  show ?thesis
  proof (cases ep)
    case (EpConsumer c)
    with Some inv have np: "as_phase s \<noteq> SIdle" by (auto simp: as_inv_def)
    with inv have w: "as_inv (fst (with_endpoint s (EpConsumer c') es))" for c' es
      by (auto intro: with_endpoint_inv)
    from w np Some EpConsumer show ?thesis
      by (auto simp: as_consumer_reply_def split_def Let_def intro: start_done_inv
          split: session_phase.split co_phase.split)
  qed (use Some inv in \<open>simp add: as_consumer_reply_def\<close>)
qed (simp add: as_consumer_reply_def)

lemma as_on_ice_candidate_inv: "as_inv s \<Longrightarrow> as_inv (fst (as_on_ice_candidate x s))"
  by (auto simp: as_on_ice_candidate_def as_inv_def with_endpoint_def split_def Let_def on_ice_candidate_inv
      dest: route_listener_mono split: option.split endpoint.split)

lemma as_flush_candidates_queue_inv: "as_inv s \<Longrightarrow> as_inv (fst (as_flush_candidates_queue s))"
  by (auto simp: as_flush_candidates_queue_def as_inv_def with_endpoint_def split_def Let_def flush_candidates_queue_inv
      dest: route_listener_mono split: option.split endpoint.split)

lemma ep_final_detach_inv:
  "ep_final_detach y = EpTransceiver t \<Longrightarrow> (\<forall>t0. y = EpTransceiver t0 \<longrightarrow> tr_inv t0) \<Longrightarrow> tr_inv t"
  by (cases y) (auto simp: tr_final_detach_inv)

lemma as_final_detach_inv: "as_inv s \<Longrightarrow> as_inv (as_final_detach s)"
  by (auto simp: as_final_detach_def as_inv_def clear_client_endpoint_events_def tr_final_detach_inv)

lemma as_process_answer_inv: "as_inv s \<Longrightarrow> as_inv (fst (as_process_answer a s))"
  by (auto simp: as_process_answer_def as_inv_def process_answer_def with_endpoint_def split_def Let_def
      dest: route_listener_mono split: option.split endpoint.split bool.split)

lemma as_restart_ice_inv: "as_inv s \<Longrightarrow> as_inv (fst (as_restart_ice s))"
  by (auto simp: as_restart_ice_def as_inv_def tr_restart_ice_def with_endpoint_def split_def Let_def
      dest: route_listener_mono split: option.split endpoint.split bool.split)

lemma finish_stop_inv: "as_inv s \<Longrightarrow> as_inv (fst (finish_stop k s))"
  by (auto simp: finish_stop_def as_inv_def set_client_endpoint_null_def clear_client_endpoint_events_def
      tr_final_detach_inv dest: ep_final_detach_inv)

lemma stop_then_inv: "as_inv s \<Longrightarrow> as_inv (fst (stop_then k s))"
  by (auto simp: stop_then_def as_inv_def finish_stop_def Let_def split_def set_client_endpoint_null_def
      clear_client_endpoint_events_def tr_final_detach_inv tr_stop_inv split: option.split endpoint.split)

lemma as_stop_inv: "as_inv s \<Longrightarrow> as_inv (fst (as_stop s))"
  unfolding as_stop_def by (rule stop_then_inv)

lemma as_user_left_inv: "as_inv s \<Longrightarrow> as_inv (fst (as_user_left s))"
proof -
  assume "as_inv s"
  then have "as_inv (s\<lparr>as_meeting_listener := False\<rparr>)" by (simp add: as_inv_def)
  then have "as_inv (fst (stop_then True (s\<lparr>as_meeting_listener := False\<rparr>)))" by (rule stop_then_inv)
  with \<open>as_inv s\<close> show ?thesis by (simp add: as_user_left_def disconnect_user_def)
qed

lemma as_unpublished_inv: "as_inv s \<Longrightarrow> as_inv (fst (as_unpublished r s))"
proof (cases "as_endpoint s")
  case (Some ep)
  assume inv: "as_inv s"
  show ?thesis
  proof (cases ep)
    case (EpTransceiver t)
    with Some inv have "tr_inv t" "as_phase s \<noteq> SIdle" by (auto simp: as_inv_def)
    then have "tr_inv (fst (on_unpublished r t))" by (simp add: on_unpublished_inv)
    with inv \<open>as_phase s \<noteq> SIdle\<close> have w: "as_inv (fst (with_endpoint s (EpTransceiver (fst (on_unpublished r t))) es))" for es
      by (auto intro: with_endpoint_inv)
    then have "as_inv ((fst (with_endpoint s (EpTransceiver (fst (on_unpublished r t))) es))\<lparr>as_stop_conts := ks\<rparr>)" for es ks
      by (simp add: as_inv_def)
    with w Some EpTransceiver show ?thesis
      by (auto simp: as_unpublished_def split_def Let_def intro: finish_stop_inv split: list.split)
  qed (use Some inv in \<open>simp add: as_unpublished_def\<close>)
qed (simp add: as_unpublished_def)

lemma as_endpoint_event_inv: "as_inv s \<Longrightarrow> as_inv (fst (as_endpoint_event ev s))"
  by (cases ev) (simp_all add: as_endpoint_event_def as_endpoint_reply_inv as_unpublished_inv)

lemma as_step_inv: "as_inv (snd stt) \<Longrightarrow> as_inv (snd (fst (as_step cfg stt e)))"
  by (cases e) (simp_all add: on_session_def split_def Let_def as_start_inv as_bridge_started_inv as_endpoint_event_inv
      as_consumer_reply_inv as_on_ice_candidate_inv as_process_answer_inv as_restart_ice_inv as_stop_inv
      as_user_left_inv as_flush_candidates_queue_inv as_final_detach_inv)

lemma as_run_inv: "as_inv (snd stt) \<Longrightarrow> as_inv (snd (fst (as_run cfg stt evs)))"
proof (induction evs arbitrary: stt)
  case Nil
  then show ?case by simp
next
  case (Cons e evs)
  from Cons.prems have "as_inv (snd (fst (as_step cfg stt e)))" by (rule as_step_inv)
  then have "as_inv (snd (fst (as_run cfg (fst (as_step cfg stt e)) evs)))" by (rule Cons.IH)
  then show ?case by (simp add: split_def Let_def)
qed

text \<open>C15: Every state a session reaches from construction satisfies the session invariant: the slot only refers to an existing endpoint, the offline listener only exists while the slot holds the endpoint, the transceiver it owns satisfies the endpoint invariant, and a session that has not started owns no endpoint.\<close>

theorem as_reachable_inv:
  "as_inv (snd (fst (as_run cfg (st, new_audio_session cfg sid meeting vb uid conn role ms) evs)))"
  using new_audio_session_inv by (rule as_run_inv [where stt = "(st, _)", simplified])


lemma as_run_append:
  "as_run cfg stt (xs @ ys) =
     (let (s1, o1) = as_run cfg stt xs; (s2, o2) = as_run cfg s1 ys in (s2, o1 @ o2))"
  by (induction xs arbitrary: stt) (simp_all add: split_def Let_def)

lemma session_start_state:
  assumes "fullaudio_enabled cfg"
  shows "as_run cfg (st, new_audio_session cfg sid meeting vb uid conn ''sendrecv'' ms) (sendrecv_start offer u m b answer)
   = ((st, (new_audio_session cfg sid meeting vb uid conn ''sendrecv'' ms)\<lparr>
        as_endpoint := Some (EpTransceiver ((new_transceiver meeting vb uid conn)\<lparr>tr_mcs_user_id := Some u,
           tr_media_id := Some m, tr_bridge := Some (TBridge (Some b)), tr_media_handlers := Some m,
           tr_phase := StartDone (Inr answer)\<rparr>)),
        as_slot := True, as_offline_listener := True, as_phase := SStartDone (Inr answer)\<rparr>),
      [Mcs WaitForConnection, Mcs (Join vb uid), Mcs (Publish (Some u) vb offer),
       Bridge (BridgeStart m), Mcs (Consume (Some b) (Some m)),
       Mcs (Connect (Some m) (Some b)), Mcs (Connect (Some b) (Some m)),
       Mcs (OnEvent MEDIA_STATE m), Mcs (OnEvent MEDIA_STATE_ICE m)])"
  using assms
  by (simp add: sendrecv_start_def as_start_def new_audio_session_def new_transceiver_def on_session_def
      as_endpoint_event_reply as_endpoint_event_tr tr_start_defs flush_candidates_queue_def start_done_def track_client_endpoint_events_def)

text \<open>After a successful start, the first MEDIA_SERVER_OFFLINE of the endpoint is re-emitted by the session and later ones are not (the listener is registered once).\<close>

theorem offline_reemitted_once:
  assumes "fullaudio_enabled cfg"
  shows "filter (\<lambda>e. e = Emit UpMediaServerOffline)
           (snd (as_run cfg (st, new_audio_session cfg sid meeting vb uid conn ''sendrecv'' ms)
              (sendrecv_start offer u m b answer @
               [AsEndpointEvent (TrMediaState m MediaServerOfflineState d),
                AsEndpointEvent (TrMediaState m MediaServerOfflineState d')])))
         = [Emit UpMediaServerOffline]"
  using assms
  by (simp add: as_run_append session_start_state on_session_def as_endpoint_event_def as_endpoint_reply_def
      with_endpoint_def media_state_webrtc_def)


subsection \<open>Stop suspended on the endpoint's unpublish\<close>

lemmas stop_simps = as_stop_def disconnect_user_def as_user_left_def stop_then_def finish_stop_def
  stop_suspends_def clear_client_endpoint_events_def set_client_endpoint_null_def tr_final_detach_def
  untrack_mcs_events_def tr_stop_eq as_endpoint_event_def as_unpublished_def with_endpoint_def
  on_unpublished_eq on_session_def

text \<open>C21: A candidate the client sends while the session's stop awaits the endpoint's unpublish still reaches the endpoint, which forwards it to the MCS for the media being unpublished; once the unpublish reply has emptied the slot, a candidate is dropped.\<close>

theorem ice_during_stop:
  assumes "fullaudio_enabled cfg" "u \<noteq> []" "m \<noteq> []"
  shows "ice_sent (snd (as_run cfg (fst (as_run cfg (st, new_audio_session cfg sid meeting vb uid conn ''sendrecv'' ms) (sendrecv_start offer u m b answer))) [AsStop, AsIce c])) = [c]
     \<and> ice_sent (snd (as_run cfg (fst (as_run cfg (st, new_audio_session cfg sid meeting vb uid conn ''sendrecv'' ms) (sendrecv_start offer u m b answer))) [AsStop, AsEndpointEvent (TrUnpublished r), AsIce c])) = []"
  using assms
  by (simp add: session_start_state stop_simps as_on_ice_candidate_def on_ice_candidate_def flush_candidates_queue_def)

text \<open>C22: When the user leaves, disconnectUser sends the close frame only after the stop has returned: the unpublish goes out first, and the bridge release and the close frame follow the unpublish reply.\<close>

theorem close_after_unpublish:
  assumes "fullaudio_enabled cfg" "eject_on_user_left cfg" "u \<noteq> []" "m \<noteq> []"
  shows "snd (as_run cfg (fst (as_run cfg (st, new_audio_session cfg sid meeting vb uid conn ''sendrecv'' ms) (sendrecv_start offer u m b answer))) [AsUserLeft]) = [Mcs (Unpublish u m)]
     \<and> snd (as_run cfg (fst (as_run cfg (st, new_audio_session cfg sid meeting vb uid conn ''sendrecv'' ms) (sendrecv_start offer u m b answer))) [AsUserLeft, AsEndpointEvent (TrUnpublished r)])
         = [Mcs (Unpublish u m), Bridge BridgeStop, Bridge BridgeDetach, Client conn CloseFrame]"
  using assms
  by (simp add: session_start_state stop_simps)

text \<open>C23: A second stop that arrives while the first awaits the endpoint's unpublish finds the endpoint still in the slot and unpublishes the media again; a stop after the first has completed does nothing.\<close>

theorem stop_during_stop:
  assumes "fullaudio_enabled cfg" "u \<noteq> []" "m \<noteq> []"
  shows "mcs_calls (snd (as_run cfg (fst (as_run cfg (st, new_audio_session cfg sid meeting vb uid conn ''sendrecv'' ms) (sendrecv_start offer u m b answer))) [AsStop, AsStop])) = [Unpublish u m, Unpublish u m]
     \<and> mcs_calls (snd (as_run cfg (fst (as_run cfg (st, new_audio_session cfg sid meeting vb uid conn ''sendrecv'' ms) (sendrecv_start offer u m b answer))) [AsStop, AsEndpointEvent (TrUnpublished r), AsStop])) = [Unpublish u m]"
  using assms
  by (simp add: session_start_state stop_simps)

subsection \<open>Witnesses\<close>

theorem as_reachable_inv_witness:
  "as_inv (snd (fst (as_run cfg_full (Map.empty, new_audio_session cfg_full ''s'' ''m'' ''vb'' ''u'' ''k'' ''recvonly'' ''fs'')
     [AsStart ''o'', AsBridgeStarted None, AsStop])))"
  by (rule as_reachable_inv)

theorem as_dtmf_default_witness:
  "as_dtmf ''123'' (new_audio_session cfg_full ''s'' ''m'' ''vb'' ''u'' ''k'' ''sendrecv'' ''fs'') = ([], [])"
  by (rule as_dtmf_default) (simp add: new_audio_session_def)

theorem fullaudio_gate_witness:
  "as_start cfg_listen_only ''o'' (Map.empty, new_audio_session cfg_listen_only ''s'' ''m'' ''vb'' ''u'' ''k'' ''sendrecv'' ''fs'') =
     ((Map.empty, (new_audio_session cfg_listen_only ''s'' ''m'' ''vb'' ''u'' ''k'' ''sendrecv'' ''fs'')
        \<lparr>as_phase := SStartDone (Inl SFU_INVALID_REQUEST)\<rparr>), [])"
  by (rule fullaudio_gate) (simp add: cfg_listen_only_def)

theorem session_transceive_success_witness:
  "as_phase (snd (fst (as_run cfg_full (Map.empty, new_audio_session cfg_full ''s'' ''m'' ''vb'' ''u'' ''k'' ''sendrecv'' ''fs'')
     (sendrecv_start ''o'' ''mu'' ''med'' ''br'' ''ans''))))
   = SStartDone (Inr ''ans'')"
  by (rule session_transceive_success) (simp add: cfg_full_def)

theorem listen_drops_early_ice_witness:
  "ice_sent (snd (as_run cfg_full (Map.empty, new_audio_session cfg_full ''s'' ''m'' ''vb'' ''u'' ''k'' ''recvonly'' ''fs'')
     [AsStart ''o'', AsIce ''c'', AsBridgeStarted None, AsConsumerReply (Inr (''med'', ''ans''))])) = []"
proof -
  have "(Map.empty :: cb_store) ''m'' = None" "''recvonly'' \<noteq> ''sendrecv''" by simp_all
  from listen_drops_early_ice [OF this] show ?thesis by blast
qed

theorem stop_during_start_witness:
  "as_phase (snd (fst (as_run cfg_full (Map.empty, new_audio_session cfg_full ''s'' ''m'' ''vb'' ''u'' ''k'' ''sendrecv'' ''fs'')
     [AsStart ''o'', AsEndpointEvent (TrConnection True), AsEndpointEvent (TrJoin (Inr ''mu'')),
      AsEndpointEvent (TrPublish (Inr ''med'')), AsStop, AsEndpointEvent (TrUnpublished None),
      AsEndpointEvent (TrBridgeStart (Inr ''br''))])))
   = SStartDone (Inl NEGOTIATION_FAILED)"
proof -
  have "fullaudio_enabled cfg_full" "''mu'' \<noteq> []" "''med'' \<noteq> []" by (simp_all add: cfg_full_def)
  from stop_during_start [OF this] show ?thesis by blast
qed

theorem as_stop_idempotent_witness:
  "as_stop (fst (as_stop (new_audio_session cfg_full ''s'' ''m'' ''vb'' ''u'' ''k'' ''recvonly'' ''fs'')))
   = (fst (as_stop (new_audio_session cfg_full ''s'' ''m'' ''vb'' ''u'' ''k'' ''recvonly'' ''fs'')), [])"
proof -
  have "\<not> as_slot (fst (as_stop (new_audio_session cfg_full ''s'' ''m'' ''vb'' ''u'' ''k'' ''recvonly'' ''fs'')))"
    by (simp add: as_stop_unslotted new_audio_session_def)
  then show ?thesis by (rule as_stop_idempotent)
qed

theorem offline_reemitted_once_witness:
  "filter (\<lambda>e. e = Emit UpMediaServerOffline)
     (snd (as_run cfg_full (Map.empty, new_audio_session cfg_full ''s'' ''m'' ''vb'' ''u'' ''k'' ''sendrecv'' ''fs'')
        (sendrecv_start ''o'' ''mu'' ''med'' ''br'' ''ans'' @
         [AsEndpointEvent (TrMediaState ''med'' MediaServerOfflineState ''down''),
          AsEndpointEvent (TrMediaState ''med'' MediaServerOfflineState ''down'')])))
   = [Emit UpMediaServerOffline]"
  by (rule offline_reemitted_once) (simp add: cfg_full_def)


theorem ice_during_stop_witness:
  "ice_sent (snd (as_run cfg_full (fst (as_run cfg_full (Map.empty, new_audio_session cfg_full ''s'' ''m'' ''vb'' ''u'' ''k'' ''sendrecv'' ''fs'') (sendrecv_start ''o'' ''mu'' ''med'' ''br'' ''ans''))) [AsStop, AsIce ''c''])) = [''c'']"
proof -
  have "fullaudio_enabled cfg_full" "''mu'' \<noteq> []" "''med'' \<noteq> []" by (simp_all add: cfg_full_def)
  from ice_during_stop [OF this, of Map.empty] show ?thesis by blast
qed

theorem close_after_unpublish_witness:
  "snd (as_run cfg_full (fst (as_run cfg_full (Map.empty, new_audio_session cfg_full ''s'' ''m'' ''vb'' ''u'' ''k'' ''sendrecv'' ''fs'') (sendrecv_start ''o'' ''mu'' ''med'' ''br'' ''ans''))) [AsUserLeft, AsEndpointEvent (TrUnpublished None)])
     = [Mcs (Unpublish ''mu'' ''med''), Bridge BridgeStop, Bridge BridgeDetach, Client ''k'' CloseFrame]"
proof -
  have "fullaudio_enabled cfg_full" "eject_on_user_left cfg_full" "''mu'' \<noteq> []" "''med'' \<noteq> []"
    by (simp_all add: cfg_full_def)
  from close_after_unpublish [OF this, of Map.empty] show ?thesis by blast
qed

theorem stop_during_stop_witness:
  "mcs_calls (snd (as_run cfg_full (fst (as_run cfg_full (Map.empty, new_audio_session cfg_full ''s'' ''m'' ''vb'' ''u'' ''k'' ''sendrecv'' ''fs'') (sendrecv_start ''o'' ''mu'' ''med'' ''br'' ''ans''))) [AsStop, AsStop])) = [Unpublish ''mu'' ''med'', Unpublish ''mu'' ''med'']"
proof -
  have "fullaudio_enabled cfg_full" "''mu'' \<noteq> []" "''med'' \<noteq> []" by (simp_all add: cfg_full_def)
  from stop_during_stop [OF this, of Map.empty] show ?thesis by blast
qed

end
