(* ===== verification/Audio_Meeting.thy ===== *)
theory Audio_Meeting
  imports Audio_Session "HOL-Library.AList"
begin

text \<open>
  The audio sessions of the process as the audio manager holds them: a table from
  session id to \<open>AudioSession\<close>, all sharing the one consumer bridge store of
  \<open>Consumer_Bridge\<close>.  The manager is not in the snapshot; its table and routing
  are modelled from the specification (section 4.1: the manager owns the session
  table and routes each inbound message to the session of its key; a message for
  an unknown key changes nothing).  An event for a session runs that session's
  \<open>as_step\<close> on the shared store, and each effect is tagged with the id of the
  session that produced it.  The theory shows that sessions of different meetings do
  not interfere (a session's run inside the table is its run alone), that the table
  invariant holds on every interleaving, and how sessions of one meeting meet in the
  store: a second listener reuses a running bridge, starts it again while it is
  starting, and retries a failed start.
\<close>

type_synonym session_table = "(string \<times> audio_session) list"
type_synonym meeting_state = "cb_store \<times> session_table"

text \<open>
  Routing one event to the session of its id (the manager's \<open>sessions[id]\<close> lookup
  followed by the session's handler): the session's step runs on the shared store,
  the table keeps the updated session under its id, and the effects are tagged.
\<close>

definition session_step ::
  "audio_config \<Rightarrow> meeting_state \<Rightarrow> string \<Rightarrow> as_event \<Rightarrow> meeting_state \<times> (string \<times> effect) list" where
  "session_step cfg mst sid ev =
     (case map_of (snd mst) sid of
        None \<Rightarrow> (mst, [])
      | Some s \<Rightarrow> (let ((st', s'), es) = as_step cfg (fst mst, s) ev
                  in ((st', AList.update sid s' (snd mst)), map (Pair sid) es)))"

fun meeting_run ::
  "audio_config \<Rightarrow> meeting_state \<Rightarrow> (string \<times> as_event) list \<Rightarrow> meeting_state \<times> (string \<times> effect) list" where
  "meeting_run cfg mst [] = (mst, [])"
| "meeting_run cfg mst ((sid, ev) # evs) =
     (let (mst1, offer_a) = session_step cfg mst sid ev; (mst2, offer_b) = meeting_run cfg mst1 evs in (mst2, offer_a @ offer_b))"

text \<open>Effects of one session, and the events addressed to it, in a tagged log.\<close>

definition effects_of :: "string \<Rightarrow> (string \<times> effect) list \<Rightarrow> effect list" where
  "effects_of sid tes = map snd (filter (\<lambda>te. fst te = sid) tes)"

definition events_of :: "string \<Rightarrow> (string \<times> as_event) list \<Rightarrow> as_event list" where
  "events_of sid evs = map snd (filter (\<lambda>e. fst e = sid) evs)"

text \<open>
  The table invariant: every session sits under its own id and satisfies the session
  invariant, and a listen-only session that has started has a bridge of its meeting
  in the store.
\<close>

definition meeting_inv :: "meeting_state \<Rightarrow> bool" where
  "meeting_inv mst \<longleftrightarrow>
     (\<forall>(sid, s) \<in> set (snd mst). as_id s = sid \<and> as_inv s \<and>
        (as_role s \<noteq> ''sendrecv'' \<and> as_phase s \<noteq> SIdle \<longrightarrow> fst mst (as_meeting_id s) \<noteq> None))"

text \<open>Two fresh listen-only sessions of one meeting.\<close>

definition listeners ::
  "audio_config \<Rightarrow> string \<Rightarrow> string \<Rightarrow> string \<Rightarrow> string \<Rightarrow> string \<Rightarrow> session_table" where
  "listeners cfg m vb ms a b =
     [(a, new_audio_session cfg a m vb a a ''recvonly'' ms), (b, new_audio_session cfg b m vb b b ''recvonly'' ms)]"

text \<open>Two listen-only sessions of two different meetings.\<close>

definition two_meetings :: session_table where
  "two_meetings =
     [(''a'', new_audio_session cfg_listen_only ''a'' ''m1'' ''vb1'' ''u1'' ''c1'' ''recvonly'' ''ms''),
      (''b'', new_audio_session cfg_listen_only ''b'' ''m2'' ''vb2'' ''u2'' ''c2'' ''recvonly'' ''ms'')]"

definition two_meetings_events :: "(string \<times> as_event) list" where
  "two_meetings_events =
     [(''a'', AsStart ''offer_a''), (''b'', AsStart ''offer_b''), (''a'', AsBridgeStarted None), (''b'', AsStop),
      (''a'', AsConsumerReply (Inr (''ma'', ''ans'')))]"

subsection \<open>The store seen by one session\<close>

text \<open>
  A session step reads and writes the store only at the session's meeting, and never
  changes the session's id, meeting or role.
\<close>

lemma start_consumer_bridge_frame:
  "m' \<noteq> m \<Longrightarrow> fst (fst (start_consumer_bridge m vb ms st)) m' = st m'"
  by (simp add: start_consumer_bridge_def get_consumer_bridge_def store_consumer_bridge_def cbridge_start_def
      Let_def split: option.splits)

lemma start_consumer_bridge_local:
  "st m = st' m \<Longrightarrow> snd (start_consumer_bridge m vb ms st) = snd (start_consumer_bridge m vb ms st')
    \<and> snd (fst (start_consumer_bridge m vb ms st)) = snd (fst (start_consumer_bridge m vb ms st'))
    \<and> fst (fst (start_consumer_bridge m vb ms st)) m = fst (fst (start_consumer_bridge m vb ms st')) m"
  by (simp add: start_consumer_bridge_def get_consumer_bridge_def store_consumer_bridge_def cbridge_start_def
      Let_def split: option.splits)

lemma consumer_bridge_started_frame:
  "m' \<noteq> m \<Longrightarrow> consumer_bridge_started m st m' = st m'"
  by (simp add: consumer_bridge_started_def split: option.splits)

lemma consumer_bridge_started_local:
  "st m = st' m \<Longrightarrow> consumer_bridge_started m st m = consumer_bridge_started m st' m"
  by (simp add: consumer_bridge_started_def split: option.splits)

lemma as_step_frame:
  "m' \<noteq> as_meeting_id s \<Longrightarrow> fst (fst (as_step cfg (st, s) e)) m' = st m'"
  by (cases e) (auto simp: as_start_def as_bridge_started_def on_session_def split_def Let_def
      start_consumer_bridge_frame consumer_bridge_started_frame listen_endpoint_def
      split: session_phase.splits option.splits cb_outcome.splits)

lemma as_step_local:
  assumes "st (as_meeting_id s) = st' (as_meeting_id s)"
  shows "snd (fst (as_step cfg (st, s) e)) = snd (fst (as_step cfg (st', s) e))
    \<and> snd (as_step cfg (st, s) e) = snd (as_step cfg (st', s) e)
    \<and> fst (fst (as_step cfg (st, s) e)) (as_meeting_id s) = fst (fst (as_step cfg (st', s) e)) (as_meeting_id s)"
proof (cases e)
  case (AsStart offer)
  from start_consumer_bridge_local [where st = st and st' = st' and m = "as_meeting_id s" and vb = "as_voice_bridge s" and ms = "as_media_server s", OF assms] assms show ?thesis
    unfolding AsStart by (auto simp: as_start_def split_def Let_def split: cb_outcome.splits)
next
  case (AsBridgeStarted r)
  from consumer_bridge_started_local [where st = st and st' = st' and m = "as_meeting_id s", OF assms] assms show ?thesis
    unfolding AsBridgeStarted by (auto simp: as_bridge_started_def split_def Let_def
      split: session_phase.splits option.splits)
qed (simp_all add: on_session_def split_def Let_def assms)

lemma with_endpoint_ids [simp]:
  "as_id (fst (with_endpoint s ep es)) = as_id s" "as_meeting_id (fst (with_endpoint s ep es)) = as_meeting_id s"
  "as_role (fst (with_endpoint s ep es)) = as_role s"
  by (simp_all add: with_endpoint_def split_def Let_def)

lemma start_done_ids [simp]:
  "as_id (start_done r s) = as_id s" "as_meeting_id (start_done r s) = as_meeting_id s"
  "as_role (start_done r s) = as_role s"
  by (simp_all add: start_done_def track_client_endpoint_events_def split: sum.split)

lemma finish_stop_ids [simp]:
  "as_id (fst (finish_stop k s)) = as_id s" "as_meeting_id (fst (finish_stop k s)) = as_meeting_id s"
  "as_role (fst (finish_stop k s)) = as_role s"
  by (simp_all add: finish_stop_def set_client_endpoint_null_def clear_client_endpoint_events_def)

lemma stop_then_ids:
  "as_id (fst (stop_then k s)) = as_id s \<and> as_meeting_id (fst (stop_then k s)) = as_meeting_id s
   \<and> as_role (fst (stop_then k s)) = as_role s"
  by (simp add: stop_then_def clear_client_endpoint_events_def split_def Let_def
      split: option.split endpoint.split bool.split)

lemma as_unpublished_ids:
  "as_id (fst (as_unpublished r s)) = as_id s \<and> as_meeting_id (fst (as_unpublished r s)) = as_meeting_id s
   \<and> as_role (fst (as_unpublished r s)) = as_role s"
  by (simp add: as_unpublished_def split_def Let_def split: option.split endpoint.split list.split)

lemma as_endpoint_reply_ids:
  "as_id (fst (as_endpoint_reply ev s)) = as_id s \<and> as_meeting_id (fst (as_endpoint_reply ev s)) = as_meeting_id s
   \<and> as_role (fst (as_endpoint_reply ev s)) = as_role s"
  by (simp add: as_endpoint_reply_def split_def Let_def
      split: option.split endpoint.split session_phase.split start_phase.split)

lemma as_endpoint_event_ids:
  "as_id (fst (as_endpoint_event ev s)) = as_id s \<and> as_meeting_id (fst (as_endpoint_event ev s)) = as_meeting_id s
   \<and> as_role (fst (as_endpoint_event ev s)) = as_role s"
  by (cases ev) (simp_all add: as_endpoint_event_def as_endpoint_reply_ids as_unpublished_ids)

lemma as_step_identity:
  "as_id (snd (fst (as_step cfg stt e))) = as_id (snd stt)
   \<and> as_meeting_id (snd (fst (as_step cfg stt e))) = as_meeting_id (snd stt)
   \<and> as_role (snd (fst (as_step cfg stt e))) = as_role (snd stt)"
proof (cases e)
  case (AsEndpointEvent ev)
  then show ?thesis using as_endpoint_event_ids [of ev "snd stt"] by (simp add: on_session_def split_def Let_def)
next
  case AsStop
  then show ?thesis using stop_then_ids [of False "snd stt"] by (simp add: on_session_def split_def Let_def as_stop_def)
next
  case AsUserLeft
  then show ?thesis using stop_then_ids [of True "(snd stt)\<lparr>as_meeting_listener := False\<rparr>"]
    by (simp add: on_session_def split_def Let_def as_user_left_def disconnect_user_def)
qed (auto simp: on_session_def split_def Let_def as_start_def as_bridge_started_def
      listen_endpoint_def as_consumer_reply_def as_on_ice_candidate_def as_flush_candidates_queue_def
      as_process_answer_def as_restart_ice_def as_final_detach_def clear_client_endpoint_events_def
      split: option.splits endpoint.splits session_phase.splits cb_outcome.splits bool.splits prod.splits
        co_phase.splits)

lemma effects_of_append [simp]: "effects_of a (xs @ ys) = effects_of a xs @ effects_of a ys"
  by (simp add: effects_of_def)

lemma effects_of_tagged [simp]: "effects_of a (map (Pair b) es) = (if b = a then es else [])"
  by (induction es) (auto simp: effects_of_def)

lemma effects_of_Nil [simp]: "effects_of a [] = []"
  by (simp add: effects_of_def)

lemma events_of_Cons [simp]:
  "events_of a ((b, ev) # evs) = (if b = a then ev # events_of a evs else events_of a evs)"
  by (simp add: events_of_def)

lemma events_of_Nil [simp]: "events_of a [] = []"
  by (simp add: events_of_def)

lemma in_set_update_alist: "x \<in> set (AList.update k v al) \<Longrightarrow> x = (k, v) \<or> x \<in> set al"
  by (induction al) (auto split: if_splits)

lemma meeting_run_project:
  "map_of T a = Some s \<Longrightarrow> st (as_meeting_id s) = st' (as_meeting_id s) \<Longrightarrow>
   \<forall>(b, t) \<in> set T. b \<noteq> a \<longrightarrow> as_meeting_id t \<noteq> as_meeting_id s \<Longrightarrow>
   map_of (snd (fst (meeting_run cfg (st, T) evs))) a = Some (snd (fst (as_run cfg (st', s) (events_of a evs))))
   \<and> effects_of a (snd (meeting_run cfg (st, T) evs)) = snd (as_run cfg (st', s) (events_of a evs))
   \<and> fst (fst (meeting_run cfg (st, T) evs)) (as_meeting_id s) = fst (fst (as_run cfg (st', s) (events_of a evs))) (as_meeting_id s)"
proof (induction evs arbitrary: st T s st')
  case Nil
  then show ?case by simp
next
  case (Cons e evs)
  obtain sid ev where e: "e = (sid, ev)" by (cases e)
  show ?case
  proof (cases "sid = a")
    case True
    obtain st1 s1 es where r: "as_step cfg (st, s) ev = ((st1, s1), es)" by (metis prod.exhaust)
    obtain st1' s1' es' where r': "as_step cfg (st', s) ev = ((st1', s1'), es')" by (metis prod.exhaust)
    from as_step_local [of st s st' cfg ev] Cons.prems(2) r r'
    have eq: "s1' = s1" "es' = es" "st1 (as_meeting_id s) = st1' (as_meeting_id s)" by simp_all
    from as_step_identity [of cfg "(st, s)" ev] r have m: "as_meeting_id s1 = as_meeting_id s" by simp
    have T: "\<forall>(b, t) \<in> set (AList.update a s1 T). b \<noteq> a \<longrightarrow> as_meeting_id t \<noteq> as_meeting_id s1"
      using Cons.prems(3) m by (auto dest: in_set_update_alist)
    have "map_of (AList.update a s1 T) a = Some s1" by (simp add: update_conv')
    from Cons.IH [where st = st1 and st' = st1' and T = "AList.update a s1 T" and s = s1, OF this _ T] eq m
    show ?thesis using Cons.prems(1) r r' by (simp add: e True session_step_def split_def Let_def)
  next
    case False
    show ?thesis
    proof (cases "map_of T sid")
      case None
      with Cons.IH [where st = st and T = T and s = s and st' = st', OF Cons.prems] show ?thesis by (simp add: e False session_step_def split_def Let_def)
    next
      case (Some t)
      obtain st1 t1 es where r: "as_step cfg (st, t) ev = ((st1, t1), es)" by (metis prod.exhaust)
      from Some have "(sid, t) \<in> set T" by (rule map_of_SomeD)
      with Cons.prems(3) False have mt: "as_meeting_id t \<noteq> as_meeting_id s" by auto
      from as_step_frame [of "as_meeting_id s" t cfg st ev] mt r
      have st1: "st1 (as_meeting_id s) = st' (as_meeting_id s)" using Cons.prems(2) by simp
      from as_step_identity [of cfg "(st, t)" ev] r have m: "as_meeting_id t1 = as_meeting_id t" by simp
      have T: "\<forall>(b, x) \<in> set (AList.update sid t1 T). b \<noteq> a \<longrightarrow> as_meeting_id x \<noteq> as_meeting_id s"
        using Cons.prems(3) m mt by (auto dest: in_set_update_alist)
      have "map_of (AList.update sid t1 T) a = Some s" using Cons.prems(1) False by (simp add: update_conv')
      from Cons.IH [where st = st1 and st' = st' and T = "AList.update sid t1 T" and s = s, OF this st1 T] show ?thesis
        using Some r by (simp add: e False session_step_def split_def Let_def)
    qed
  qed
qed
lemma start_consumer_bridge_stores:
  "fst (fst (start_consumer_bridge m vb ms st)) m \<noteq> None"
  by (simp add: start_consumer_bridge_def get_consumer_bridge_def store_consumer_bridge_def cbridge_start_def
      Let_def split: option.splits)

lemma as_step_store_mono:
  "st m \<noteq> None \<Longrightarrow> fst (fst (as_step cfg (st, s) e)) m \<noteq> None"
proof (cases "m = as_meeting_id s")
  case True
  assume "st m \<noteq> None"
  then show ?thesis
    by (cases e) (auto simp: True as_start_def as_bridge_started_def on_session_def split_def Let_def
        start_consumer_bridge_def get_consumer_bridge_def store_consumer_bridge_def cbridge_start_def
        consumer_bridge_started_def listen_endpoint_def
        split: session_phase.splits option.splits cb_outcome.splits)
qed (simp add: as_step_frame)

lemma stop_then_phase: "as_phase (fst (stop_then k s)) = as_phase s"
  by (simp add: stop_then_def clear_client_endpoint_events_def finish_stop_def set_client_endpoint_null_def
      split_def Let_def split: option.split endpoint.split bool.split)

lemma as_endpoint_event_idle:
  "as_phase s = SIdle \<Longrightarrow> as_phase (fst (as_endpoint_event ev s)) = SIdle"
  by (cases ev) (simp_all add: as_endpoint_event_def as_endpoint_reply_def as_unpublished_def finish_stop_def
      set_client_endpoint_null_def clear_client_endpoint_events_def split_def Let_def
      split: option.split endpoint.split session_phase.split start_phase.split list.split)

lemma as_step_idle:
  "as_phase s = SIdle \<Longrightarrow> (\<And>offer. e \<noteq> AsStart offer) \<Longrightarrow> as_phase (snd (fst (as_step cfg (st, s) e))) = SIdle"
  by (cases e) (auto simp: on_session_def split_def Let_def as_bridge_started_def as_endpoint_event_idle
      stop_then_phase as_stop_def as_user_left_def disconnect_user_def
      as_consumer_reply_def as_on_ice_candidate_def as_flush_candidates_queue_def as_process_answer_def
      as_restart_ice_def as_final_detach_def with_endpoint_def clear_client_endpoint_events_def
      split: option.splits endpoint.splits session_phase.splits bool.splits prod.splits co_phase.splits)

lemma as_step_bridge_stored:
  assumes "as_role s \<noteq> ''sendrecv'' \<and> as_phase s \<noteq> SIdle \<longrightarrow> st (as_meeting_id s) \<noteq> None"
    and "as_role s \<noteq> ''sendrecv''" "as_phase (snd (fst (as_step cfg (st, s) e))) \<noteq> SIdle"
  shows "fst (fst (as_step cfg (st, s) e)) (as_meeting_id s) \<noteq> None"
proof (cases "as_phase s = SIdle")
  case True
  show ?thesis
  proof (cases "\<exists>offer. e = AsStart offer")
    case True
    then obtain offer where "e = AsStart offer" by blast
    with \<open>as_phase s = SIdle\<close> assms(2)
      start_consumer_bridge_stores [of "as_meeting_id s" "as_voice_bridge s" "as_media_server s" st]
    show ?thesis
      by (auto simp: as_start_def split_def Let_def listen_endpoint_def split: cb_outcome.splits)
  next
    case False
    with \<open>as_phase s = SIdle\<close> have "as_phase (snd (fst (as_step cfg (st, s) e))) = SIdle"
      by (intro as_step_idle) auto
    with assms(3) show ?thesis by simp
  qed
next
  case False
  with assms(1,2) show ?thesis by (simp add: as_step_store_mono)
qed

lemma session_step_inv:
  assumes "meeting_inv mst"
  shows "meeting_inv (fst (session_step cfg mst sid ev))"
proof (cases "map_of (snd mst) sid")
  case None
  with assms show ?thesis by (simp add: session_step_def)
next
  case (Some s)
  obtain st T where mst: "mst = (st, T)" by (cases mst)
  obtain st1 s1 es where r: "as_step cfg (st, s) ev = ((st1, s1), es)" by (metis prod.exhaust)
  from Some mst have sT: "(sid, s) \<in> set T" by (simp add: map_of_SomeD)
  with assms mst have s: "as_id s = sid" "as_inv s"
    "as_role s \<noteq> ''sendrecv'' \<and> as_phase s \<noteq> SIdle \<longrightarrow> st (as_meeting_id s) \<noteq> None"
    by (auto simp: meeting_inv_def)
  from as_step_identity [of cfg "(st, s)" ev] r
  have ids: "as_id s1 = as_id s" "as_meeting_id s1 = as_meeting_id s" "as_role s1 = as_role s" by simp_all
  from as_step_inv [of "(st, s)" cfg ev] s(2) r have "as_inv s1" by simp
  moreover have "as_role s1 \<noteq> ''sendrecv'' \<and> as_phase s1 \<noteq> SIdle \<longrightarrow> st1 (as_meeting_id s1) \<noteq> None"
    using as_step_bridge_stored [of s st cfg ev, OF s(3)] r ids by simp
  moreover have "\<forall>(b, t) \<in> set T. as_id t = b \<and> as_inv t \<and>
      (as_role t \<noteq> ''sendrecv'' \<and> as_phase t \<noteq> SIdle \<longrightarrow> st1 (as_meeting_id t) \<noteq> None)"
  proof (intro ballI, clarify)
    fix b t assume "(b, t) \<in> set T"
    with assms mst have "as_id t = b" "as_inv t"
      "as_role t \<noteq> ''sendrecv'' \<and> as_phase t \<noteq> SIdle \<longrightarrow> st (as_meeting_id t) \<noteq> None"
      by (auto simp: meeting_inv_def)
    with as_step_store_mono [of st "as_meeting_id t" cfg s ev] r
    show "as_id t = b \<and> as_inv t \<and>
      (as_role t \<noteq> ''sendrecv'' \<and> as_phase t \<noteq> SIdle \<longrightarrow> st1 (as_meeting_id t) \<noteq> None)" by auto
  qed
  ultimately show ?thesis using Some mst r s(1) ids
    by (auto simp: session_step_def meeting_inv_def dest!: in_set_update_alist)
qed
subsection \<open>Composition\<close>

text \<open>C13: A session of the table whose meeting no other session of the table shares behaves, on any interleaving of events for all the sessions, exactly as it does alone: its final state and its effects are those of running it on its own events.\<close>

theorem meeting_non_interference:
  assumes "map_of T a = Some s" "\<forall>(b, t) \<in> set T. b \<noteq> a \<longrightarrow> as_meeting_id t \<noteq> as_meeting_id s"
  shows "map_of (snd (fst (meeting_run cfg (st, T) evs))) a = Some (snd (fst (as_run cfg (st, s) (events_of a evs))))
     \<and> effects_of a (snd (meeting_run cfg (st, T) evs)) = snd (as_run cfg (st, s) (events_of a evs))"
  using meeting_run_project [of T a s st st, OF assms(1) refl assms(2)] by simp

text \<open>C16: Every interleaving of events for the sessions of a table keeps the table invariant.\<close>

theorem meeting_run_inv: "meeting_inv mst \<Longrightarrow> meeting_inv (fst (meeting_run cfg mst evs))"
proof (induction evs arbitrary: mst)
  case Nil
  then show ?case by simp
next
  case (Cons e evs)
  obtain sid ev where e: "e = (sid, ev)" by (cases e)
  from Cons.prems have "meeting_inv (fst (session_step cfg mst sid ev))" by (rule session_step_inv)
  then have "meeting_inv (fst (meeting_run cfg (fst (session_step cfg mst sid ev)) evs))" by (rule Cons.IH)
  then show ?case by (simp add: e split_def Let_def)
qed

text \<open>C20: Once the first listener's bridge start has resolved, a second listener of the meeting issues no bridge start and goes straight to its consumer's subscription.\<close>

theorem meeting_bridge_reuse:
  assumes "st m = None" "a \<noteq> b"
  shows "bridge_starts m (map snd (snd (meeting_run cfg (st, listeners cfg m vb ms a b)
            [(a, AsStart offer_a), (a, AsBridgeStarted None), (b, AsStart offer_b)]))) = 1
     \<and> effects_of b (snd (meeting_run cfg (st, listeners cfg m vb ms a b)
            [(a, AsStart offer_a), (a, AsBridgeStarted None), (b, AsStart offer_b)])) = [Mcs (Subscribe vb offer_b)]"
  using assms
  by (simp add: listeners_def new_audio_session_def session_step_def as_start_def start_consumer_bridge_absent
      start_consumer_bridge_def get_consumer_bridge_def store_consumer_bridge_def cbridge_start_def is_running_def
      update_conv' as_bridge_started_def consumer_bridge_started_def listen_endpoint_def consumer_start_def
      new_consumer_def effects_of_def)

text \<open>C19: When the first listener's bridge start fails, that session's start ends with the normalized error while the bridge, still starting, stays in the store; the next listener of the meeting finds it there, not running, starts it again and waits for its own start.\<close>

theorem meeting_failed_bridge_retried:
  assumes "st m = None" "a \<noteq> b"
  shows "fst (fst (meeting_run cfg (st, listeners cfg m vb ms a b)
            [(a, AsStart offer_a), (a, AsBridgeStarted (Some e))])) m
         = Some \<lparr>cb_voice_bridge = vb, cb_media_server = ms, cb_state = CbStarting\<rparr>
     \<and> map_option as_phase (map_of (snd (fst (meeting_run cfg (st, listeners cfg m vb ms a b)
            [(a, AsStart offer_a), (a, AsBridgeStarted (Some e))]))) a)
         = Some (SStartDone (Inl (normalize_error e)))
     \<and> bridge_starts m (map snd (snd (meeting_run cfg (st, listeners cfg m vb ms a b)
            [(a, AsStart offer_a), (a, AsBridgeStarted (Some e)), (b, AsStart offer_b)]))) = 2
     \<and> map_option as_phase (map_of (snd (fst (meeting_run cfg (st, listeners cfg m vb ms a b)
            [(a, AsStart offer_a), (a, AsBridgeStarted (Some e)), (b, AsStart offer_b)]))) b)
         = Some (SAwaitBridge offer_b)"
  using assms
  by (simp add: listeners_def new_audio_session_def session_step_def as_start_def start_consumer_bridge_absent
      start_consumer_bridge_def get_consumer_bridge_def store_consumer_bridge_def cbridge_start_def is_running_def
      new_cbridge_def update_conv' as_bridge_started_def start_done_def)

subsection \<open>Witnesses\<close>

theorem meeting_non_interference_witness:
  "map_of (snd (fst (meeting_run cfg_listen_only (Map.empty, two_meetings) two_meetings_events))) ''a''
     = Some (snd (fst (as_run cfg_listen_only (Map.empty, new_audio_session cfg_listen_only ''a'' ''m1'' ''vb1'' ''u1'' ''c1'' ''recvonly'' ''ms'')
           [AsStart ''offer_a'', AsBridgeStarted None, AsConsumerReply (Inr (''ma'', ''ans''))])))
   \<and> effects_of ''a'' (snd (meeting_run cfg_listen_only (Map.empty, two_meetings) two_meetings_events))
       = snd (as_run cfg_listen_only (Map.empty, new_audio_session cfg_listen_only ''a'' ''m1'' ''vb1'' ''u1'' ''c1'' ''recvonly'' ''ms'')
           [AsStart ''offer_a'', AsBridgeStarted None, AsConsumerReply (Inr (''ma'', ''ans''))])"
proof -
  have h1: "map_of two_meetings ''a'' = Some (new_audio_session cfg_listen_only ''a'' ''m1'' ''vb1'' ''u1'' ''c1'' ''recvonly'' ''ms'')"
    by (simp add: two_meetings_def)
  have h2: "\<forall>(b, t) \<in> set two_meetings. b \<noteq> ''a'' \<longrightarrow>
      as_meeting_id t \<noteq> as_meeting_id (new_audio_session cfg_listen_only ''a'' ''m1'' ''vb1'' ''u1'' ''c1'' ''recvonly'' ''ms'')"
    by (simp add: two_meetings_def new_audio_session_def)
  have ev: "events_of ''a'' two_meetings_events = [AsStart ''offer_a'', AsBridgeStarted None, AsConsumerReply (Inr (''ma'', ''ans''))]"
    by (simp add: two_meetings_events_def)
  from meeting_non_interference [where cfg = cfg_listen_only and st = Map.empty and evs = two_meetings_events, OF h1 h2]
  show ?thesis by (simp only: ev)
qed

theorem meeting_run_inv_witness:
  "meeting_inv (Map.empty, two_meetings)
   \<and> meeting_inv (fst (meeting_run cfg_listen_only (Map.empty, two_meetings) two_meetings_events))"
proof -
  have h: "meeting_inv (Map.empty, two_meetings)"
    by (simp add: meeting_inv_def two_meetings_def new_audio_session_def as_inv_def)
  from h meeting_run_inv [where cfg = cfg_listen_only and evs = two_meetings_events, OF h] show ?thesis by simp
qed

theorem meeting_bridge_reuse_witness:
  "Map.empty ''m'' = (None :: cbridge option) \<and> ''a'' \<noteq> ''b''
   \<and> bridge_starts ''m'' (map snd (snd (meeting_run cfg_listen_only (Map.empty, listeners cfg_listen_only ''m'' ''vb'' ''ms'' ''a'' ''b'')
            [(''a'', AsStart ''offer_a''), (''a'', AsBridgeStarted None), (''b'', AsStart ''offer_b'')]))) = 1"
  using meeting_bridge_reuse [where st = Map.empty and m = "''m''" and a = "''a''" and b = "''b''"
      and cfg = cfg_listen_only and vb = "''vb''" and ms = "''ms''" and offer_a = "''offer_a''" and offer_b = "''offer_b''"] by simp

theorem meeting_failed_bridge_retried_witness:
  "fst (fst (meeting_run cfg_listen_only (Map.empty, listeners cfg_listen_only ''m'' ''vb'' ''ms'' ''a'' ''b'')
      [(''a'', AsStart ''offer_a''), (''a'', AsBridgeStarted (Some MEDIA_SERVER_OFFLINE))])) ''m''
   = Some \<lparr>cb_voice_bridge = ''vb'', cb_media_server = ''ms'', cb_state = CbStarting\<rparr>"
proof -
  have "(Map.empty :: cb_store) ''m'' = None" "''a'' \<noteq> ''b''" by simp_all
  from meeting_failed_bridge_retried [where cfg = cfg_listen_only and vb = "''vb''" and ms = "''ms''"
      and offer_a = "''offer_a''" and e = MEDIA_SERVER_OFFLINE, OF this]
  show ?thesis by blast
qed

end
