(* ===== verification/Video_Common.thy ===== *)
theory Video_Common
  imports Sfu_Interface
begin

text \<open>
  The pure helpers of \<open>VideoManager\<close> (\<open>src/lib/video/VideoManager.js\<close>): the
  fields of an inbound message, the session key \<open>getSessionId\<close>, the media specs of
  a request \<open>getVideoSpecsFromRequest\<close>, the readiness test
  \<open>isVideoInstanceReady\<close>, and the normalization of external (SIP) webcam stream names
  in \<open>_trackExternalWebcamSources\<close>.  The \<open>Video\<close> class is not in the snapshot:
  \<open>video\<close> keeps what the manager reads of it (connection, role, camera, status).
\<close>

record vmsg =
  msg_id :: string
  msg_connection_id :: conn_id
  msg_user_id :: string
  msg_meeting_id :: string
  msg_voice_bridge :: string
  msg_role :: string
  msg_camera_id :: string
  msg_sdp_offer :: sdp
  msg_bitrate :: "nat option"
  msg_candidate :: candidate
  msg_answer :: sdp
  msg_header_ok :: bool

definition get_session_id :: "vmsg \<Rightarrow> string" where
  "get_session_id m = msg_user_id m @ ''-'' @ msg_camera_id m @ ''-'' @ msg_role m"

definition BW_UNCAPPED :: nat where
  "BW_UNCAPPED = 0"

text \<open>
  \<open>getVideoSpecsFromRequest\<close>: only publishers get the requested bitrate; any other
  role gets \<open>BW_UNCAPPED\<close>, which is not null and so is always written into the spec.
  The result is the bandwidth written into the copy of the default specs, or none.
\<close>

definition get_video_specs :: "vmsg \<Rightarrow> nat option" where
  "get_video_specs m = (if msg_role m = ''share'' then msg_bitrate m else Some BW_UNCAPPED)"

datatype media_status = MEDIA_STARTING | MEDIA_STARTED | MEDIA_STOPPING | MEDIA_STOPPED

record video =
  v_connection_id :: conn_id
  v_role :: string
  v_camera_id :: string
  v_status :: media_status
  v_offline_listener :: bool

definition is_video_instance_ready :: "video option \<Rightarrow> bool" where
  "is_video_instance_ready v =
     (case v of None \<Rightarrow> False
      | Some x \<Rightarrow> v_status x \<noteq> MEDIA_STOPPED \<or> v_status x \<noteq> MEDIA_STOPPING)"

definition spec_ready :: "video option \<Rightarrow> bool" where
  "spec_ready v = (case v of None \<Rightarrow> False | Some x \<Rightarrow> v_status x \<in> {MEDIA_STARTING, MEDIA_STARTED})"

subsection \<open>External webcam sources\<close>

text \<open>
  Regular expressions with the \<open>i\<close> flag compare letters without case.  \<open>/^v_*/i\<close>
  matches any user id whose first character is \<open>v\<close> or \<open>V\<close> (the \<open>_*\<close> may match
  nothing); \<open>replace(/\|SIP/ig, '')\<close> removes every occurrence of \<open>|SIP\<close>, scanning
  left to right and resuming after each removed match.
\<close>

definition lower :: "char \<Rightarrow> char" where
  "lower c = (let n = (of_char c :: nat) in if 65 \<le> n \<and> n \<le> 90 then char_of (n + 32) else c)"

definition is_external_user :: "string \<Rightarrow> bool" where
  "is_external_user u = (case u of [] \<Rightarrow> False | c # _ \<Rightarrow> lower c = CHR ''v'')"

fun strip_sip :: "string \<Rightarrow> string" where
  "strip_sip (a # b # c # d # rest) =
     (if a = CHR ''|'' \<and> lower b = CHR ''s'' \<and> lower c = CHR ''i'' \<and> lower d = CHR ''p''
      then strip_sip rest else a # strip_sip (b # c # d # rest))"
| "strip_sip xs = xs"

type_synonym source_table = "string \<rightharpoonup> string"

definition track_external_source :: "string \<Rightarrow> string \<Rightarrow> source_table \<Rightarrow> source_table" where
  "track_external_source stream uid tbl =
     (if is_external_user uid
      then (let n = strip_sip stream in tbl(stream \<mapsto> n, uid \<mapsto> n))
      else tbl)"

text \<open>
  \<open>has_sip s\<close>: \<open>s\<close> contains \<open>|SIP\<close> in any letter case, the matches of
  \<open>/\|SIP/i\<close>.
\<close>

fun has_sip :: "string \<Rightarrow> bool" where
  "has_sip (a # b # c # d # rest) =
     ((a = CHR ''|'' \<and> lower b = CHR ''s'' \<and> lower c = CHR ''i'' \<and> lower d = CHR ''p'') \<or> has_sip (b # c # d # rest))"
| "has_sip xs = False"

definition witness_video :: video where
  "witness_video = \<lparr>v_connection_id = ''X'', v_role = ''share'', v_camera_id = ''c1'',
     v_status = MEDIA_STOPPED, v_offline_listener = False\<rparr>"

definition witness_vmsg :: vmsg where
  "witness_vmsg = \<lparr>msg_id = ''start'', msg_connection_id = ''X'', msg_user_id = ''u1'', msg_meeting_id = ''m'',
     msg_voice_bridge = ''vb'', msg_role = ''share'', msg_camera_id = ''c1'', msg_sdp_offer = ''O'',
     msg_bitrate = None, msg_candidate = ''C'', msg_answer = ''A'', msg_header_ok = True\<rparr>"

subsection \<open>Lemmas\<close>

lemma get_session_id_upd [simp]:
  "get_session_id (m\<lparr>msg_id := i\<rparr>) = get_session_id m"
  "get_session_id (m\<lparr>msg_candidate := c\<rparr>) = get_session_id m"
  by (simp_all add: get_session_id_def)



lemma strip_sip_Cons:
  "strip_sip (a # xs) =
     (if 3 \<le> length xs \<and> a = CHR ''|'' \<and> lower (xs ! 0) = CHR ''s'' \<and> lower (xs ! 1) = CHR ''i'' \<and> lower (xs ! 2) = CHR ''p''
      then strip_sip (drop 3 xs) else a # strip_sip xs)"
proof (cases xs rule: remdups_adj.cases)
  case 1 then show ?thesis by simp
next
  case (2 b) then show ?thesis by simp
next
  case (3 b c ys)
  then show ?thesis
    by (cases ys rule: remdups_adj.cases) auto
qed

lemma has_sip_Cons:
  "has_sip (a # xs) =
     ((3 \<le> length xs \<and> a = CHR ''|'' \<and> lower (xs ! 0) = CHR ''s'' \<and> lower (xs ! 1) = CHR ''i'' \<and> lower (xs ! 2) = CHR ''p'')
      \<or> has_sip xs)"
proof (cases xs rule: remdups_adj.cases)
  case 1 then show ?thesis by simp
next
  case (2 b) then show ?thesis by simp
next
  case (3 b c ys)
  then show ?thesis
    by (cases ys rule: remdups_adj.cases) auto
qed

lemma lower_bar [simp]: "lower CHR ''|'' = CHR ''|''"
  by (simp add: lower_def)

theorem strip_sip_suffix: "\<not> has_sip s \<Longrightarrow> strip_sip (s @ ''|SIP'') = s"
proof (induction s)
  case Nil
  then show ?case by code_simp
next
  case (Cons a s)
  from Cons.prems have ns: "\<not> has_sip s" by (simp add: has_sip_Cons)
  have nomatch: "\<not> (3 \<le> length (s @ ''|SIP'') \<and> a = CHR ''|'' \<and> lower ((s @ ''|SIP'') ! 0) = CHR ''s''
      \<and> lower ((s @ ''|SIP'') ! 1) = CHR ''i'' \<and> lower ((s @ ''|SIP'') ! 2) = CHR ''p'')"
  proof (cases "3 \<le> length s")
    case True
    with Cons.prems show ?thesis by (auto simp: has_sip_Cons nth_append)
  next
    case False
    then have "length s = 0 \<or> length s = 1 \<or> length s = 2" by arith
    then show ?thesis by (auto simp: nth_append lower_def)
  qed
  then have "strip_sip ((a # s) @ ''|SIP'') = a # strip_sip (s @ ''|SIP'')"
    by (simp only: append_Cons strip_sip_Cons [of a "s @ ''|SIP''"] if_False)
  then show ?case using Cons.IH [OF ns] by simp
qed


lemma lower_v [simp]: "lower CHR ''v'' = CHR ''v''" "lower CHR ''V'' = CHR ''v''"
  by code_simp+

lemma split_first_sep:
  "x \<notin> set a \<Longrightarrow> x \<notin> set b \<Longrightarrow> a @ x # c = b @ x # d \<Longrightarrow> a = b \<and> c = d"
proof (induction a arbitrary: b)
  case Nil
  then show ?case by (cases b) auto
next
  case (Cons y a)
  then show ?case by (cases b) auto
qed

lemma split_last_sep:
  "x \<notin> set c \<Longrightarrow> x \<notin> set d \<Longrightarrow> a @ x # c = b @ x # d \<Longrightarrow> a = b \<and> c = d"
proof -
  assume "x \<notin> set c" "x \<notin> set d" "a @ x # c = b @ x # d"
  then have "rev c @ x # rev a = rev d @ x # rev b" by (metis rev_append rev.simps(2) append_assoc append_Cons append_Nil)
  with \<open>x \<notin> set c\<close> \<open>x \<notin> set d\<close> have "rev c = rev d \<and> rev a = rev b"
    by (intro split_first_sep) auto
  then show ?thesis by simp
qed

subsection \<open>Properties\<close>

text \<open>
  C35: the session key determines the user, the camera and the role, provided the user id
  and the role contain no dash (the camera id may).
\<close>

theorem session_id_injective:
  assumes "CHR ''-'' \<notin> set (msg_user_id m1)" "CHR ''-'' \<notin> set (msg_user_id m2)"
    and "CHR ''-'' \<notin> set (msg_role m1)" "CHR ''-'' \<notin> set (msg_role m2)"
    and "get_session_id m1 = get_session_id m2"
  shows "msg_user_id m1 = msg_user_id m2 \<and> msg_camera_id m1 = msg_camera_id m2 \<and> msg_role m1 = msg_role m2"
proof -
  from assms(1,2,5) have u: "msg_user_id m1 = msg_user_id m2"
    and rest: "msg_camera_id m1 @ CHR ''-'' # msg_role m1 = msg_camera_id m2 @ CHR ''-'' # msg_role m2"
    using split_first_sep [of "CHR ''-''" "msg_user_id m1" "msg_user_id m2"]
    by (auto simp: get_session_id_def)
  from assms(3,4) rest have "msg_camera_id m1 = msg_camera_id m2 \<and> msg_role m1 = msg_role m2"
    by (rule split_last_sep)
  with u show ?thesis by simp
qed

theorem session_id_injective_witness:
  "msg_user_id (witness_vmsg\<lparr>msg_camera_id := ''c-1''\<rparr>) = msg_user_id (witness_vmsg\<lparr>msg_id := ''stop'', msg_camera_id := ''c-1''\<rparr>)
   \<and> msg_camera_id (witness_vmsg\<lparr>msg_camera_id := ''c-1''\<rparr>) = msg_camera_id (witness_vmsg\<lparr>msg_id := ''stop'', msg_camera_id := ''c-1''\<rparr>)
   \<and> msg_role (witness_vmsg\<lparr>msg_camera_id := ''c-1''\<rparr>) = msg_role (witness_vmsg\<lparr>msg_id := ''stop'', msg_camera_id := ''c-1''\<rparr>)"
  by (rule session_id_injective) (simp_all add: witness_vmsg_def get_session_id_def)

text \<open>
  Without that proviso the key is ambiguous: user \<open>w-1\<close> with camera \<open>cam\<close> and user
  \<open>w\<close> with camera \<open>1-cam\<close> share a key, and so share one session.
\<close>

theorem session_id_collision:
  "get_session_id (m\<lparr>msg_user_id := ''w-1'', msg_camera_id := ''cam''\<rparr>) =
   get_session_id (m\<lparr>msg_user_id := ''w'', msg_camera_id := ''1-cam''\<rparr>)"
  by (simp add: get_session_id_def)

text \<open>
  \<open>isVideoInstanceReady\<close> holds of every stored video, whatever its status: its
  disjunction \<open>status !== STOPPED || status !== STOPPING\<close> is always true.
\<close>

theorem ready_is_presence: "is_video_instance_ready v \<longleftrightarrow> v \<noteq> None"
  by (auto simp: is_video_instance_ready_def split: option.split)

theorem ready_is_presence_witness:
  "is_video_instance_ready (Some witness_video) \<and> \<not> spec_ready (Some witness_video)"
  using ready_is_presence [of "Some witness_video"] by (simp add: witness_video_def spec_ready_def)

text \<open>
  for an external user, a broadcast stream named \<open>s|SIP\<close> is recorded, under the
  stream name and under the user id, as the source \<open>s\<close>.
\<close>

theorem external_source_registered:
  "is_external_user uid \<Longrightarrow> \<not> has_sip s \<Longrightarrow>
   track_external_source (s @ ''|SIP'') uid tbl = tbl(s @ ''|SIP'' \<mapsto> s, uid \<mapsto> s)"
  by (simp add: track_external_source_def strip_sip_suffix)

theorem external_source_registered_witness:
  "track_external_source ''cam7|SIP'' ''v_1'' Map.empty = [''cam7|SIP'' \<mapsto> ''cam7'', ''v_1'' \<mapsto> ''cam7'']"
  using external_source_registered [of "''v_1''" "''cam7''" Map.empty]
  by (simp add: is_external_user_def)

text \<open>
  The pattern \<open>/^v_*/i\<close> accepts every user id that starts with \<open>v\<close> or
  \<open>V\<close>, not only those of the \<open>v_\<close> form; and removing the matches of
  \<open>/\|SIP/ig\<close> once may leave a new match behind.
\<close>

theorem external_user_any_v:
  "is_external_user (CHR ''v'' # rest) \<and> is_external_user (CHR ''V'' # rest)"
  by (simp add: is_external_user_def)

theorem strip_sip_not_idempotent: "strip_sip ''|S|SIPIP'' = ''|SIP'' \<and> strip_sip ''|SIP'' = []"
  by code_simp

end
