(* ===== verification/Video_Manager.thy ===== *)
theory Video_Manager
  imports Video_Common "HOL-Library.AList"
begin

text \<open>
  \<open>VideoManager\<close> (\<open>src/lib/video/VideoManager.js\<close>) with the parts of
  \<open>BaseManager\<close> it calls (not in the snapshot, modelled from spec section 4.1): the
  session table, one lifecycle queue per session key, one pending-ICE queue per key, the
  request and error metrics, and the external source table.  The session table is an
  association list, as a JavaScript \<open>Map\<close> keeps its keys in insertion order.
  A lifecycle queue holds the tasks not yet begun; \<open>vm_active\<close> holds, per key, the
  suspended continuation of the task that runs.  A task runs until its first
  \<open>await\<close>, the reply to that call resumes it, and when it completes the next task of
  the same key begins: tasks of one key never overlap, tasks of different keys
  interleave freely.
\<close>

datatype vtask = TStart vmsg | TAnswer vmsg | TStop vmsg | TClose string

datatype active =
    WaitPermission vmsg
  | WaitStaleStop vmsg "candidate list"
  | WaitVideoStart vmsg "candidate list"
  | WaitStop string
  | WaitAnswer vmsg

datatype vreply =
    RPermission "sfu_error option"
  | RStopped "sfu_error option"
  | RStarted "sfu_error + sdp"
  | RAnswered "sfu_error option"

record vm_config =
  strict_header :: bool

record vm_state =
  vm_sessions :: "(string \<times> video) list"
  vm_queues :: "string \<rightharpoonup> vtask list"
  vm_active :: "string \<rightharpoonup> active"
  vm_ice :: "string \<rightharpoonup> candidate list"
  vm_reqs :: nat
  vm_errors :: "(string \<times> sfu_error) list"
  vm_sources :: source_table

type_synonym vm_result = "vm_state \<times> effect list"

definition vm_init :: vm_state where
  "vm_init = \<lparr>vm_sessions = [], vm_queues = Map.empty, vm_active = Map.empty, vm_ice = Map.empty,
     vm_reqs = 0, vm_errors = [], vm_sources = Map.empty\<rparr>"

definition get_session :: "vm_state \<Rightarrow> string \<Rightarrow> video option" where
  "get_session st k = map_of (vm_sessions st) k"

definition store_session :: "string \<Rightarrow> video \<Rightarrow> vm_state \<Rightarrow> vm_state" where
  "store_session k v st = st\<lparr>vm_sessions := AList.update k v (vm_sessions st)\<rparr>"

definition remove_session :: "string \<Rightarrow> vm_state \<Rightarrow> vm_state" where
  "remove_session k st = st\<lparr>vm_sessions := AList.delete k (vm_sessions st)\<rparr>"

definition fetch_ice_queue :: "string \<Rightarrow> vm_state \<Rightarrow> vm_state \<times> candidate list" where
  "fetch_ice_queue k st =
     (case vm_ice st k of
        Some q \<Rightarrow> (st, q)
      | None \<Rightarrow> (st\<lparr>vm_ice := (vm_ice st)(k \<mapsto> [])\<rparr>, []))"

definition delete_ice_queue :: "string \<Rightarrow> vm_state \<Rightarrow> vm_state" where
  "delete_ice_queue k st = st\<lparr>vm_ice := (vm_ice st)(k := None)\<rparr>"

definition count_error :: "string \<Rightarrow> sfu_error \<Rightarrow> vm_state \<Rightarrow> vm_state" where
  "count_error method e st = st\<lparr>vm_errors := vm_errors st @ [(method, e)]\<rparr>"

definition new_video :: "vmsg \<Rightarrow> video" where
  "new_video m = \<lparr>v_connection_id = msg_connection_id m, v_role = msg_role m,
     v_camera_id = msg_camera_id m, v_status = MEDIA_STARTING, v_offline_listener = False\<rparr>"

subsection \<open>Task bodies\<close>

text \<open>The \<open>catch\<close> of \<open>handleStart\<close> (lines 213--221).\<close>

definition start_error :: "vmsg \<Rightarrow> sfu_error \<Rightarrow> vm_state \<Rightarrow> vm_result" where
  "start_error m e st =
     (let e' = normalize_error e
      in (count_error (msg_id m) e' st, [Client (msg_connection_id m) (ErrorFrame e')]))"

text \<open>\<open>_getPermission\<close> (lines 129--154): the oracle's call for the two roles, a throw otherwise.\<close>

definition permission_kind :: "string \<Rightarrow> string option" where
  "permission_kind role =
     (if role = ''share'' then Some ''broadcast'' else if role = ''viewer'' then Some ''subscribe'' else None)"

text \<open>Build, store and start the new session (lines 183--199).\<close>

definition create_and_start :: "string \<Rightarrow> vmsg \<Rightarrow> candidate list \<Rightarrow> vm_state \<Rightarrow> vm_result" where
  "create_and_start k m q st =
     (let st1 = store_session k (new_video m) st
      in (st1\<lparr>vm_active := (vm_active st1)(k \<mapsto> WaitVideoStart m q)\<rparr>,
          [Video k (VideoStart (msg_sdp_offer m) (get_video_specs m))]))"

text \<open>
  \<open>_closeSession\<close> (lines 224--235) begins with \<open>_stopSession\<close>: a stored session
  is stopped and the task waits for the stop; without one it resolves at once and only
  the ICE queue is deleted.  The result says whether the task has completed.
\<close>

definition close_session_begin :: "string \<Rightarrow> (string \<Rightarrow> active) \<Rightarrow> vm_state \<Rightarrow> vm_result \<times> bool" where
  "close_session_begin k wait st =
     (case get_session st k of
        None \<Rightarrow> ((delete_ice_queue k st, []), True)
      | Some _ \<Rightarrow> ((st\<lparr>vm_active := (vm_active st)(k \<mapsto> wait k)\<rparr>, [Video k VideoStop]), False))"

definition close_session_end :: "string \<Rightarrow> vm_state \<Rightarrow> vm_state" where
  "close_session_end k st = delete_ice_queue k (remove_session k st)"

definition begin_task :: "string \<Rightarrow> vtask \<Rightarrow> vm_state \<Rightarrow> vm_result \<times> bool" where
  "begin_task k t st =
     (case t of
        TStart m \<Rightarrow>
          (case permission_kind (msg_role m) of
             None \<Rightarrow> (start_error m SFU_INVALID_REQUEST st, True)
           | Some kind \<Rightarrow> ((st\<lparr>vm_active := (vm_active st)(k \<mapsto> WaitPermission m)\<rparr>,
                           [Video k (PermissionQuery kind)]), False))
      | TAnswer m \<Rightarrow>
          (case get_session st k of
             None \<Rightarrow> ((st, []), True)
           | Some _ \<Rightarrow> ((st\<lparr>vm_active := (vm_active st)(k \<mapsto> WaitAnswer m)\<rparr>,
                         [Video k (VideoAnswer (msg_answer m))]), False))
      | TStop m \<Rightarrow> close_session_begin k WaitStop st
      | TClose k' \<Rightarrow> close_session_begin k WaitStop st)"

text \<open>
  The success path of \<open>handleStart\<close> after \<open>video.start\<close> resolves
  (lines 200--211): the ICE queue fetched before the start is flushed into the video in
  order (\<open>_flushIceQueue\<close>, which empties the queue), the \<open>MEDIA_SERVER_OFFLINE\<close>
  listener is attached, and the answer is sent.
\<close>

definition start_success :: "string \<Rightarrow> vmsg \<Rightarrow> candidate list \<Rightarrow> sdp \<Rightarrow> vm_state \<Rightarrow> vm_result" where
  "start_success k m q answer st =
     (let st1 = st\<lparr>vm_ice := (if vm_ice st k = None then vm_ice st else (vm_ice st)(k \<mapsto> [])),
                  vm_sessions := AList.map_entry k (\<lambda>v. v\<lparr>v_status := MEDIA_STARTED, v_offline_listener := True\<rparr>)
                                   (vm_sessions st)\<rparr>
      in (st1, map (\<lambda>c. Video k (VideoIce c)) q @
               [Client (msg_connection_id m) (StartResponse (msg_role m) (msg_camera_id m) answer)]))"

text \<open>
  The reply to the call a suspended task waits for.  \<open>None\<close>: no task of the key waits
  for such a reply.  Otherwise the new state, the effects, and whether the task completed.
\<close>

definition resume_task :: "string \<Rightarrow> vreply \<Rightarrow> vm_state \<Rightarrow> (vm_result \<times> bool) option" where
  "resume_task k r st =
     (case (vm_active st k, r) of
        (Some (WaitPermission m), RPermission (Some e)) \<Rightarrow> Some (start_error m e st, True)
      | (Some (WaitPermission m), RPermission None) \<Rightarrow>
          (let (st1, q) = fetch_ice_queue k st
           in (case get_session st1 k of
                 Some _ \<Rightarrow> Some ((st1\<lparr>vm_active := (vm_active st1)(k \<mapsto> WaitStaleStop m q)\<rparr>,
                                  [Video k VideoStop]), False)
               | None \<Rightarrow> Some (create_and_start k m q st1, False)))
      | (Some (WaitStaleStop m q), RStopped _) \<Rightarrow> Some (create_and_start k m q (close_session_end k st), False)
      | (Some (WaitVideoStart m q), RStarted (Inr answer)) \<Rightarrow> Some (start_success k m q answer st, True)
      | (Some (WaitVideoStart m q), RStarted (Inl e)) \<Rightarrow> Some (start_error m e st, True)
      | (Some (WaitStop _), RStopped _) \<Rightarrow> Some ((close_session_end k st, []), True)
      | (Some (WaitAnswer m), RAnswered None) \<Rightarrow> Some ((st, []), True)
      | (Some (WaitAnswer m), RAnswered (Some e)) \<Rightarrow>
          Some ((count_error (msg_id m) (normalize_error e) st, []), True)
      | _ \<Rightarrow> None)"

subsection \<open>Lifecycle queues\<close>

text \<open>
  Begin the queued tasks of a key in order until one suspends; the rest stay queued.
  Recursion on the queue, so it terminates.
\<close>

fun pump :: "string \<Rightarrow> vtask list \<Rightarrow> vm_state \<Rightarrow> vm_result" where
  "pump k [] st = (st\<lparr>vm_queues := (vm_queues st)(k \<mapsto> [])\<rparr>, [])"
| "pump k (t # ts) st =
     (let ((st1, es1), done) = begin_task k t st
      in if done then (let (st2, es2) = pump k ts st1 in (st2, es1 @ es2))
         else (st1\<lparr>vm_queues := (vm_queues st1)(k \<mapsto> ts)\<rparr>, es1))"

definition queue_of :: "vm_state \<Rightarrow> string \<Rightarrow> vtask list" where
  "queue_of st k = (case vm_queues st k of None \<Rightarrow> [] | Some q \<Rightarrow> q)"

definition enqueue :: "string \<Rightarrow> vtask \<Rightarrow> vm_state \<Rightarrow> vm_result" where
  "enqueue k t st =
     (let q = queue_of st k @ [t]
      in if vm_active st k = None then pump k q st
         else (st\<lparr>vm_queues := (vm_queues st)(k \<mapsto> q)\<rparr>, []))"

definition vm_reply :: "string \<Rightarrow> vreply \<Rightarrow> vm_state \<Rightarrow> vm_result" where
  "vm_reply k r st =
     (case resume_task k r st of
        None \<Rightarrow> (st, [])
      | Some ((st1, es1), done) \<Rightarrow>
          (if done then (let st2 = st1\<lparr>vm_active := (vm_active st1)(k := None)\<rparr>;
                            (st3, es2) = pump k (queue_of st2 k) st2
                        in (st3, es1 @ es2))
           else (st1, es1)))"

subsection \<open>Handlers that bypass the lifecycle queues\<close>

definition handle_ice_candidate :: "vmsg \<Rightarrow> vm_state \<Rightarrow> vm_result" where
  "handle_ice_candidate m st =
     (let k = get_session_id m; v = get_session st k; (st1, q) = fetch_ice_queue k st
      in if is_video_instance_ready v then (st1, [Video k (VideoIce (msg_candidate m))])
         else (st1\<lparr>vm_ice := (vm_ice st1)(k \<mapsto> q @ [msg_candidate m])\<rparr>, []))"

fun kill_sessions :: "conn_id \<Rightarrow> (string \<times> video) list \<Rightarrow> vm_state \<Rightarrow> vm_result" where
  "kill_sessions c [] st = (st, [])"
| "kill_sessions c ((k, v) # rest) st =
     (if v_connection_id v = c
      then (let (st1, es1) = enqueue k (TClose k) st; (st2, es2) = kill_sessions c rest st1 in (st2, es1 @ es2))
      else kill_sessions c rest st)"

definition kill_connection_sessions :: "conn_id \<Rightarrow> vm_state \<Rightarrow> vm_result" where
  "kill_connection_sessions c st = kill_sessions c (vm_sessions st) st"

definition handle_invalid_request :: "vmsg \<Rightarrow> vm_state \<Rightarrow> vm_result" where
  "handle_invalid_request m st =
     (count_error (if msg_id m = [] then ''event'' else msg_id m) SFU_INVALID_REQUEST st,
      [Client (msg_connection_id m) (ErrorFrame SFU_INVALID_REQUEST)])"

definition media_server_offline :: "string \<Rightarrow> vm_state \<Rightarrow> vm_result" where
  "media_server_offline k st =
     (case get_session st k of
        Some v \<Rightarrow>
          (if v_offline_listener v
           then (count_error ''event'' MEDIA_SERVER_OFFLINE
                   (st\<lparr>vm_sessions := AList.map_entry k (\<lambda>x. x\<lparr>v_offline_listener := False\<rparr>) (vm_sessions st)\<rparr>),
                 [Client (v_connection_id v) (ErrorFrame MEDIA_SERVER_OFFLINE)])
           else (st, []))
      | None \<Rightarrow> (st, []))"

subsection \<open>The message router\<close>

definition on_message :: "vm_config \<Rightarrow> vmsg \<Rightarrow> vm_state \<Rightarrow> vm_result" where
  "on_message cfg m st0 =
     (let st = st0\<lparr>vm_reqs := Suc (vm_reqs st0)\<rparr>; k = get_session_id m
      in if \<not> msg_header_ok m \<and> strict_header cfg then handle_invalid_request m st
         else if msg_id m = ''start'' then enqueue k (TStart m) st
         else if msg_id m = ''subscriberAnswer'' then enqueue k (TAnswer m) st
         else if msg_id m = ''stop'' then enqueue k (TStop m) st
         else if msg_id m = ''onIceCandidate'' then handle_ice_candidate m st
         else if msg_id m = ''close'' then kill_connection_sessions (msg_connection_id m) st
         else if msg_id m = ''error'' then (st, [])
         else handle_invalid_request m st)"

datatype vm_event =
    VmMessage vmsg
  | VmReply string vreply
  | VmOffline string
  | VmCamBroadcast string string

fun vm_step :: "vm_config \<Rightarrow> vm_state \<Rightarrow> vm_event \<Rightarrow> vm_result" where
  "vm_step cfg st (VmMessage m) = on_message cfg m st"
| "vm_step cfg st (VmReply k r) = vm_reply k r st"
| "vm_step cfg st (VmOffline k) = media_server_offline k st"
| "vm_step cfg st (VmCamBroadcast stream uid) =
     (st\<lparr>vm_sources := track_external_source stream uid (vm_sources st)\<rparr>, [])"

fun vm_run :: "vm_config \<Rightarrow> vm_state \<Rightarrow> vm_event list \<Rightarrow> vm_result" where
  "vm_run cfg st [] = (st, [])"
| "vm_run cfg st (e # es) = (let (st1, o1) = vm_step cfg st e; (st2, o2) = vm_run cfg st1 es in (st2, o1 @ o2))"

subsection \<open>Invariant\<close>

text \<open>
  The manager's invariant: the session table holds at most one entry per key, and a key
  has queued tasks only while one of its tasks runs (the queue is never stuck).
\<close>

definition keys_distinct :: "vm_state \<Rightarrow> bool" where
  "keys_distinct st = distinct (map fst (vm_sessions st))"

definition queues_ok :: "vm_state \<Rightarrow> bool" where
  "queues_ok st = (\<forall>k. queue_of st k \<noteq> [] \<longrightarrow> vm_active st k \<noteq> None)"

definition vm_inv :: "vm_state \<Rightarrow> bool" where
  "vm_inv st = (keys_distinct st \<and> queues_ok st)"

text \<open>The message ids \<open>_onMessage\<close> dispatches (lines 325--351); any other id is invalid.\<close>

definition known_ids :: "string list" where
  "known_ids = [''start'', ''subscriberAnswer'', ''stop'', ''onIceCandidate'', ''close'', ''error'']"

definition witness_cfg :: vm_config where
  "witness_cfg = \<lparr>strict_header = True\<rparr>"

text \<open>
  The \<open>sfu_video_sessions\<close> gauge of \<open>_setMetrics\<close>: the collector
  \<open>getNumberOfSessions\<close> counts the entries of the session table.
\<close>

definition number_of_sessions :: "vm_state \<Rightarrow> nat" where
  "number_of_sessions st = length (vm_sessions st)"

subsection \<open>Progress measure\<close>

text \<open>
  What a key still waits for: the calls its running task has yet to make (a start that
  waits for its permission may still stop a stale video and start the new one), and three
  per queued task.  \<open>ok_reply\<close> is the reply of an environment in which every awaited
  call succeeds.
\<close>

fun remaining :: "active option \<Rightarrow> nat" where
  "remaining None = 0"
| "remaining (Some (WaitPermission m)) = 3"
| "remaining (Some (WaitStaleStop m q)) = 2"
| "remaining (Some (WaitVideoStart m q)) = 1"
| "remaining (Some (WaitStop k)) = 1"
| "remaining (Some (WaitAnswer m)) = 1"

definition pending :: "string \<Rightarrow> vm_state \<Rightarrow> nat" where
  "pending k st = 3 * length (queue_of st k) + remaining (vm_active st k)"

text \<open>The replies a suspended task accepts: those of the call it waits for, success or failure.\<close>

fun matches :: "active \<Rightarrow> vreply \<Rightarrow> bool" where
  "matches (WaitPermission m) r = (case r of RPermission _ \<Rightarrow> True | _ \<Rightarrow> False)"
| "matches (WaitStaleStop m q) r = (case r of RStopped _ \<Rightarrow> True | _ \<Rightarrow> False)"
| "matches (WaitVideoStart m q) r = (case r of RStarted _ \<Rightarrow> True | _ \<Rightarrow> False)"
| "matches (WaitStop k) r = (case r of RStopped _ \<Rightarrow> True | _ \<Rightarrow> False)"
| "matches (WaitAnswer m) r = (case r of RAnswered _ \<Rightarrow> True | _ \<Rightarrow> False)"

definition ok_reply :: "active \<Rightarrow> vreply" where
  "ok_reply a =
     (case a of
        WaitPermission m \<Rightarrow> RPermission None
      | WaitStaleStop m q \<Rightarrow> RStopped None
      | WaitVideoStart m q \<Rightarrow> RStarted (Inr ''answer'')
      | WaitStop k \<Rightarrow> RStopped None
      | WaitAnswer m \<Rightarrow> RAnswered None)"

subsection \<open>Lemmas\<close>

lemmas task_defs = begin_task_def close_session_begin_def start_error_def count_error_def
  delete_ice_queue_def

lemma begin_task_frame:
  "vm_sessions (fst (fst (begin_task k t st))) = vm_sessions st"
  "vm_queues (fst (fst (begin_task k t st))) = vm_queues st"
  "k' \<noteq> k \<Longrightarrow> vm_active (fst (fst (begin_task k t st))) k' = vm_active st k'"
  by (simp_all add: task_defs Let_def split: vtask.split option.split)

lemma begin_task_done:
  "snd (begin_task k t st) \<Longrightarrow> vm_active (fst (fst (begin_task k t st))) = vm_active st"
  "\<not> snd (begin_task k t st) \<Longrightarrow> vm_active (fst (fst (begin_task k t st))) k \<noteq> None"
  by (auto simp add: task_defs Let_def split: vtask.splits option.splits)

lemma pump_Cons_sel:
  "pump k (t # ts) st =
     (let st1 = fst (fst (begin_task k t st)); es1 = snd (fst (begin_task k t st))
      in if snd (begin_task k t st) then (fst (pump k ts st1), es1 @ snd (pump k ts st1))
         else (st1\<lparr>vm_queues := (vm_queues st1)(k \<mapsto> ts)\<rparr>, es1))"
  by (simp add: Let_def split: prod.split)

lemma pump_sessions: "vm_sessions (fst (pump k ts st)) = vm_sessions st"
proof (induction ts arbitrary: st)
  case (Cons t ts)
  then show ?case using begin_task_frame(1) [of k t st]
    by (simp del: pump.simps add: pump_Cons_sel Let_def)
qed simp

lemma pump_frame:
  "k' \<noteq> k \<Longrightarrow> vm_queues (fst (pump k ts st)) k' = vm_queues st k'"
  "k' \<noteq> k \<Longrightarrow> vm_active (fst (pump k ts st)) k' = vm_active st k'"
proof (induction ts arbitrary: st)
  case (Cons t ts)
  { case 1 with Cons.IH(1) show ?case using begin_task_frame(2,3) [where k=k and t=t and st=st]
      by (simp del: pump.simps add: pump_Cons_sel Let_def) }
  { case 2 with Cons.IH(2) show ?case using begin_task_frame(2,3) [where k=k and t=t and st=st]
      by (simp del: pump.simps add: pump_Cons_sel Let_def) }
qed simp_all

lemma pump_own:
  "queue_of (fst (pump k ts st)) k = [] \<and> vm_active (fst (pump k ts st)) k = vm_active st k
   \<or> vm_active (fst (pump k ts st)) k \<noteq> None"
proof (induction ts arbitrary: st)
  case Nil then show ?case by (simp add: queue_of_def)
next
  case (Cons t ts)
  show ?case
  proof (cases "snd (begin_task k t st)")
    case True
    then show ?thesis using Cons.IH [of "fst (fst (begin_task k t st))"] begin_task_done(1) [of k t st]
      by (simp del: pump.simps add: pump_Cons_sel Let_def)
  next
    case False
    then show ?thesis using begin_task_done(2) [of k t st]
      by (simp del: pump.simps add: pump_Cons_sel Let_def)
  qed
qed

lemma pump_queues_ok:
  assumes others: "\<forall>k'. k' \<noteq> k \<longrightarrow> queue_of st k' \<noteq> [] \<longrightarrow> vm_active st k' \<noteq> None"
  shows "queues_ok (fst (pump k ts st))"
  unfolding queues_ok_def
proof (intro allI impI)
  fix k' assume ne: "queue_of (fst (pump k ts st)) k' \<noteq> []"
  show "vm_active (fst (pump k ts st)) k' \<noteq> None"
  proof (cases "k' = k")
    case True with ne pump_own [of k ts st] show ?thesis by auto
  next
    case False with ne others show ?thesis by (simp add: pump_frame queue_of_def)
  qed
qed

lemmas resume_defs = resume_task_def start_error_def count_error_def fetch_ice_queue_def
  create_and_start_def store_session_def start_success_def close_session_end_def
  delete_ice_queue_def remove_session_def

lemma resume_task_frame:
  assumes "resume_task k r st = Some ((st1, es), d)"
  shows "vm_queues st1 = vm_queues st"
    and "k' \<noteq> k \<Longrightarrow> vm_active st1 k' = vm_active st k'"
    and "\<not> d \<Longrightarrow> vm_active st1 k \<noteq> None"
    and "keys_distinct st \<Longrightarrow> keys_distinct st1"
  using assms
  by (auto simp add: resume_defs keys_distinct_def Let_def distinct_update distinct_delete
        distinct_map_entry split: option.splits active.splits vreply.splits sum.splits prod.splits if_splits)

lemma vm_inv_frame:
  "\<lbrakk>vm_inv st; vm_sessions st' = vm_sessions st; vm_queues st' = vm_queues st; vm_active st' = vm_active st\<rbrakk>
   \<Longrightarrow> vm_inv st'"
  by (simp add: vm_inv_def keys_distinct_def queues_ok_def queue_of_def)

lemma enqueue_inv:
  assumes "vm_inv st" shows "vm_inv (fst (enqueue k t st))"
proof (cases "vm_active st k = None")
  case True
  have "\<forall>k'. k' \<noteq> k \<longrightarrow> queue_of st k' \<noteq> [] \<longrightarrow> vm_active st k' \<noteq> None"
    using assms by (simp add: vm_inv_def queues_ok_def)
  then have "queues_ok (fst (pump k (queue_of st k @ [t]) st))" by (rule pump_queues_ok)
  with True assms show ?thesis by (simp add: enqueue_def vm_inv_def keys_distinct_def pump_sessions)
next
  case False
  with assms show ?thesis
    by (auto simp add: enqueue_def vm_inv_def keys_distinct_def queues_ok_def queue_of_def split: if_split_asm)
qed

lemma vm_reply_inv:
  assumes inv: "vm_inv st" shows "vm_inv (fst (vm_reply k r st))"
proof (cases "resume_task k r st")
  case None then show ?thesis using inv by (simp add: vm_reply_def)
next
  case (Some res)
  then obtain st1 es d where res: "resume_task k r st = Some ((st1, es), d)"
    by (metis prod.collapse)
  note fr = resume_task_frame [OF res]
  have kd: "keys_distinct st1" using inv fr(4) by (simp add: vm_inv_def)
  show ?thesis
  proof (cases d)
    case True
    let ?st2 = "st1\<lparr>vm_active := (vm_active st1)(k := None)\<rparr>"
    have "\<forall>k'. k' \<noteq> k \<longrightarrow> queue_of ?st2 k' \<noteq> [] \<longrightarrow> vm_active ?st2 k' \<noteq> None"
      using inv fr(1,2) by (simp add: vm_inv_def queues_ok_def queue_of_def)
    then have "queues_ok (fst (pump k (queue_of ?st2 k) ?st2))" by (rule pump_queues_ok)
    with True res kd show ?thesis
      by (simp add: vm_reply_def vm_inv_def keys_distinct_def pump_sessions Let_def case_prod_beta)
  next
    case False
    have "queues_ok st1"
      using inv fr(1,2,3) False unfolding vm_inv_def queues_ok_def queue_of_def by metis
    with False res kd show ?thesis by (simp add: vm_reply_def vm_inv_def)
  qed
qed

lemma kill_sessions_inv: "vm_inv st \<Longrightarrow> vm_inv (fst (kill_sessions c xs st))"
proof (induction xs arbitrary: st)
  case (Cons p xs)
  obtain k v where p: "p = (k, v)" by fastforce
  show ?case using Cons.IH Cons.prems enqueue_inv [OF Cons.prems, of k "TClose k"]
    by (simp add: p case_prod_beta)
qed simp

lemma handle_ice_candidate_inv: "vm_inv st \<Longrightarrow> vm_inv (fst (handle_ice_candidate m st))"
  by (erule vm_inv_frame) (simp_all add: handle_ice_candidate_def fetch_ice_queue_def Let_def
        split: option.split prod.split)

lemma count_error_inv: "vm_inv st \<Longrightarrow> vm_inv (count_error meth e st)"
  by (erule vm_inv_frame) (simp_all add: count_error_def)

lemma media_server_offline_inv: "vm_inv st \<Longrightarrow> vm_inv (fst (media_server_offline k st))"
  by (auto simp add: media_server_offline_def vm_inv_def keys_distinct_def queues_ok_def queue_of_def
        count_error_def distinct_map_entry split: option.split)

lemma on_message_inv: "vm_inv st \<Longrightarrow> vm_inv (fst (on_message cfg m st))"
proof -
  assume inv: "vm_inv st"
  let ?st = "st\<lparr>vm_reqs := Suc (vm_reqs st)\<rparr>"
  have inv': "vm_inv ?st" using inv by (rule vm_inv_frame) simp_all
  show ?thesis
    using enqueue_inv [OF inv'] handle_ice_candidate_inv [OF inv'] kill_sessions_inv [OF inv']
      count_error_inv [OF inv'] inv'
    by (simp add: on_message_def Let_def handle_invalid_request_def kill_connection_sessions_def)
qed

lemma vm_step_inv: "vm_inv st \<Longrightarrow> vm_inv (fst (vm_step cfg st e))"
proof (cases e)
  case (VmCamBroadcast stream uid)
  assume "vm_inv st" then show ?thesis by (rule vm_inv_frame) (simp_all add: VmCamBroadcast)
qed (simp_all add: on_message_inv vm_reply_inv media_server_offline_inv)

lemma vm_run_inv: "vm_inv st \<Longrightarrow> vm_inv (fst (vm_run cfg st es))"
proof (induction es arbitrary: st)
  case (Cons e es)
  then show ?case using vm_step_inv [OF Cons.prems, of cfg e] by (simp add: case_prod_beta)
qed simp

lemma vm_init_inv: "vm_inv vm_init"
  by (simp add: vm_inv_def vm_init_def keys_distinct_def queues_ok_def queue_of_def)

text \<open>Under the invariant the gauge counts distinct session keys.\<close>

lemma number_of_sessions_keys:
  "vm_inv st \<Longrightarrow> number_of_sessions st = card (dom (map_of (vm_sessions st)))"
proof -
  assume "vm_inv st"
  then have "distinct (map fst (vm_sessions st))" by (simp add: vm_inv_def keys_distinct_def)
  from distinct_card [OF this] have "card (fst ` set (vm_sessions st)) = length (vm_sessions st)" by simp
  then show ?thesis by (simp add: number_of_sessions_def dom_map_of_conv_image_fst)
qed

lemmas vm_defs = on_message_def enqueue_def queue_of_def begin_task_def permission_kind_def resume_task_def
  vm_reply_def fetch_ice_queue_def get_session_def create_and_start_def store_session_def start_success_def
  start_error_def count_error_def new_video_def
  close_session_begin_def close_session_end_def remove_session_def delete_ice_queue_def
  handle_ice_candidate_def is_video_instance_ready_def Let_def

lemma map_entry_update [simp]:
  "AList.map_entry k f (AList.update k v xs) = AList.update k (f v) xs"
  by (induction xs) auto

lemma vm_run_append:
  "vm_run cfg st (xs @ ys) =
     (fst (vm_run cfg (fst (vm_run cfg st xs)) ys), snd (vm_run cfg st xs) @ snd (vm_run cfg (fst (vm_run cfg st xs)) ys))"
  by (induction xs arbitrary: st) (simp_all add: case_prod_beta)

lemma queue_of_upd [simp]:
  "queue_of (st\<lparr>vm_reqs := n\<rparr>) = queue_of st"
  "queue_of (st\<lparr>vm_errors := es\<rparr>) = queue_of st"
  "queue_of (st\<lparr>vm_ice := ic\<rparr>) = queue_of st"
  "queue_of (st\<lparr>vm_sessions := ss\<rparr>) = queue_of st"
  "queue_of (st\<lparr>vm_active := ac\<rparr>) = queue_of st"
  by (simp_all add: queue_of_def fun_eq_iff)

lemma on_message_lifecycle:
  assumes "msg_header_ok m \<or> \<not> strict_header cfg"
  shows "msg_id m = ''start'' \<Longrightarrow> on_message cfg m st = enqueue (get_session_id m) (TStart m) (st\<lparr>vm_reqs := Suc (vm_reqs st)\<rparr>)"
    and "msg_id m = ''stop'' \<Longrightarrow> on_message cfg m st = enqueue (get_session_id m) (TStop m) (st\<lparr>vm_reqs := Suc (vm_reqs st)\<rparr>)"
    and "msg_id m = ''subscriberAnswer'' \<Longrightarrow>
         on_message cfg m st = enqueue (get_session_id m) (TAnswer m) (st\<lparr>vm_reqs := Suc (vm_reqs st)\<rparr>)"
  using assms by (auto simp add: on_message_def Let_def)

lemma enqueue_idle:
  "vm_active st k = None \<Longrightarrow> queue_of st k = [] \<Longrightarrow>
   enqueue k t st = (fst (fst (begin_task k t st))\<lparr>vm_queues := (vm_queues st)(k \<mapsto> [])\<rparr>, snd (fst (begin_task k t st)))"
  by (simp add: enqueue_def Let_def case_prod_beta begin_task_frame(2))

lemma enqueue_busy:
  "vm_active st k \<noteq> None \<Longrightarrow> enqueue k t st = (st\<lparr>vm_queues := (vm_queues st)(k \<mapsto> queue_of st k @ [t])\<rparr>, [])"
  by (auto simp add: enqueue_def Let_def)

lemma vm_reply_done:
  "resume_task k r st = Some ((st1, es), True) \<Longrightarrow>
   vm_reply k r st = (let st2 = st1\<lparr>vm_active := (vm_active st1)(k := None)\<rparr>
                      in (fst (pump k (queue_of st2 k) st2), es @ snd (pump k (queue_of st2 k) st2)))"
  by (simp add: vm_reply_def Let_def case_prod_beta)

lemma vm_reply_waits:
  "resume_task k r st = Some ((st1, es), False) \<Longrightarrow> vm_reply k r st = (st1, es)"
  by (simp add: vm_reply_def)

lemma ice_prefix:
  assumes "msg_header_ok m" "get_session st (get_session_id m) = None"
  shows "snd (vm_run cfg st (map (\<lambda>c. VmMessage (m\<lparr>msg_id := ''onIceCandidate'', msg_candidate := c\<rparr>)) cs)) = []
    \<and> snd (fetch_ice_queue (get_session_id m) (fst (vm_run cfg st (map (\<lambda>c. VmMessage (m\<lparr>msg_id := ''onIceCandidate'', msg_candidate := c\<rparr>)) cs))))
        = snd (fetch_ice_queue (get_session_id m) st) @ cs
    \<and> vm_sessions (fst (vm_run cfg st (map (\<lambda>c. VmMessage (m\<lparr>msg_id := ''onIceCandidate'', msg_candidate := c\<rparr>)) cs))) = vm_sessions st
    \<and> vm_active (fst (vm_run cfg st (map (\<lambda>c. VmMessage (m\<lparr>msg_id := ''onIceCandidate'', msg_candidate := c\<rparr>)) cs))) = vm_active st
    \<and> vm_queues (fst (vm_run cfg st (map (\<lambda>c. VmMessage (m\<lparr>msg_id := ''onIceCandidate'', msg_candidate := c\<rparr>)) cs))) = vm_queues st"
  using assms
proof (induction cs arbitrary: st)
  case Nil then show ?case by simp
next
  case (Cons c cs)
  let ?st1 = "fst (handle_ice_candidate (m\<lparr>msg_id := ''onIceCandidate'', msg_candidate := c\<rparr>) (st\<lparr>vm_reqs := Suc (vm_reqs st)\<rparr>))"
  have step: "vm_step cfg st (VmMessage (m\<lparr>msg_id := ''onIceCandidate'', msg_candidate := c\<rparr>)) = (?st1, [])"
    and st1: "snd (fetch_ice_queue (get_session_id m) ?st1) = snd (fetch_ice_queue (get_session_id m) st) @ [c]"
      "vm_sessions ?st1 = vm_sessions st" "vm_active ?st1 = vm_active st" "vm_queues ?st1 = vm_queues st"
    using Cons.prems by (simp_all add: vm_defs split: option.split)
  have "get_session ?st1 (get_session_id m) = None" using Cons.prems(2) st1(2) by (simp add: get_session_def)
  from Cons.IH [OF Cons.prems(1) this] step st1 show ?case by (simp add: case_prod_beta)
qed

lemma filter_key_single:
  "distinct (map fst xs) \<Longrightarrow> map_of xs k \<noteq> None \<Longrightarrow> length (filter (\<lambda>p. fst p = k) xs) = 1"
proof (induction xs)
  case (Cons p xs)
  then show ?case
    by (cases p) (auto simp: filter_empty_conv image_iff split: if_splits)
qed simp

lemma kill_sessions_idle:
  assumes "distinct (map fst xs)"
    and "\<forall>k\<in>set (map fst xs). get_session st k \<noteq> None \<and> vm_active st k = None \<and> queue_of st k = []"
  shows "snd (kill_sessions c xs st) = map (\<lambda>(k, v). Video k VideoStop) (filter (\<lambda>(k, v). v_connection_id v = c) xs)"
  using assms
proof (induction xs arbitrary: st)
  case (Cons p xs)
  obtain k v where p: "p = (k, v)" by fastforce
  show ?case
  proof (cases "v_connection_id v = c")
    case True
    from Cons.prems p obtain w where w: "get_session st k = Some w" "vm_active st k = None" "queue_of st k = []"
      by auto
    let ?st1 = "st\<lparr>vm_active := (vm_active st)(k \<mapsto> WaitStop k), vm_queues := (vm_queues st)(k \<mapsto> [])\<rparr>"
    have enq: "enqueue k (TClose k) st = (?st1, [Video k VideoStop])"
      using w by (simp add: enqueue_idle begin_task_def close_session_begin_def)
    have "\<forall>k'\<in>set (map fst xs). get_session ?st1 k' \<noteq> None \<and> vm_active ?st1 k' = None \<and> queue_of ?st1 k' = []"
      using Cons.prems p by (auto simp: get_session_def queue_of_def)
    with Cons.IH [of ?st1] Cons.prems(1) True p enq show ?thesis by (simp add: case_prod_beta)
  next
    case False
    with Cons.IH [of st] Cons.prems p show ?thesis by simp
  qed
qed simp

lemma remaining_le: "remaining a \<le> 3"
  by (cases a rule: remaining.cases) simp_all

lemma pump_pending:
  "vm_active st k = None \<Longrightarrow> pending k (fst (pump k ts st)) \<le> 3 * length ts"
proof (induction ts arbitrary: st)
  case Nil then show ?case by (simp add: pending_def queue_of_def)
next
  case (Cons t ts)
  show ?case
  proof (cases "snd (begin_task k t st)")
    case True
    then have "vm_active (fst (fst (begin_task k t st))) k = None"
      using begin_task_done(1) [of k t st] Cons.prems by simp
    from Cons.IH [OF this] True show ?thesis by (simp del: pump.simps add: pump_Cons_sel Let_def)
  next
    case False
    then show ?thesis using remaining_le [of "vm_active (fst (fst (begin_task k t st))) k"]
      by (simp del: pump.simps add: pump_Cons_sel Let_def pending_def queue_of_def)
  qed
qed

lemma resume_matching:
  "vm_active st k = Some a \<Longrightarrow> matches a r \<Longrightarrow> \<exists>st1 es d. resume_task k r st = Some ((st1, es), d)
     \<and> vm_queues st1 = vm_queues st \<and> (\<not> d \<longrightarrow> remaining (vm_active st1 k) < remaining (Some a))"
  by (cases a; cases r) (auto simp: resume_defs Let_def split: option.split prod.split sum.split)

lemma ok_reply_matches: "matches a (ok_reply a)"
  by (cases a) (simp_all add: ok_reply_def)

lemma vm_reply_pending:
  assumes act: "vm_active st k = Some a" and res: "resume_task k r st = Some ((st1, es), d)"
    and q: "vm_queues st1 = vm_queues st" and dec: "\<not> d \<longrightarrow> remaining (vm_active st1 k) < remaining (Some a)"
  shows "pending k (fst (vm_reply k r st)) < pending k st"
proof -
  have pos: "0 < remaining (Some a)" by (cases a) simp_all
  show ?thesis
  proof (cases d)
    case True
    let ?st2 = "st1\<lparr>vm_active := (vm_active st1)(k := None)\<rparr>"
    have "pending k (fst (pump k (queue_of ?st2 k) ?st2)) \<le> 3 * length (queue_of st k)"
      using pump_pending [of ?st2 k "queue_of ?st2 k"] q by (simp add: queue_of_def)
    with True res act pos show ?thesis by (simp add: vm_reply_done pending_def Let_def)
  next
    case False
    with res q dec act show ?thesis by (simp add: vm_reply_waits pending_def queue_of_def)
  qed
qed

lemma start_idle_run:
  assumes "msg_id m = ''start''" "msg_header_ok m" "permission_kind (msg_role m) = Some kind"
    and "k = get_session_id m" "get_session st k = None" "vm_active st k = None" "queue_of st k = []"
  shows "vm_run cfg st [VmMessage m, VmReply k (RPermission None), VmReply k (RStarted (Inr a))] =
    (st\<lparr>vm_sessions := AList.update k ((new_video m)\<lparr>v_status := MEDIA_STARTED, v_offline_listener := True\<rparr>) (vm_sessions st),
        vm_queues := (vm_queues st)(k \<mapsto> []), vm_ice := (vm_ice st)(k \<mapsto> []), vm_reqs := Suc (vm_reqs st)\<rparr>,
     [Video k (PermissionQuery kind), Video k (VideoStart (msg_sdp_offer m) (get_video_specs m))]
     @ map (\<lambda>c. Video k (VideoIce c)) (snd (fetch_ice_queue k st))
     @ [Client (msg_connection_id m) (StartResponse (msg_role m) (msg_camera_id m) a)])"
  using assms
  by (auto simp add: vm_defs fun_upd_idem split: option.split)

subsection \<open>Properties\<close>

text \<open>
  C2: every state the manager reaches from its initial state satisfies \<open>vm_inv\<close>: the
  session table holds at most one entry per key, and a key has tasks waiting in its lifecycle
  queue only while one of its tasks runs.
\<close>

theorem vm_reachable_inv: "vm_inv (fst (vm_run cfg vm_init es))"
  using vm_init_inv by (rule vm_run_inv)

theorem vm_reachable_inv_witness:
  "vm_inv (fst (vm_run witness_cfg vm_init [VmMessage witness_vmsg, VmMessage (witness_vmsg\<lparr>msg_id := ''stop''\<rparr>)]))"
  by (rule vm_reachable_inv)

text \<open>
  C3: ICE candidates that arrive before any start for their key are buffered; when the start
  succeeds they are forwarded to the new video exactly once each, in arrival order, after the
  video start and before the start response (spec section 8, scenario 3, for any number of
  candidates).
\<close>

theorem ice_before_start:
  assumes "msg_id m = ''start''" "msg_header_ok m" "permission_kind (msg_role m) = Some kind"
    and "k = get_session_id m"
  shows "snd (vm_run cfg vm_init
      (map (\<lambda>c. VmMessage (m\<lparr>msg_id := ''onIceCandidate'', msg_candidate := c\<rparr>)) cs
       @ [VmMessage m, VmReply k (RPermission None), VmReply k (RStarted (Inr a))]))
    = [Video k (PermissionQuery kind), Video k (VideoStart (msg_sdp_offer m) (get_video_specs m))]
      @ map (\<lambda>c. Video k (VideoIce c)) cs
      @ [Client (msg_connection_id m) (StartResponse (msg_role m) (msg_camera_id m) a)]"
proof -
  let ?pre = "map (\<lambda>c. VmMessage (m\<lparr>msg_id := ''onIceCandidate'', msg_candidate := c\<rparr>)) cs"
  let ?st = "fst (vm_run cfg vm_init ?pre)"
  have init: "get_session vm_init k = None" "snd (fetch_ice_queue k vm_init) = []"
    by (simp_all add: vm_init_def get_session_def fetch_ice_queue_def)
  have pre: "snd (vm_run cfg vm_init ?pre) = []" "snd (fetch_ice_queue k ?st) = cs"
    "vm_sessions ?st = []" "vm_active ?st = Map.empty" "vm_queues ?st = Map.empty"
    using ice_prefix [OF assms(2), of vm_init cfg cs] init assms(4) by (simp_all add: vm_init_def)
  have "get_session ?st k = None" "vm_active ?st k = None" "queue_of ?st k = []"
    using pre by (simp_all add: get_session_def queue_of_def)
  from start_idle_run [OF assms(1-4) this, of cfg a] pre(1,2) show ?thesis
    by (simp add: vm_run_append)
qed

theorem ice_before_start_witness:
  "snd (vm_run witness_cfg vm_init
      [VmMessage (witness_vmsg\<lparr>msg_id := ''onIceCandidate'', msg_candidate := ''C1''\<rparr>),
       VmMessage (witness_vmsg\<lparr>msg_id := ''onIceCandidate'', msg_candidate := ''C2''\<rparr>),
       VmMessage witness_vmsg, VmReply ''u1-c1-share'' (RPermission None), VmReply ''u1-c1-share'' (RStarted (Inr ''ANS''))])
   = [Video ''u1-c1-share'' (PermissionQuery ''broadcast''), Video ''u1-c1-share'' (VideoStart ''O'' None),
      Video ''u1-c1-share'' (VideoIce ''C1''), Video ''u1-c1-share'' (VideoIce ''C2''), Client ''X'' (StartResponse ''share'' ''c1'' ''ANS'')]"
  using ice_before_start [where m = witness_vmsg and kind = "''broadcast''" and k = "''u1-c1-share''" and cfg = witness_cfg
      and cs = "[''C1'', ''C2'']" and a = "''ANS''"]
  by (simp add: witness_vmsg_def get_session_id_def permission_kind_def vm_init_def get_session_def queue_of_def fetch_ice_queue_def get_video_specs_def witness_cfg_def)

text \<open>
  C5: lifecycle tasks of one key never overlap: a stop that arrives while the start of its key
  waits for the video is queued, emits nothing, and takes effect only after the start response
  has been sent; when the stop completes the session and its ICE queue are gone.
\<close>

theorem stop_waits_for_start:
  assumes "msg_id m = ''start''" "msg_header_ok m" "permission_kind (msg_role m) = Some kind"
    and "k = get_session_id m" "get_session st k = None" "vm_active st k = None" "queue_of st k = []"
  shows "vm_run cfg st [VmMessage m, VmReply k (RPermission None), VmMessage (m\<lparr>msg_id := ''stop''\<rparr>),
                        VmReply k (RStarted (Inr a)), VmReply k (RStopped r)]
    = (st\<lparr>vm_queues := (vm_queues st)(k \<mapsto> []), vm_ice := (vm_ice st)(k := None), vm_reqs := Suc (Suc (vm_reqs st))\<rparr>,
       [Video k (PermissionQuery kind), Video k (VideoStart (msg_sdp_offer m) (get_video_specs m))]
        @ map (\<lambda>c. Video k (VideoIce c)) (snd (fetch_ice_queue k st))
        @ [Client (msg_connection_id m) (StartResponse (msg_role m) (msg_camera_id m) a), Video k VideoStop])"
proof -
  let ?q = "snd (fetch_ice_queue k st)"
  let ?m' = "m\<lparr>msg_id := ''stop''\<rparr>"
  define st1 where "st1 = st\<lparr>vm_queues := (vm_queues st)(k \<mapsto> []), vm_active := (vm_active st)(k \<mapsto> WaitPermission m),
    vm_reqs := Suc (vm_reqs st)\<rparr>"
  have e1: "vm_step cfg st (VmMessage m) = (st1, [Video k (PermissionQuery kind)])"
    using assms by (simp add: on_message_lifecycle enqueue_idle begin_task_def st1_def)
  define st2 where "st2 = st1\<lparr>vm_ice := (vm_ice st)(k \<mapsto> ?q),
    vm_sessions := AList.update k (new_video m) (vm_sessions st), vm_active := (vm_active st)(k \<mapsto> WaitVideoStart m ?q)\<rparr>"
  have e2: "vm_step cfg st1 (VmReply k (RPermission None)) = (st2, [Video k (VideoStart (msg_sdp_offer m) (get_video_specs m))])"
    using assms by (auto simp add: vm_reply_waits resume_task_def st1_def st2_def fetch_ice_queue_def get_session_def
        create_and_start_def store_session_def fun_upd_idem split: option.split)
  define st3 where "st3 = st2\<lparr>vm_reqs := Suc (Suc (vm_reqs st)), vm_queues := (vm_queues st)(k \<mapsto> [TStop ?m'])\<rparr>"
  have e3: "vm_step cfg st2 (VmMessage ?m') = (st3, [])"
    using assms by (simp add: on_message_lifecycle enqueue_busy st1_def st2_def st3_def queue_of_def)
  define st4 where "st4 = st3\<lparr>vm_ice := (vm_ice st)(k \<mapsto> []), vm_queues := (vm_queues st)(k \<mapsto> []),
    vm_sessions := AList.update k ((new_video m)\<lparr>v_status := MEDIA_STARTED, v_offline_listener := True\<rparr>) (vm_sessions st),
    vm_active := (vm_active st)(k \<mapsto> WaitStop k)\<rparr>"
  have e4: "vm_step cfg st3 (VmReply k (RStarted (Inr a))) =
      (st4, map (\<lambda>c. Video k (VideoIce c)) ?q @ [Client (msg_connection_id m) (StartResponse (msg_role m) (msg_camera_id m) a),
             Video k VideoStop])"
    using assms by (simp add: vm_reply_done resume_task_def st1_def st2_def st3_def st4_def start_success_def
        queue_of_def begin_task_def close_session_begin_def get_session_def update_conv' Let_def)
  have e5: "vm_step cfg st4 (VmReply k (RStopped r)) =
      (st\<lparr>vm_queues := (vm_queues st)(k \<mapsto> []), vm_ice := (vm_ice st)(k := None), vm_reqs := Suc (Suc (vm_reqs st))\<rparr>, [])"
    using assms by (simp add: vm_reply_done resume_task_def st1_def st2_def st3_def st4_def queue_of_def
        close_session_end_def remove_session_def delete_ice_queue_def get_session_def fun_upd_idem delete_idem
        delete_update_same map_of_eq_None_iff)
  show ?thesis by (simp add: e1 e2 e3 e4 e5 del: vm_step.simps)
qed

theorem stop_waits_for_start_witness:
  "snd (vm_run witness_cfg vm_init [VmMessage witness_vmsg, VmReply ''u1-c1-share'' (RPermission None),
      VmMessage (witness_vmsg\<lparr>msg_id := ''stop''\<rparr>), VmReply ''u1-c1-share'' (RStarted (Inr ''ANS'')), VmReply ''u1-c1-share'' (RStopped None)])
   = [Video ''u1-c1-share'' (PermissionQuery ''broadcast''), Video ''u1-c1-share'' (VideoStart ''O'' None),
      Client ''X'' (StartResponse ''share'' ''c1'' ''ANS''), Video ''u1-c1-share'' VideoStop]"
  using stop_waits_for_start [where m = witness_vmsg and kind = "''broadcast''" and k = "''u1-c1-share''" and st = vm_init
      and cfg = witness_cfg and a = "''ANS''" and r = None]
  by (simp add: witness_vmsg_def get_session_id_def permission_kind_def vm_init_def get_session_def queue_of_def fetch_ice_queue_def get_video_specs_def witness_cfg_def)

text \<open>
  C6: stale-session replacement: a start for a key that already has a session stops the old
  video before the new one is started, sends the new answer, and leaves exactly one entry for
  the key in the session table, the new video, started (spec section 8, scenario 4).
\<close>

theorem stale_replacement:
  assumes "msg_id m = ''start''" "msg_header_ok m" "permission_kind (msg_role m) = Some kind"
    and "k = get_session_id m" "get_session st k = Some v" "vm_active st k = None" "queue_of st k = []"
    and "keys_distinct st"
  shows "snd (vm_run cfg st [VmMessage m, VmReply k (RPermission None), VmReply k (RStopped r),
                            VmReply k (RStarted (Inr a))])
      = [Video k (PermissionQuery kind), Video k VideoStop, Video k (VideoStart (msg_sdp_offer m) (get_video_specs m))]
        @ map (\<lambda>c. Video k (VideoIce c)) (snd (fetch_ice_queue k st))
        @ [Client (msg_connection_id m) (StartResponse (msg_role m) (msg_camera_id m) a)]
    \<and> get_session (fst (vm_run cfg st [VmMessage m, VmReply k (RPermission None), VmReply k (RStopped r),
                            VmReply k (RStarted (Inr a))])) k
      = Some ((new_video m)\<lparr>v_status := MEDIA_STARTED, v_offline_listener := True\<rparr>)
    \<and> length (filter (\<lambda>p. fst p = k) (vm_sessions (fst (vm_run cfg st [VmMessage m, VmReply k (RPermission None),
                            VmReply k (RStopped r), VmReply k (RStarted (Inr a))])))) = 1"
proof -
  let ?new = "(new_video m)\<lparr>v_status := MEDIA_STARTED, v_offline_listener := True\<rparr>"
  have run: "vm_run cfg st [VmMessage m, VmReply k (RPermission None), VmReply k (RStopped r), VmReply k (RStarted (Inr a))]
    = (st\<lparr>vm_sessions := AList.update k ?new (AList.delete k (vm_sessions st)),
          vm_queues := (vm_queues st)(k \<mapsto> []), vm_ice := (vm_ice st)(k := None), vm_reqs := Suc (vm_reqs st)\<rparr>,
       [Video k (PermissionQuery kind), Video k VideoStop, Video k (VideoStart (msg_sdp_offer m) (get_video_specs m))]
        @ map (\<lambda>c. Video k (VideoIce c)) (snd (fetch_ice_queue k st))
        @ [Client (msg_connection_id m) (StartResponse (msg_role m) (msg_camera_id m) a)])"
    using assms(1-7) by (auto simp add: vm_defs fun_upd_idem split: option.split)
  have "distinct (map fst (AList.update k ?new (AList.delete k (vm_sessions st))))"
    using assms(8) by (simp add: keys_distinct_def distinct_update distinct_delete)
  then have "length (filter (\<lambda>p. fst p = k) (AList.update k ?new (AList.delete k (vm_sessions st)))) = 1"
    by (rule filter_key_single) (simp add: update_conv')
  then show ?thesis unfolding run by (simp add: get_session_def update_conv')
qed

theorem stale_replacement_witness:
  "snd (vm_run witness_cfg (fst (vm_run witness_cfg vm_init [VmMessage witness_vmsg, VmReply ''u1-c1-share'' (RPermission None),
        VmReply ''u1-c1-share'' (RStarted (Inr ''A1''))]))
      [VmMessage witness_vmsg, VmReply ''u1-c1-share'' (RPermission None), VmReply ''u1-c1-share'' (RStopped None), VmReply ''u1-c1-share'' (RStarted (Inr ''A2''))])
   = [Video ''u1-c1-share'' (PermissionQuery ''broadcast''), Video ''u1-c1-share'' VideoStop, Video ''u1-c1-share'' (VideoStart ''O'' None),
      Client ''X'' (StartResponse ''share'' ''c1'' ''A2'')]"
  using stale_replacement [where m = witness_vmsg and kind = "''broadcast''" and k = "''u1-c1-share''"
      and st = "fst (vm_run witness_cfg vm_init [VmMessage witness_vmsg, VmReply ''u1-c1-share'' (RPermission None),
        VmReply ''u1-c1-share'' (RStarted (Inr ''A1''))])"
      and v = "(new_video witness_vmsg)\<lparr>v_status := MEDIA_STARTED, v_offline_listener := True\<rparr>"
      and cfg = witness_cfg and r = None and a = "''A2''"]
  by (simp add: vm_defs witness_vmsg_def get_session_id_def permission_kind_def vm_init_def get_session_def queue_of_def fetch_ice_queue_def get_video_specs_def witness_cfg_def keys_distinct_def new_video_def start_success_def)

text \<open>
  C9: happy publish: a start from a key with no session and no running task asks the
  permission oracle, starts the video, flushes the key's buffered candidates, and answers the
  client; the session is then stored, started, with its offline listener; one request is
  counted and no error (spec section 8, scenario 1).
\<close>

theorem start_from_idle:
  assumes "msg_id m = ''start''" "msg_header_ok m" "permission_kind (msg_role m) = Some kind"
    and "k = get_session_id m" "get_session st k = None" "vm_active st k = None" "queue_of st k = []"
  shows "snd (vm_run cfg st [VmMessage m, VmReply k (RPermission None), VmReply k (RStarted (Inr a))]) =
      [Video k (PermissionQuery kind), Video k (VideoStart (msg_sdp_offer m) (get_video_specs m))]
      @ map (\<lambda>c. Video k (VideoIce c)) (snd (fetch_ice_queue k st))
      @ [Client (msg_connection_id m) (StartResponse (msg_role m) (msg_camera_id m) a)]
    \<and> get_session (fst (vm_run cfg st [VmMessage m, VmReply k (RPermission None), VmReply k (RStarted (Inr a))])) k
      = Some ((new_video m)\<lparr>v_status := MEDIA_STARTED, v_offline_listener := True\<rparr>)
    \<and> vm_reqs (fst (vm_run cfg st [VmMessage m, VmReply k (RPermission None), VmReply k (RStarted (Inr a))]))
      = Suc (vm_reqs st)
    \<and> vm_errors (fst (vm_run cfg st [VmMessage m, VmReply k (RPermission None), VmReply k (RStarted (Inr a))]))
      = vm_errors st"
  unfolding start_idle_run [OF assms] by (simp add: get_session_def update_conv')

theorem start_from_idle_witness:
  "snd (vm_run witness_cfg vm_init [VmMessage witness_vmsg, VmReply ''u1-c1-share'' (RPermission None), VmReply ''u1-c1-share'' (RStarted (Inr ''ANS''))])
     = [Video ''u1-c1-share'' (PermissionQuery ''broadcast''), Video ''u1-c1-share'' (VideoStart ''O'' None),
        Client ''X'' (StartResponse ''share'' ''c1'' ''ANS'')]
   \<and> vm_reqs (fst (vm_run witness_cfg vm_init [VmMessage witness_vmsg, VmReply ''u1-c1-share'' (RPermission None),
        VmReply ''u1-c1-share'' (RStarted (Inr ''ANS''))])) = 1"
  using start_from_idle [where m = witness_vmsg and kind = "''broadcast''" and k = "''u1-c1-share''" and st = vm_init
      and cfg = witness_cfg and a = "''ANS''"]
  by (simp add: witness_vmsg_def get_session_id_def permission_kind_def vm_init_def get_session_def queue_of_def fetch_ice_queue_def get_video_specs_def witness_cfg_def)

text \<open>
  C10: permission denied: when the oracle refuses, the client gets one error frame with the
  normalized error, the error metric is counted with method \<open>start\<close>, and no session is
  stored (spec section 8, scenario 2).
\<close>

theorem start_permission_denied:
  assumes "msg_id m = ''start''" "msg_header_ok m" "permission_kind (msg_role m) = Some kind"
    and "k = get_session_id m" "get_session st k = None" "vm_active st k = None" "queue_of st k = []"
  shows "vm_run cfg st [VmMessage m, VmReply k (RPermission (Some e))] =
    (st\<lparr>vm_queues := (vm_queues st)(k \<mapsto> []), vm_reqs := Suc (vm_reqs st),
        vm_errors := vm_errors st @ [(''start'', normalize_error e)]\<rparr>,
     [Video k (PermissionQuery kind), Client (msg_connection_id m) (ErrorFrame (normalize_error e))])"
  using assms by (auto simp add: vm_defs fun_upd_idem)

theorem start_permission_denied_witness:
  "vm_run witness_cfg vm_init [VmMessage witness_vmsg, VmReply ''u1-c1-share'' (RPermission (Some (PERMISSION_DENIED 403)))]
   = (vm_init\<lparr>vm_queues := [''u1-c1-share'' \<mapsto> []], vm_reqs := 1, vm_errors := [(''start'', PERMISSION_DENIED 403)]\<rparr>,
      [Video ''u1-c1-share'' (PermissionQuery ''broadcast''), Client ''X'' (ErrorFrame (PERMISSION_DENIED 403))])"
  using start_permission_denied [where m = witness_vmsg and kind = "''broadcast''" and k = "''u1-c1-share''" and st = vm_init
      and cfg = witness_cfg and e = "PERMISSION_DENIED 403"]
  by (simp add: witness_vmsg_def get_session_id_def permission_kind_def vm_init_def get_session_def queue_of_def fetch_ice_queue_def get_video_specs_def witness_cfg_def)

text \<open>
  C25: a media-server outage on a started session sends one \<open>MEDIA_SERVER_OFFLINE\<close> error
  frame to its connection and counts one error with method \<open>event\<close>; a second outage
  event sends nothing, as the listener is attached once.  The session stays in the table with
  its status unchanged: the manager does not stop it.
\<close>

theorem offline_once:
  assumes "get_session st k = Some v" "v_offline_listener v"
  shows "vm_run cfg st [VmOffline k, VmOffline k] =
    (st\<lparr>vm_sessions := AList.map_entry k (\<lambda>x. x\<lparr>v_offline_listener := False\<rparr>) (vm_sessions st),
        vm_errors := vm_errors st @ [(''event'', MEDIA_SERVER_OFFLINE)]\<rparr>,
     [Client (v_connection_id v) (ErrorFrame MEDIA_SERVER_OFFLINE)])
    \<and> get_session (fst (vm_run cfg st [VmOffline k, VmOffline k])) k = Some (v\<lparr>v_offline_listener := False\<rparr>)"
  using assms by (simp add: media_server_offline_def get_session_def count_error_def map_of_map_entry)

theorem offline_once_witness:
  "snd (vm_run witness_cfg (fst (vm_run witness_cfg vm_init [VmMessage witness_vmsg, VmReply ''u1-c1-share'' (RPermission None), VmReply ''u1-c1-share'' (RStarted (Inr ''ANS''))])) [VmOffline ''u1-c1-share'', VmOffline ''u1-c1-share'']) = [Client ''X'' (ErrorFrame MEDIA_SERVER_OFFLINE)]
   \<and> get_session (fst (vm_run witness_cfg (fst (vm_run witness_cfg vm_init [VmMessage witness_vmsg, VmReply ''u1-c1-share'' (RPermission None), VmReply ''u1-c1-share'' (RStarted (Inr ''ANS''))])) [VmOffline ''u1-c1-share'', VmOffline ''u1-c1-share''])) ''u1-c1-share''
     = Some ((new_video witness_vmsg)\<lparr>v_status := MEDIA_STARTED\<rparr>)"
  using offline_once [where st = "fst (vm_run witness_cfg vm_init [VmMessage witness_vmsg, VmReply ''u1-c1-share'' (RPermission None), VmReply ''u1-c1-share'' (RStarted (Inr ''ANS''))])" and k = "''u1-c1-share''" and cfg = witness_cfg
      and v = "(new_video witness_vmsg)\<lparr>v_status := MEDIA_STARTED, v_offline_listener := True\<rparr>"]
  by (simp add: vm_defs witness_vmsg_def get_session_id_def permission_kind_def vm_init_def get_session_def queue_of_def fetch_ice_queue_def get_video_specs_def witness_cfg_def new_video_def)

text \<open>
  C26: a \<open>close\<close> for a connection stops every session of that connection, one
  \<open>stop\<close> per session in table order, and sends no frame to any client, when no task of
  those keys is running (spec section 8, scenario 6).
\<close>

theorem close_stops_sessions:
  assumes "msg_id m = ''close''" "msg_header_ok m" "keys_distinct st"
    and "\<forall>k\<in>set (map fst (vm_sessions st)). vm_active st k = None \<and> queue_of st k = []"
  shows "snd (on_message cfg m st) =
    map (\<lambda>(k, v). Video k VideoStop) (filter (\<lambda>(k, v). v_connection_id v = msg_connection_id m) (vm_sessions st))"
proof -
  have "\<forall>k\<in>set (map fst (vm_sessions st)). get_session (st\<lparr>vm_reqs := Suc (vm_reqs st)\<rparr>) k \<noteq> None
      \<and> vm_active (st\<lparr>vm_reqs := Suc (vm_reqs st)\<rparr>) k = None \<and> queue_of (st\<lparr>vm_reqs := Suc (vm_reqs st)\<rparr>) k = []"
    using assms(4) by (simp add: get_session_def map_of_eq_None_iff)
  from kill_sessions_idle [OF _ this] assms(1-3) show ?thesis
    by (simp add: on_message_def Let_def kill_connection_sessions_def keys_distinct_def)
qed

theorem close_stops_sessions_witness:
  "snd (on_message witness_cfg (witness_vmsg\<lparr>msg_id := ''close''\<rparr>) (fst (vm_run witness_cfg vm_init [VmMessage witness_vmsg, VmReply ''u1-c1-share'' (RPermission None), VmReply ''u1-c1-share'' (RStarted (Inr ''A1'')),
        VmMessage (witness_vmsg\<lparr>msg_camera_id := ''c2''\<rparr>), VmReply ''u1-c2-share'' (RPermission None),
        VmReply ''u1-c2-share'' (RStarted (Inr ''A2''))])))
   = [Video ''u1-c1-share'' VideoStop, Video ''u1-c2-share'' VideoStop]"
  using close_stops_sessions [where m = "witness_vmsg\<lparr>msg_id := ''close''\<rparr>" and cfg = witness_cfg
      and st = "fst (vm_run witness_cfg vm_init [VmMessage witness_vmsg, VmReply ''u1-c1-share'' (RPermission None), VmReply ''u1-c1-share'' (RStarted (Inr ''A1'')),
        VmMessage (witness_vmsg\<lparr>msg_camera_id := ''c2''\<rparr>), VmReply ''u1-c2-share'' (RPermission None),
        VmReply ''u1-c2-share'' (RStarted (Inr ''A2''))])"]
  by (simp add: vm_defs witness_vmsg_def get_session_id_def permission_kind_def vm_init_def get_session_def queue_of_def fetch_ice_queue_def get_video_specs_def witness_cfg_def keys_distinct_def)

text \<open>
  a message with an unknown id, or with a malformed user header under strict parsing, is
  answered with one \<open>SFU_INVALID_REQUEST\<close> error frame and counted under its id, or
  under \<open>event\<close> when the id is empty; nothing else changes.
\<close>

theorem invalid_request:
  assumes "\<not> msg_header_ok m \<and> strict_header cfg \<or> msg_id m \<notin> set known_ids"
  shows "on_message cfg m st =
    (st\<lparr>vm_reqs := Suc (vm_reqs st),
        vm_errors := vm_errors st @ [(if msg_id m = [] then ''event'' else msg_id m, SFU_INVALID_REQUEST)]\<rparr>,
     [Client (msg_connection_id m) (ErrorFrame SFU_INVALID_REQUEST)])"
proof -
  have "handle_invalid_request m (st\<lparr>vm_reqs := Suc (vm_reqs st)\<rparr>) = on_message cfg m st"
    using assms unfolding on_message_def Let_def known_ids_def by auto
  then show ?thesis by (simp add: handle_invalid_request_def count_error_def)
qed

theorem invalid_request_witness:
  "on_message witness_cfg (witness_vmsg\<lparr>msg_id := ''bogus''\<rparr>) vm_init
   = (vm_init\<lparr>vm_reqs := 1, vm_errors := [(''bogus'', SFU_INVALID_REQUEST)]\<rparr>,
      [Client ''X'' (ErrorFrame SFU_INVALID_REQUEST)])"
  using invalid_request [where m = "witness_vmsg\<lparr>msg_id := ''bogus''\<rparr>" and cfg = witness_cfg and st = vm_init]
  by (simp add: known_ids_def witness_vmsg_def get_session_id_def permission_kind_def vm_init_def get_session_def queue_of_def fetch_ice_queue_def get_video_specs_def witness_cfg_def)

text \<open>
  C33: when \<open>processAnswer\<close> fails, \<open>handleSubscriberAnswer\<close> counts the normalized
  error under \<open>subscriberAnswer\<close> but sends no error frame to the client.
\<close>

theorem answer_failure_no_frame:
  assumes "msg_id m = ''subscriberAnswer''" "msg_header_ok m"
    and "k = get_session_id m" "get_session st k = Some v" "vm_active st k = None" "queue_of st k = []"
  shows "vm_run cfg st [VmMessage m, VmReply k (RAnswered (Some e))] =
    (st\<lparr>vm_queues := (vm_queues st)(k \<mapsto> []), vm_reqs := Suc (vm_reqs st),
        vm_errors := vm_errors st @ [(''subscriberAnswer'', normalize_error e)]\<rparr>,
     [Video k (VideoAnswer (msg_answer m))])"
  using assms by (auto simp add: vm_defs fun_upd_idem)

theorem answer_failure_no_frame_witness:
  "snd (vm_run witness_cfg (fst (vm_run witness_cfg vm_init [VmMessage witness_vmsg, VmReply ''u1-c1-share'' (RPermission None), VmReply ''u1-c1-share'' (RStarted (Inr ''ANS''))])) [VmMessage (witness_vmsg\<lparr>msg_id := ''subscriberAnswer''\<rparr>),
      VmReply ''u1-c1-share'' (RAnswered (Some NEGOTIATION_FAILED))]) = [Video ''u1-c1-share'' (VideoAnswer ''A'')]"
  using answer_failure_no_frame [where m = "witness_vmsg\<lparr>msg_id := ''subscriberAnswer''\<rparr>" and k = "''u1-c1-share''"
      and st = "fst (vm_run witness_cfg vm_init [VmMessage witness_vmsg, VmReply ''u1-c1-share'' (RPermission None), VmReply ''u1-c1-share'' (RStarted (Inr ''ANS''))])" and cfg = witness_cfg and e = NEGOTIATION_FAILED
      and v = "(new_video witness_vmsg)\<lparr>v_status := MEDIA_STARTED, v_offline_listener := True\<rparr>"]
  by (simp add: vm_defs witness_vmsg_def get_session_id_def permission_kind_def vm_init_def get_session_def queue_of_def fetch_ice_queue_def get_video_specs_def witness_cfg_def new_video_def)

text \<open>
  C34: when \<open>video.start\<close> fails, the client gets the normalized error, but the video
  stored before the start stays in the session table, still \<open>STARTING\<close>, and later
  candidates for its key are sent to it.
\<close>

theorem start_failure_keeps_session:
  assumes "msg_id m = ''start''" "msg_header_ok m" "permission_kind (msg_role m) = Some kind"
    and "k = get_session_id m" "get_session st k = None" "vm_active st k = None" "queue_of st k = []"
  shows "vm_run cfg st [VmMessage m, VmReply k (RPermission None), VmReply k (RStarted (Inl e))] =
    (st\<lparr>vm_sessions := AList.update k (new_video m) (vm_sessions st),
        vm_queues := (vm_queues st)(k \<mapsto> []), vm_ice := (vm_ice st)(k \<mapsto> snd (fetch_ice_queue k st)),
        vm_reqs := Suc (vm_reqs st), vm_errors := vm_errors st @ [(''start'', normalize_error e)]\<rparr>,
     [Video k (PermissionQuery kind), Video k (VideoStart (msg_sdp_offer m) (get_video_specs m)),
      Client (msg_connection_id m) (ErrorFrame (normalize_error e))])"
  using assms by (auto simp add: vm_defs fun_upd_idem split: option.split)

theorem start_failure_keeps_session_witness:
  "snd (vm_run witness_cfg vm_init [VmMessage witness_vmsg, VmReply ''u1-c1-share'' (RPermission None),
      VmReply ''u1-c1-share'' (RStarted (Inl MEDIA_SERVER_OFFLINE))])
   = [Video ''u1-c1-share'' (PermissionQuery ''broadcast''), Video ''u1-c1-share'' (VideoStart ''O'' None), Client ''X'' (ErrorFrame MEDIA_SERVER_OFFLINE)]
   \<and> get_session (fst (vm_run witness_cfg vm_init [VmMessage witness_vmsg, VmReply ''u1-c1-share'' (RPermission None),
      VmReply ''u1-c1-share'' (RStarted (Inl MEDIA_SERVER_OFFLINE))])) ''u1-c1-share'' = Some (new_video witness_vmsg)"
  using start_failure_keeps_session [where m = witness_vmsg and kind = "''broadcast''" and k = "''u1-c1-share''" and st = vm_init
      and cfg = witness_cfg and e = MEDIA_SERVER_OFFLINE]
  by (simp add: witness_vmsg_def get_session_id_def permission_kind_def vm_init_def get_session_def queue_of_def fetch_ice_queue_def get_video_specs_def witness_cfg_def)

text \<open>
  a \<open>subscriberAnswer\<close> for a key without a session resolves without side effects:
  no call, no frame, no error; only the request is counted.
\<close>

theorem answer_without_session:
  assumes "msg_id m = ''subscriberAnswer''" "msg_header_ok m"
    and "k = get_session_id m" "get_session st k = None" "vm_active st k = None" "queue_of st k = []"
  shows "on_message cfg m st = (st\<lparr>vm_queues := (vm_queues st)(k \<mapsto> []), vm_reqs := Suc (vm_reqs st)\<rparr>, [])"
  using assms by (simp add: vm_defs)

theorem answer_without_session_witness:
  "on_message witness_cfg (witness_vmsg\<lparr>msg_id := ''subscriberAnswer''\<rparr>) vm_init
   = (vm_init\<lparr>vm_queues := [''u1-c1-share'' \<mapsto> []], vm_reqs := 1\<rparr>, [])"
  using answer_without_session [where m = "witness_vmsg\<lparr>msg_id := ''subscriberAnswer''\<rparr>" and k = "''u1-c1-share''"
      and st = vm_init and cfg = witness_cfg]
  by (simp add: witness_vmsg_def get_session_id_def permission_kind_def vm_init_def get_session_def queue_of_def fetch_ice_queue_def get_video_specs_def witness_cfg_def)

end
