(* ===== verification/Video_Lifecycle.thy ===== *)
theory Video_Lifecycle
  imports Video_Manager
begin

text \<open>
  Properties of the video manager's lifecycle machinery as a whole.  A typing invariant:
  every task queued under a key, every suspended continuation of a key and every video
  stored under a key belong to that key.  Progress: each reply a running task accepts,
  success or failure, lowers the key's \<open>pending\<close> measure, so no key can answer
  replies forever.
\<close>

subsection \<open>Typing\<close>

fun task_key :: "vtask \<Rightarrow> string" where
  "task_key (TStart m) = get_session_id m"
| "task_key (TAnswer m) = get_session_id m"
| "task_key (TStop m) = get_session_id m"
| "task_key (TClose k) = k"

fun active_key :: "active \<Rightarrow> string" where
  "active_key (WaitPermission m) = get_session_id m"
| "active_key (WaitStaleStop m q) = get_session_id m"
| "active_key (WaitVideoStart m q) = get_session_id m"
| "active_key (WaitStop k) = k"
| "active_key (WaitAnswer m) = get_session_id m"

definition video_keyed :: "string \<Rightarrow> video \<Rightarrow> bool" where
  "video_keyed k v = suffix (''-'' @ v_camera_id v @ ''-'' @ v_role v) k"

definition sessions_keyed :: "(string \<times> video) list \<Rightarrow> bool" where
  "sessions_keyed xs = (\<forall>(k, v)\<in>set xs. video_keyed k v)"

definition vm_typed :: "vm_state \<Rightarrow> bool" where
  "vm_typed st =
     ((\<forall>k. \<forall>t\<in>set (queue_of st k). task_key t = k)
      \<and> (\<forall>k a. vm_active st k = Some a \<longrightarrow> active_key a = k)
      \<and> sessions_keyed (vm_sessions st))"

subsection \<open>Lemmas\<close>

lemma new_video_keyed [simp]: "video_keyed (get_session_id m) (new_video m)"
  unfolding video_keyed_def new_video_def get_session_id_def suffix_def
  by (rule exI [of _ "msg_user_id m"]) simp

lemma video_keyed_upd [simp]:
  "video_keyed k (v\<lparr>v_status := s\<rparr>) = video_keyed k v"
  "video_keyed k (v\<lparr>v_offline_listener := b\<rparr>) = video_keyed k v"
  "video_keyed k (v\<lparr>v_status := s, v_offline_listener := b\<rparr>) = video_keyed k v"
  by (simp_all add: video_keyed_def)

lemma sessions_keyed_update [simp]:
  "sessions_keyed xs \<Longrightarrow> video_keyed k v \<Longrightarrow> sessions_keyed (AList.update k v xs)"
  unfolding sessions_keyed_def by (induction xs) auto

lemma sessions_keyed_delete [simp]: "sessions_keyed xs \<Longrightarrow> sessions_keyed (AList.delete k xs)"
  unfolding sessions_keyed_def by (induction xs) auto

lemma sessions_keyed_map_entry [simp]:
  "sessions_keyed xs \<Longrightarrow> (\<And>v. video_keyed k (f v) = video_keyed k v) \<Longrightarrow> sessions_keyed (AList.map_entry k f xs)"
  unfolding sessions_keyed_def by (induction xs) auto

lemma queue_of_set [simp]:
  "queue_of (st\<lparr>vm_queues := (vm_queues st)(k \<mapsto> q)\<rparr>) k' = (if k' = k then q else queue_of st k')"
  by (simp add: queue_of_def)

lemma vm_typedI:
  "(\<And>k t. t \<in> set (queue_of st k) \<Longrightarrow> task_key t = k) \<Longrightarrow>
   (\<And>k a. vm_active st k = Some a \<Longrightarrow> active_key a = k) \<Longrightarrow>
   sessions_keyed (vm_sessions st) \<Longrightarrow> vm_typed st"
  by (auto simp: vm_typed_def)

lemma vm_typedD:
  assumes "vm_typed st"
  shows "t \<in> set (queue_of st k) \<Longrightarrow> task_key t = k"
    and "vm_active st k = Some a \<Longrightarrow> active_key a = k"
    and "sessions_keyed (vm_sessions st)"
  using assms by (auto simp: vm_typed_def)

lemma begin_task_typed:
  assumes "vm_typed st" "task_key t = k"
  shows "vm_typed (fst (fst (begin_task k t st)))"
  using assms by (cases t) (auto simp: vm_typed_def begin_task_def close_session_begin_def start_error_def
      count_error_def delete_ice_queue_def queue_of_def split: option.splits)

lemma pump_typed:
  "vm_typed st \<Longrightarrow> \<forall>t\<in>set ts. task_key t = k \<Longrightarrow> vm_typed (fst (pump k ts st))"
proof (induction ts arbitrary: st)
  case Nil then show ?case by (auto simp: vm_typed_def queue_of_def)
next
  case (Cons t ts)
  have st1: "vm_typed (fst (fst (begin_task k t st)))" using Cons.prems by (intro begin_task_typed) auto
  show ?case
  proof (cases "snd (begin_task k t st)")
    case True with Cons.IH [OF st1] Cons.prems show ?thesis
      by (simp del: pump.simps add: pump_Cons_sel Let_def)
  next
    case False with st1 Cons.prems show ?thesis
      by (auto simp del: pump.simps simp add: pump_Cons_sel Let_def vm_typed_def queue_of_def)
  qed
qed

lemma enqueue_typed:
  assumes ty: "vm_typed st" and kt: "task_key t = k"
  shows "vm_typed (fst (enqueue k t st))"
proof -
  have q: "\<forall>t'\<in>set (queue_of st k @ [t]). task_key t' = k" using ty kt by (simp add: vm_typed_def)
  show ?thesis
  proof (cases "vm_active st k = None")
    case True with pump_typed [OF ty q] show ?thesis by (simp add: enqueue_def)
  next
    case False
    show ?thesis unfolding enqueue_busy [OF False] fst_conv
      by (rule vm_typedI) (use ty q in \<open>auto dest: vm_typedD split: if_split_asm\<close>)
  qed
qed

lemma resume_task_active_key:
  assumes "resume_task k r st = Some ((st1, es), d)" "\<forall>a. vm_active st k = Some a \<longrightarrow> active_key a = k"
    and "vm_active st1 k = Some a'"
  shows "active_key a' = k"
  using assms
  by (auto simp: resume_defs Let_def split: option.splits active.splits vreply.splits sum.splits prod.splits)

lemma resume_task_keyed:
  assumes "resume_task k r st = Some ((st1, es), d)" "\<forall>a. vm_active st k = Some a \<longrightarrow> active_key a = k"
    and "sessions_keyed (vm_sessions st)"
  shows "sessions_keyed (vm_sessions st1)"
  using assms
  by (auto simp: resume_defs Let_def split: option.splits active.splits vreply.splits sum.splits prod.splits)

lemma resume_task_typed:
  assumes res: "resume_task k r st = Some ((st1, es), d)" and ty: "vm_typed st"
  shows "vm_typed st1"
proof (rule vm_typedI)
  have ak: "\<forall>a. vm_active st k = Some a \<longrightarrow> active_key a = k" using ty by (auto dest: vm_typedD)
  note fr = resume_task_frame [OF res]
  fix k'
  have "queue_of st1 k' = queue_of st k'" using fr(1) by (simp add: queue_of_def)
  then show "t \<in> set (queue_of st1 k') \<Longrightarrow> task_key t = k'" for t
    using ty by (auto dest: vm_typedD)
  show "vm_active st1 k' = Some a \<Longrightarrow> active_key a = k'" for a
  proof (cases "k' = k")
    case True then show "vm_active st1 k' = Some a \<Longrightarrow> active_key a = k'"
      using resume_task_active_key [OF res ak] by simp
  next
    case False then show "vm_active st1 k' = Some a \<Longrightarrow> active_key a = k'"
      using fr(2) [OF False] ty by (auto dest: vm_typedD)
  qed
  show "sessions_keyed (vm_sessions st1)" using resume_task_keyed [OF res ak] ty by (auto dest: vm_typedD)
qed

lemma vm_typed_frame:
  "vm_typed st \<Longrightarrow> vm_queues st' = vm_queues st \<Longrightarrow> vm_active st' = vm_active st \<Longrightarrow>
   (sessions_keyed (vm_sessions st) \<Longrightarrow> sessions_keyed (vm_sessions st')) \<Longrightarrow> vm_typed st'"
  by (simp add: vm_typed_def queue_of_def)

lemma vm_reply_typed:
  assumes ty: "vm_typed st" shows "vm_typed (fst (vm_reply k r st))"
proof (cases "resume_task k r st")
  case None then show ?thesis using ty by (simp add: vm_reply_def)
next
  case (Some res)
  then obtain st1 es d where res: "resume_task k r st = Some ((st1, es), d)" by (metis prod.collapse)
  have ty1: "vm_typed st1" by (rule resume_task_typed [OF res ty])
  show ?thesis
  proof (cases d)
    case True
    let ?st2 = "st1\<lparr>vm_active := (vm_active st1)(k := None)\<rparr>"
    have ty2: "vm_typed ?st2"
      by (rule vm_typedI) (use ty1 in \<open>auto dest: vm_typedD split: if_split_asm\<close>)
    have "\<forall>t\<in>set (queue_of ?st2 k). task_key t = k" using ty2 by (auto dest: vm_typedD)
    from pump_typed [OF ty2 this] True res show ?thesis
      by (simp add: vm_reply_def Let_def case_prod_beta)
  next
    case False with res ty1 show ?thesis by (simp add: vm_reply_def)
  qed
qed

lemma kill_sessions_typed: "vm_typed st \<Longrightarrow> vm_typed (fst (kill_sessions c xs st))"
proof (induction xs arbitrary: st)
  case (Cons p xs)
  obtain k v where p: "p = (k, v)" by fastforce
  show ?case using Cons.IH Cons.prems enqueue_typed [OF Cons.prems, of "TClose k" k]
    by (simp add: p case_prod_beta)
qed simp

lemma on_message_typed: "vm_typed st \<Longrightarrow> vm_typed (fst (on_message cfg m st))"
proof -
  assume ty: "vm_typed st"
  let ?st = "st\<lparr>vm_reqs := Suc (vm_reqs st)\<rparr>"
  have ty': "vm_typed ?st" using ty by (rule vm_typed_frame) (simp_all add: vm_typed_def)
  have ice: "vm_typed (fst (handle_ice_candidate m ?st))"
    using ty' by (rule vm_typed_frame)
      (auto simp: handle_ice_candidate_def fetch_ice_queue_def Let_def vm_typed_def split: option.split prod.split)
  have err: "vm_typed (count_error i e ?st)" for i e
    using ty' by (rule vm_typed_frame) (simp_all add: count_error_def vm_typed_def)
  show ?thesis
    using enqueue_typed [OF ty', of "TStart m" "get_session_id m"] enqueue_typed [OF ty', of "TStop m" "get_session_id m"]
      enqueue_typed [OF ty', of "TAnswer m" "get_session_id m"] ice err kill_sessions_typed [OF ty'] ty'
    by (simp add: on_message_def Let_def handle_invalid_request_def kill_connection_sessions_def)
qed

lemma vm_step_typed: "vm_typed st \<Longrightarrow> vm_typed (fst (vm_step cfg st e))"
proof (cases e)
  case (VmOffline k)
  assume ty: "vm_typed st"
  then show ?thesis
    by (rule vm_typed_frame) (auto simp: VmOffline media_server_offline_def count_error_def vm_typed_def
        split: option.split)
next
  case (VmCamBroadcast stream uid)
  assume "vm_typed st" then show ?thesis by (rule vm_typed_frame) (simp_all add: VmCamBroadcast vm_typed_def)
qed (simp_all add: on_message_typed vm_reply_typed)

lemma vm_run_typed: "vm_typed st \<Longrightarrow> vm_typed (fst (vm_run cfg st es))"
proof (induction es arbitrary: st)
  case (Cons e es)
  then show ?case using vm_step_typed [OF Cons.prems, of cfg e] by (simp add: case_prod_beta)
qed simp

lemma vm_init_typed: "vm_typed vm_init"
  by (simp add: vm_typed_def vm_init_def queue_of_def sessions_keyed_def)


subsection \<open>Properties\<close>

text \<open>
  C11: termination of the lifecycle: every reply that the running task of a key accepts,
  success or failure, strictly lowers the key's \<open>pending\<close> measure (three per queued
  task plus the calls the running task may still make).
\<close>

theorem reply_makes_progress:
  assumes "vm_active st k = Some a" "matches a r"
  shows "pending k (fst (vm_reply k r st)) < pending k st"
proof -
  obtain st1 es d where res: "resume_task k r st = Some ((st1, es), d)"
    and q: "vm_queues st1 = vm_queues st" and dec: "\<not> d \<longrightarrow> remaining (vm_active st1 k) < remaining (Some a)"
    using resume_matching [OF assms] by blast
  show ?thesis by (rule vm_reply_pending [OF assms(1) res q dec])
qed

theorem reply_makes_progress_witness:
  "pending ''u1-c1-share'' (fst (vm_reply ''u1-c1-share'' (RPermission (Some (PERMISSION_DENIED 403))) (fst (vm_run witness_cfg vm_init [VmMessage witness_vmsg, VmMessage (witness_vmsg\<lparr>msg_id := ''stop''\<rparr>)])))) < pending ''u1-c1-share'' (fst (vm_run witness_cfg vm_init [VmMessage witness_vmsg, VmMessage (witness_vmsg\<lparr>msg_id := ''stop''\<rparr>)]))"
  by (rule reply_makes_progress [where a = "WaitPermission witness_vmsg"])
    (simp_all add: vm_defs witness_vmsg_def get_session_id_def permission_kind_def vm_init_def witness_cfg_def)

text \<open>
  C12: typing of the manager state.  In every reachable state, the tasks queued under a key,
  the suspended continuation of a key, and the videos stored under a key all belong to that
  key: a video under key \<open>k\<close> has \<open>k\<close> ending in \<open>-camera-role\<close> of the video.
\<close>

theorem vm_reachable_typed: "vm_typed (fst (vm_run cfg vm_init es))"
  using vm_init_typed by (rule vm_run_typed)

theorem vm_reachable_typed_witness:
  "vm_typed (fst (vm_run witness_cfg vm_init [VmMessage witness_vmsg, VmReply ''u1-c1-share'' (RPermission None)]))"
  by (rule vm_reachable_typed)

end
