(* ===== verification/Audio_Metrics.thy ===== *)
theory Audio_Metrics
  imports Prelude
begin

text \<open>
  The audio metric registry (\<open>src/unnamed/part_000\<close>): the three metric names
  \<open>SFUA_NAMES\<close>, and \<open>buildDefaultMetrics\<close>, which builds the registry once and
  keeps it in the module variable \<open>AUDIO_METRICS\<close>.  The module state is that
  variable (\<open>None\<close> while it is \<open>null\<close> or \<open>undefined\<close>, as \<open>== null\<close> tests
  both), and a call returns the new state, the registry, and the metrics it constructed.
  \<open>prom-client\<close> and \<open>injectMetrics\<close> are libraries the file only calls.
\<close>

datatype metric_kind = Gauge | Counter

record metric =
  metric_name :: string
  metric_kind :: metric_kind
  metric_labels :: "string list"

definition SFUA_SESSIONS :: string where "SFUA_SESSIONS = ''sfu_audio_sessions''"
definition SFUA_REQS :: string where "SFUA_REQS = ''sfu_audio_reqs_total''"
definition SFUA_ERRORS :: string where "SFUA_ERRORS = ''sfu_audio_errors_total''"

definition default_metrics :: "metric list" where
  "default_metrics =
     [\<lparr>metric_name = SFUA_SESSIONS, metric_kind = Gauge, metric_labels = []\<rparr>,
      \<lparr>metric_name = SFUA_REQS, metric_kind = Counter, metric_labels = []\<rparr>,
      \<lparr>metric_name = SFUA_ERRORS, metric_kind = Counter, metric_labels = [''method'', ''errorCode'']\<rparr>]"

type_synonym registry = "metric list option"

text \<open>\<open>buildDefaultMetrics\<close>: the new module state, the registry returned, the metrics constructed.\<close>

definition build_default_metrics :: "registry \<Rightarrow> registry \<times> metric list \<times> metric list" where
  "build_default_metrics r =
     (case r of
        None \<Rightarrow> (Some default_metrics, default_metrics, default_metrics)
      | Some ms \<Rightarrow> (Some ms, ms, []))"

text \<open>\<open>k\<close> calls in a row, collecting the metrics constructed.\<close>

fun build_n :: "nat \<Rightarrow> registry \<Rightarrow> registry \<times> metric list" where
  "build_n 0 r = (r, [])"
| "build_n (Suc n) r =
     (let (r1, _, made) = build_default_metrics r; (r2, made2) = build_n n r1 in (r2, made @ made2))"

text \<open>
  Loading the module runs \<open>injectMetrics(buildDefaultMetrics())\<close> and exports the
  module variable: the state every later call starts from.
\<close>

definition audio_metrics_module :: registry where
  "audio_metrics_module = fst (build_default_metrics None)"

subsection \<open>Lemmas\<close>

lemma build_n_Some: "build_n n (Some ms) = (Some ms, [])"
  by (induction n) (simp_all add: build_default_metrics_def)

text \<open>
  However often the registry is built from the initial module state, each metric is
  constructed exactly once, and the registry returned is the default one.
\<close>

theorem build_default_metrics_once:
  "0 < n \<Longrightarrow> build_n n None = (Some default_metrics, default_metrics)"
  by (cases n) (simp_all add: build_default_metrics_def build_n_Some)

lemma audio_metrics_module_built:
  "audio_metrics_module = Some default_metrics
   \<and> build_default_metrics audio_metrics_module = (audio_metrics_module, default_metrics, [])"
  by (simp add: audio_metrics_module_def build_default_metrics_def)

theorem default_metric_names_distinct: "distinct (map metric_name default_metrics)"
  by (simp add: default_metrics_def SFUA_SESSIONS_def SFUA_REQS_def SFUA_ERRORS_def)

end
