(* ===== verification/Spec2Isabelle.thy ===== *)
theory Spec2Isabelle
  imports Audio_Meeting Video_Lifecycle Audio_Metrics
begin

text \<open>
  \<^bold>\<open>A shallow model of the bbb-webrtc-sfu session core.\<close>

  The repository snapshot holds three source files: the full-audio endpoint
  \<open>ClientAudioStTransceiver\<close> and the per-client \<open>AudioSession\<close> (both in
  \<open>src/lib/audio/client-static-transceiver.js\<close>, lines 1--444 and 445--724), the
  video dispatcher \<open>VideoManager\<close> (\<open>src/lib/video/VideoManager.js\<close>) and the audio
  metrics registry (\<open>src/unnamed/part_000\<close>).  The endpoint talks to the Media Control
  Server (MCS) gateway, the session owns one endpoint and forwards the client's requests
  to it, and the manager routes bus messages to per-session lifecycle queues.

  \<^bold>\<open>Theories.\<close>
  \<^item> \<open>Prelude\<close>: identifier types, JavaScript truthiness of ids (\<open>truthy_id\<close>),
    the \<open>effect_simps\<close> and \<open>step_simps\<close> collections.
  \<^item> \<open>Sfu_Interface\<close>: the interfaces the components share: the error catalogue and
    its normalization (\<open>_handleError\<close>, modelled from spec section 7 since
    \<open>errors.js\<close> is not in the snapshot), the MCS calls, the client frames, the bridge
    calls and upward events; each operation returns the list of these effects in the
    order the code performs them, and \<open>ice_sent\<close>, \<open>frames_to\<close>, \<open>mcs_calls\<close>
    project an effect log.
  \<^item> \<open>Transceiver\<close>: the endpoint.  The record \<open>transceiver\<close> holds the fields of
    the class (\<open>mcsUserId\<close>, \<open>mediaId\<close>, the two timeout handles as \<open>timer\<close>,
    \<open>_candidatesQueue\<close>, \<open>transceiverBridge\<close>, the listeners).  Each method is one
    definition (\<open>on_ice_candidate\<close>, \<open>flush_candidates_queue\<close>, the watchdog
    handlers, \<open>media_state_webrtc\<close>, \<open>process_answer\<close>, \<open>tr_dtmf\<close>,
    \<open>tr_restart_ice\<close>, \<open>tr_stop\<close>); the asynchronous \<open>start\<close> and
    \<open>_negotiateTransceiver\<close> are split at every \<open>await\<close> into \<open>tr_start\<close>,
    \<open>on_wait_connection\<close>, \<open>on_join\<close>, \<open>on_publish\<close>, \<open>on_bridge_started\<close>,
    \<open>on_consume\<close>, so that the event loop may interleave other handlers between them;
    \<open>stop\<close> is split at its \<open>await mcs.unpublish\<close> into \<open>tr_stop\<close> and
    \<open>on_unpublished\<close>, with \<open>tr_stops_waiting\<close> counting the suspended calls.
    \<open>tr_step\<close> dispatches one event and \<open>tr_run\<close> runs a list of events: the
    interleavings are the lists.  The replies of the MCS are inputs of the events
    (\<open>TrJoin (Inl e)\<close> is a failed join), so every error path is a branch.

  \<^bold>\<open>What is proved of the endpoint.\<close>
  The invariant \<open>tr_inv\<close> holds in every reachable state (rule: one preservation
  lemma per operation, then the summary by cases on the event, as an invariant
  of a step function).  The ICE channel refines a FIFO: on stop-free runs the forwarded
  candidates followed by the queue are the queue followed by the arrivals
  (\<open>tr_run_ice_order\<close>), and on every run they are a subsequence of them
  (\<open>tr_run_ice_subseq\<close>).  Start is traced on its success path and every failure
  yields a catalogued error.  The watchdogs are idempotent and cleared by their positive
  transition.  Four behaviours of the code that the spec words differently are proved
  as theorems: the media handlers survive \<open>stop\<close>, a fired watchdog is never
  re-armed until cleared, \<open>stop\<close> twice unpublishes twice, and \<open>restartIce\<close>
  before start asks the MCS to restart a null media.  The bridge of a published endpoint
  is only stopped and released when the unpublish reply comes, success or failure, and
  once however many stops were suspended.

  \<^bold>\<open>The session and the bridge registry.\<close>
  \<open>Audio_Session\<close> models \<open>AudioSession\<close> (lines 445--724): the record
  \<open>audio_session\<close> keeps the endpoint object (\<open>as_endpoint\<close>) apart from the
  \<open>clientEndpoint\<close> slot (\<open>as_slot\<close>), since \<open>stop\<close> empties the slot while a
  suspended \<open>start\<close> still holds the object; \<open>as_start\<close> dispatches on the role to
  \<open>transceive\<close> or \<open>listen\<close>, \<open>as_endpoint_event\<close> resumes the start on the
  endpoint's replies, and \<open>as_stop\<close>, \<open>disconnect_user\<close>, \<open>as_dtmf\<close>,
  \<open>as_restart_ice\<close>, \<open>as_flush_candidates_queue\<close> delegate with the defaults of
  the code; \<open>as_final_detach\<close> removes the session's listeners.  The session's
  \<open>stop\<close> awaits the endpoint's: \<open>stop_then\<close> (called by \<open>as_stop\<close> and
  \<open>disconnect_user\<close>) keeps the endpoint in the slot while the endpoint's stop is
  suspended and records the suspended call in \<open>as_stop_conts\<close>; the unpublish reply
  (\<open>as_unpublished\<close>) resumes it, empties the slot and, for \<open>disconnectUser\<close>,
  sends the close frame (\<open>finish_stop\<close>).  \<open>Consumer_Bridge\<close> models
  the meeting-to-bridge store and \<open>_startConsumerBridge\<close> split at its await.  Proved:
  the session invariant on every run, idempotent stop once a stop has completed, the
  fullaudio gate, the re-emission of one \<open>MEDIA_SERVER_OFFLINE\<close>, the order of a
  disconnection (unpublish, then on its reply the bridge release and the close frame),
  and, as theorems about the code, that early candidates of a listen-only session are
  dropped, that a candidate sent during a stop reaches the media being unpublished, that
  a second stop during the first unpublishes again, that a stop during a start lets the
  start go on to consume when the bridge reply comes first, that a stored bridge is never
  released, and that two interleaved acquisitions start the bridge twice.

  \<^bold>\<open>Sessions sharing the bridge store.\<close>
  \<open>Audio_Meeting\<close> composes the sessions: the audio manager's table (not in the
  snapshot, modelled from spec section 4.1) maps session ids to \<open>audio_session\<close>s that
  all use one consumer bridge store; \<open>session_step\<close> routes an event to the session of
  its id (an unknown id changes nothing), runs \<open>as_step\<close> on the shared store and tags
  the effects with the session id, and \<open>meeting_run\<close> runs any interleaving.  The
  frame lemmas (a session step reads and writes the store only at its own meeting, and
  keeps the session's id, meeting and role) give the composition theorem: a session
  whose meeting no other session shares ends, on every interleaving, in the state and
  with the effects of its run alone (\<open>meeting_non_interference\<close>, a simulation by
  induction on the interleaving).  The table invariant \<open>meeting_inv\<close> (each session
  under its own id with \<open>as_inv\<close>, and a stored bridge for every started listen-only
  session) holds on every interleaving.  Within one meeting the sessions meet in the
  store: a second listener reuses a running bridge, and a bridge whose first start
  failed stays stored, still starting, and is started again by the next listener.

  \<^bold>\<open>The video manager.\<close>
  \<open>Video_Common\<close> holds the pure helpers of \<open>VideoManager.js\<close>: the message record,
  \<open>get_session_id\<close>, \<open>get_video_specs\<close>, \<open>is_video_instance_ready\<close> and the
  external-source normalization (the two regular expressions as \<open>is_external_user\<close>
  and \<open>strip_sip\<close>).  \<open>Video_Manager\<close> holds the manager state \<open>vm_state\<close>:
  the session table as an association list (a JavaScript \<open>Map\<close> keeps insertion
  order), one lifecycle queue and one ICE queue per key, the counters.  The parts of
  \<open>BaseManager\<close> it calls are modelled from spec section 4.1.  \<open>handleStart\<close> and
  \<open>_closeSession\<close> are split at their awaits: a key's running task is a continuation
  (\<open>active\<close>), the replies of the permission oracle and of \<open>Video\<close> are inputs
  (\<open>vreply\<close>), and \<open>pump\<close> begins the queued tasks of a key one at a time.
  Proved: the invariant \<open>vm_inv\<close> (one table entry per key, no queue waits without a
  running task), the end-to-end scenarios of spec section 8 (happy publish, permission
  denied, ICE before start for any number of candidates, stale replacement, outage,
  close of a connection), that a stop waits for the start of its key, the error routing
  of invalid requests, and, about the code: the readiness test is a tautology, a failed
  answer sends no frame, a failed start leaves its video stored, an outage does not stop
  the session.  \<open>Video_Lifecycle\<close> proves properties of the lifecycle machinery as a
  whole: a typing invariant (every queued task, continuation and stored video belongs to
  its key) and termination (every accepted reply, success or failure, lowers the
  measure \<open>pending\<close>: three per queued task plus the calls the running task may still
  make, at most three for a start).

  \<^bold>\<open>Metrics.\<close>  \<open>Audio_Metrics\<close> models \<open>buildDefaultMetrics\<close> of
  \<open>src/unnamed/part_000\<close> with the module variable as state: the registry is built
  once however often it is asked for.  The video metrics are the counters
  \<open>vm_reqs\<close> and \<open>vm_errors\<close> of the manager state.

  \<^bold>\<open>Not modelled.\<close>  The MCS gateway, the bus gateway, \<open>BaseProvider\<close>,
  \<open>BaseManager\<close>, \<open>Video\<close>, \<open>FSTransceiverBridge\<close> and \<open>ClientAudioConsumer\<close>
  are not in the snapshot; where a modelled component calls them, the call is an effect
  of the log and its reply an input, with the behaviour the spec states.  Logging,
  Prometheus export and configuration loading have no behaviour a theorem could
  observe, and the getters, the \<open>id\<close> setter and \<open>getMetadataFromMessage\<close> only copy
  fields.  The endpoint's \<open>_getFullLogMetadata\<close> is the exception: it reads
  \<open>transceiverBridge.bridgeMediaStatus\<close>, so once a stop has set the bridge to
  \<open>null\<close> every logger call that takes it throws a \<open>TypeError\<close>.  The model leaves
  the logger calls out and so describes the endpoint while it holds its bridge: the
  handlers that still run after a completed stop (media-state events, a watchdog armed
  during the unpublish, the catch blocks of a start that outlives a stop, a second
  resumed stop) throw in the code where the model goes on; this is recorded as a finding.
  No fuel is used: every loop of the code is a traversal of a finite list and is
  modelled by structural recursion.  The \<open>AudioManager\<close> is not in the snapshot either: its session table
  (\<open>Audio_Meeting\<close>) is modelled from spec section 4.1.  When several stops of one
  session are suspended on unpublish, each reply resumes the oldest: the MCS replies are
  inputs, and the model does not tell two replies of the same call apart.
\<close>

end
